theory Spec2Isabelle
  imports Main "HOL-Library.AList" "HOL-Library.Multiset"
begin

section \<open>React values\<close>

text \<open>
  A slot component (\<^verbatim>\<open>Slot<T>\<close> in \<^verbatim>\<open>types.ts\<close>) is a function object, and the
  classifier compares it to a child's \<^verbatim>\<open>type\<close> with \<^verbatim>\<open>===\<close>, that is by reference.
  \<open>UserComponent n\<close> is the caller's function object number \<open>n\<close>;
  \<open>DefaultWrapper f k\<close> is the arrow function that factory call number \<open>f\<close>
  creates for slot \<open>k\<close> when the configuration gives no \<^verbatim>\<open>component\<close>.
\<close>

type_synonym name = string

datatype slot_fn = UserComponent nat | DefaultWrapper nat name

datatype elem_type = HostTag string | FragmentType | ComponentType slot_fn

text \<open>
  A \<^verbatim>\<open>ReactNode\<close> as the callback of \<^verbatim>\<open>Children.forEach\<close> and the truthiness test on
  \<^verbatim>\<open>defaultContent\<close> see it. An element keeps its \<^verbatim>\<open>type\<close> and its own children.
\<close>

datatype react_elem = Element (el_type: elem_type) (el_children: "react_node list")
  and react_node = NElem react_elem | NText string | NNum int | NBool bool | NNull | NUndefined


text \<open>JavaScript truthiness of a node: \<^verbatim>\<open>undefined\<close>, \<^verbatim>\<open>null\<close>, \<^verbatim>\<open>false\<close>, \<^verbatim>\<open>0\<close> and \<^verbatim>\<open>""\<close> are falsy.\<close>

fun truthy :: "react_node \<Rightarrow> bool" where
  "truthy (NElem e) = True"
| "truthy (NText s) = (s \<noteq> [])"
| "truthy (NNum n) = (n \<noteq> 0)"
| "truthy (NBool b) = b"
| "truthy NNull = False"
| "truthy NUndefined = False"

text \<open>
  A JavaScript object with string keys is the association list of its own enumerable
  properties, in the order of \<^verbatim>\<open>Object.keys\<close>; reading an own property \<^verbatim>\<open>o[k]\<close> is
  \<open>map_of o k\<close>.
\<close>

type_synonym 'v js_object = "(string \<times> 'v) list"

definition Object_keys :: "'v js_object \<Rightarrow> string list" where
  "Object_keys obj = map fst obj"

text \<open>
  \<^verbatim>\<open>o[key] = v\<close> on an object whose prototype chain ends in \<^verbatim>\<open>Object.prototype\<close>, as
  the objects created by \<^verbatim>\<open>{}\<close> and the function \<^verbatim>\<open>Component\<close> are. For every key but
  \<^verbatim>\<open>__proto__\<close> the assignment writes the own property: an existing key keeps its place,
  a new one goes last. \<^verbatim>\<open>__proto__\<close> is an accessor inherited from \<^verbatim>\<open>Object.prototype\<close>:
  the assignment calls its setter, which replaces the prototype of \<^verbatim>\<open>o\<close> when \<^verbatim>\<open>v\<close> is
  an object or \<^verbatim>\<open>null\<close> and does nothing otherwise. No own property is created, so
  \<^verbatim>\<open>Object.keys\<close> and \<^verbatim>\<open>Object.entries\<close> never show that key.
\<close>

definition assignProperty :: "string \<Rightarrow> 'v \<Rightarrow> 'v js_object \<Rightarrow> 'v js_object" where
  "assignProperty key v obj = (if key = ''__proto__'' then obj else AList.update key v obj)"

text \<open>
  The per-slot configuration. An optional boolean that is absent reads as \<^verbatim>\<open>undefined\<close>,
  which the code only ever tests for truthiness, so it is \<open>False\<close> here; an absent
  \<^verbatim>\<open>defaultContent\<close> is \<open>NUndefined\<close>. The legacy file declares the first three
  fields, \<^verbatim>\<open>types.ts\<close> adds \<^verbatim>\<open>component\<close>.
\<close>

record LegacySlotConfig =
  isRequired :: bool
  multiple :: bool
  defaultContent :: react_node

record SlotConfig = LegacySlotConfig +
  component :: "slot_fn option"

text \<open>What \<^verbatim>\<open>slotElements[key]\<close> can hold: \<^verbatim>\<open>ReactElement[] | ReactElement | null\<close>, or nothing.\<close>

datatype slot_value = SlotUndefined | SlotNull | SlotElement react_elem | SlotArray "react_elem list"

definition slot_get :: "slot_value js_object \<Rightarrow> name \<Rightarrow> slot_value" where
  "slot_get obj key = (case map_of obj key of None \<Rightarrow> SlotUndefined | Some v \<Rightarrow> v)"

text \<open>
  \<^verbatim>\<open>slotElements[key] = v\<close>. The code reads and writes \<^verbatim>\<open>slotElements\<close> key by key and
  never enumerates it, so its list keeps, for every key written, the value that reading
  \<^verbatim>\<open>slotElements[key]\<close> returns. For every key but \<^verbatim>\<open>__proto__\<close> that is the value
  written. \<^verbatim>\<open>slotElements['__proto__'] = v\<close> makes \<^verbatim>\<open>v\<close> the prototype of the object, and
  \<^verbatim>\<open>slotElements['__proto__']\<close> reads the prototype back: \<^verbatim>\<open>v\<close> itself when it is an
  array or an element. After \<^verbatim>\<open>null\<close> was written (the code does so only while it
  initialises the slots, once per key) the object has no prototype and so no \<^verbatim>\<open>__proto__\<close>
  accessor: the read gives \<^verbatim>\<open>undefined\<close>, and the assignment of a child creates an
  ordinary property that reads as written.
\<close>

definition writeSlot :: "name \<Rightarrow> slot_value \<Rightarrow> slot_value js_object \<Rightarrow> slot_value js_object" where
  "writeSlot key v slotElems =
     AList.update key (if key = ''__proto__'' \<and> v = SlotNull then SlotUndefined else v) slotElems"

datatype console_call = ConsoleWarn string | ConsoleError string

datatype js_error = TypeError

text \<open>The properties of the object handed to the render function.\<close>

datatype 'p js_value = JProp 'p | JSlots "slot_value js_object" | JElements "react_elem list"

text \<open>
  One render pass: what was written to the console, the arguments of every call of the
  render function, and the element the component returns.
\<close>

record 'p render_pass =
  console_log :: "console_call list"
  render_calls :: "'p js_value js_object list"
  returned :: react_elem

text \<open>The variables of \<^verbatim>\<open>Component\<close> that the classification loop updates.\<close>

record classification =
  slotElements :: "slot_value js_object"
  nonSlotChildren :: "react_elem list"
  console :: "console_call list"

section \<open>Array helpers\<close>

text \<open>\<^verbatim>\<open>xs.forEach(f)\<close> with a callback that updates state and may throw.\<close>

fun forEach :: "'a list \<Rightarrow> ('s \<Rightarrow> 'a \<Rightarrow> js_error + 's) \<Rightarrow> 's \<Rightarrow> js_error + 's" where
  "forEach [] f s = Inr s"
| "forEach (x # xs) f s = (case f s x of Inl e \<Rightarrow> Inl e | Inr s' \<Rightarrow> forEach xs f s')"

text \<open>\<^verbatim>\<open>xs.filter(p)\<close> with a predicate that may throw.\<close>

fun filterE :: "('a \<Rightarrow> js_error + bool) \<Rightarrow> 'a list \<Rightarrow> js_error + 'a list" where
  "filterE p [] = Inr []"
| "filterE p (x # xs) =
     (case p x of
        Inl e \<Rightarrow> Inl e
      | Inr b \<Rightarrow> (case filterE p xs of
                    Inl e \<Rightarrow> Inl e
                  | Inr ys \<Rightarrow> Inr (if b then x # ys else ys)))"

text \<open>\<^verbatim>\<open>xs.join(sep)\<close>.\<close>

fun join :: "string \<Rightarrow> string list \<Rightarrow> string" where
  "join sep [] = []"
| "join sep [x] = x"
| "join sep (x # y # ys) = x @ sep @ join sep (y # ys)"

definition duplicateWarning :: "name \<Rightarrow> string" where
  "duplicateWarning slotName =
     ''Multiple children provided for slot \"'' @ slotName @
     ''\" but it's not configured to accept multiple children. Only the last child will be used.''"

definition missingMessage :: "name list \<Rightarrow> string" where
  "missingMessage missingRequiredSlots =
     ''Required slots missing: '' @ join '', '' missingRequiredSlots"

section \<open>The builder-style factory\<close>

text \<open>
  STEP 1: one slot component per key, the configured one or a generated wrapper.
  Reading a property of \<^verbatim>\<open>slotsConfig[slotKey]\<close> throws when the entry is missing.
  The assignment \<^verbatim>\<open>slotComponents[slotKey] = ...\<close> creates no entry for the key \<^verbatim>\<open>__proto__\<close>.
\<close>

definition generateSlotComponent ::
  "nat \<Rightarrow> SlotConfig js_object \<Rightarrow> slot_fn js_object \<Rightarrow> name \<Rightarrow> js_error + slot_fn js_object" where
  "generateSlotComponent fid slotsConfig slotComponents slotKey =
     (case map_of slotsConfig slotKey of
        None \<Rightarrow> Inl TypeError
      | Some config \<Rightarrow>
          Inr (assignProperty slotKey
                 (case component config of
                    Some c \<Rightarrow> c
                  | None \<Rightarrow> DefaultWrapper fid slotKey)
                 slotComponents))"

definition slotComponents :: "nat \<Rightarrow> SlotConfig js_object \<Rightarrow> js_error + slot_fn js_object" where
  "slotComponents fid slotsConfig =
     forEach (Object_keys slotsConfig) (generateSlotComponent fid slotsConfig) []"

text \<open>STEP 2.1: every slot starts as an empty array, as the wrapped default content, or as \<^verbatim>\<open>null\<close>.\<close>

definition initSlot ::
  "SlotConfig js_object \<Rightarrow> slot_value js_object \<Rightarrow> name \<Rightarrow> js_error + slot_value js_object" where
  "initSlot slotsConfig slotElems slotKey =
     (case map_of slotsConfig slotKey of
        None \<Rightarrow> Inl TypeError
      | Some config \<Rightarrow>
          if multiple config then Inr (writeSlot slotKey (SlotArray []) slotElems)
          else Inr (writeSlot slotKey
                      (if truthy (defaultContent config)
                       then SlotElement (Element FragmentType [defaultContent config])
                       else SlotNull)
                      slotElems))"

text \<open>The \<^verbatim>\<open>find\<close> over \<^verbatim>\<open>Object.entries(slotComponents)\<close>: the first entry whose component is the child's type.\<close>

definition slotEntry :: "slot_fn js_object \<Rightarrow> react_elem \<Rightarrow> (name \<times> slot_fn) option" where
  "slotEntry slotComps child =
     find (\<lambda>(_, slotComponent). ComponentType slotComponent = el_type child) slotComps"

text \<open>
  STEP 2.2, the callback of \<^verbatim>\<open>Children.forEach\<close>. \<^verbatim>\<open>push\<close> exists on arrays only: on
  any other value the call throws; on an array it changes, in place, the array that
  \<^verbatim>\<open>slotElements[slotName]\<close> reads.
\<close>

definition classifyChild ::
  "bool \<Rightarrow> SlotConfig js_object \<Rightarrow> slot_fn js_object \<Rightarrow> classification \<Rightarrow> react_node
     \<Rightarrow> js_error + classification" where
  "classifyChild production slotsConfig slotComps st child =
     (case child of
        NElem e \<Rightarrow>
          (case slotEntry slotComps e of
             Some (slotName, _) \<Rightarrow>
               (case map_of slotsConfig slotName of
                  None \<Rightarrow> Inl TypeError
                | Some config \<Rightarrow>
                    if multiple config then
                      (case slot_get (slotElements st) slotName of
                         SlotArray xs \<Rightarrow>
                           Inr (st\<lparr>slotElements :=
                                  AList.update slotName (SlotArray (xs @ [e])) (slotElements st)\<rparr>)
                       | _ \<Rightarrow> Inl TypeError)
                    else
                      Inr (st\<lparr>console := console st @
                                 (if \<not> production \<and> slot_get (slotElements st) slotName \<noteq> SlotNull
                                     \<and> \<not> truthy (defaultContent config)
                                  then [ConsoleWarn (duplicateWarning slotName)] else []),
                               slotElements :=
                                 writeSlot slotName (SlotElement e) (slotElements st)\<rparr>))
           | None \<Rightarrow> Inr (st\<lparr>nonSlotChildren := nonSlotChildren st @ [e]\<rparr>))
      | _ \<Rightarrow> Inr st)"

text \<open>
  STEP 2.3, the predicate of the \<^verbatim>\<open>filter\<close>. \<^verbatim>\<open>.length\<close> of \<^verbatim>\<open>null\<close> or \<^verbatim>\<open>undefined\<close>
  throws; of an element object it is \<^verbatim>\<open>undefined\<close>, which is not \<^verbatim>\<open>0\<close>.
\<close>

definition isMissing :: "SlotConfig js_object \<Rightarrow> slot_value js_object \<Rightarrow> name \<Rightarrow> js_error + bool" where
  "isMissing slotsConfig slotElems key =
     (case map_of slotsConfig key of
        None \<Rightarrow> Inl TypeError
      | Some config \<Rightarrow>
          if \<not> isRequired config then Inr False
          else if multiple config then
            (case slot_get slotElems key of
               SlotArray xs \<Rightarrow> Inr (length xs = 0)
             | SlotElement _ \<Rightarrow> Inr False
             | _ \<Rightarrow> Inl TypeError)
          else Inr (slot_get slotElems key = SlotNull))"

definition missingRequiredSlots ::
  "SlotConfig js_object \<Rightarrow> slot_value js_object \<Rightarrow> js_error + name list" where
  "missingRequiredSlots slotsConfig slotElems =
     filterE (isMissing slotsConfig slotElems) (Object_keys slotsConfig)"

text \<open>
  STEP 2.4: the slots object for the render function, one assignment
  \<^verbatim>\<open>typeSafeSlots[key] = slotElements[key]\<close> per key; the key \<^verbatim>\<open>__proto__\<close> gets no entry.
\<close>

definition typeSafeSlots :: "name list \<Rightarrow> slot_value js_object \<Rightarrow> slot_value js_object" where
  "typeSafeSlots keys slotElems =
     foldl (\<lambda>acc key. assignProperty key (slot_get slotElems key) acc) [] keys"

text \<open>STEP 2.5: \<^verbatim>\<open>{ ...props, slots: typeSafeSlots, nonSlotChildren }\<close>.\<close>

definition renderProps ::
  "'p js_object \<Rightarrow> slot_value js_object \<Rightarrow> react_elem list \<Rightarrow> 'p js_value js_object" where
  "renderProps props slots leftover =
     AList.update ''nonSlotChildren'' (JElements leftover)
       (AList.update ''slots'' (JSlots slots)
          (map (\<lambda>(k, v). (k, JProp v)) props))"

text \<open>
  The classification part of \<^verbatim>\<open>Component\<close> (STEP 2.1 and 2.2); \<open>children\<close> is the
  sequence of nodes that \<^verbatim>\<open>Children.forEach\<close> hands to its callback.
\<close>

definition classify ::
  "bool \<Rightarrow> SlotConfig js_object \<Rightarrow> slot_fn js_object \<Rightarrow> react_node list
     \<Rightarrow> js_error + classification" where
  "classify production slotsConfig slotComps children =
     (case forEach (Object_keys slotsConfig) (initSlot slotsConfig) [] of
        Inl e \<Rightarrow> Inl e
      | Inr slotElems \<Rightarrow>
          forEach children (classifyChild production slotsConfig slotComps)
            \<lparr>slotElements = slotElems, nonSlotChildren = [], console = []\<rparr>)"

text \<open>
  \<^verbatim>\<open>Component\<close>: classify, validate, build the render input, call the render function
  and return its result inside a fragment. \<open>props\<close> lists the properties of the object
  the component is called with and \<open>children\<close> are the nodes of its \<^verbatim>\<open>children\<close>
  property: the parameter pattern \<^verbatim>\<open>{ children, ...props }\<close> leaves every property but
  \<^verbatim>\<open>children\<close> for the render input.
\<close>

definition Component ::
  "bool \<Rightarrow> SlotConfig js_object \<Rightarrow> slot_fn js_object \<Rightarrow> ('p js_value js_object \<Rightarrow> react_elem)
     \<Rightarrow> 'p js_object \<Rightarrow> react_node list \<Rightarrow> js_error + 'p render_pass" where
  "Component production slotsConfig slotComps renderFn props children =
     (case classify production slotsConfig slotComps children of
        Inl e \<Rightarrow> Inl e
      | Inr st \<Rightarrow>
          (case missingRequiredSlots slotsConfig (slotElements st) of
             Inl e \<Rightarrow> Inl e
           | Inr missing \<Rightarrow>
               let log = console st @
                     (if length missing > 0 \<and> \<not> production
                      then [ConsoleError (missingMessage missing)] else []);
                   rp = renderProps (AList.delete ''children'' props)
                          (typeSafeSlots (Object_keys slotsConfig) (slotElements st))
                          (nonSlotChildren st)
               in Inr \<lparr>console_log = log, render_calls = [rp],
                        returned = Element FragmentType [NElem (renderFn rp)]\<rparr>))"

text \<open>
  STEP 3, \<^verbatim>\<open>Object.entries(slotComponents).forEach(([key, slot]) => { Component[key] = slot })\<close>,
  runs when the component is created. \<^verbatim>\<open>Component\<close> is an arrow function and the file is
  a module, hence strict code. The own properties \<^verbatim>\<open>name\<close> and \<^verbatim>\<open>length\<close> of a function
  are not writable, and \<^verbatim>\<open>caller\<close> and \<^verbatim>\<open>arguments\<close> are accessors inherited from
  \<^verbatim>\<open>Function.prototype\<close> whose setter throws: assigning any of the four throws a
  \<^verbatim>\<open>TypeError\<close>. Any other key is assigned as on a plain object. The result lists the
  static properties that the component has got.
\<close>

definition readOnlyProperties :: "name list" where
  "readOnlyProperties = [''name'', ''length'', ''caller'', ''arguments'']"

definition attachSlot :: "slot_fn js_object \<Rightarrow> name \<times> slot_fn \<Rightarrow> js_error + slot_fn js_object" where
  "attachSlot statics entry =
     (case entry of
        (key, slot) \<Rightarrow>
          if key \<in> set readOnlyProperties then Inl TypeError
          else Inr (assignProperty key slot statics))"

definition staticProperties :: "slot_fn js_object \<Rightarrow> js_error + slot_fn js_object" where
  "staticProperties slotComps = forEach slotComps attachSlot []"

text \<open>
  The call \<^verbatim>\<open>createComponentWithSlots(slotsConfig).render(renderFn)\<close>, which runs STEP 1 and
  STEP 3, followed by one render pass of the component it returns; \<open>fid\<close> numbers the
  factory call. When the factory throws there is no component and no render pass.
\<close>

definition createComponentWithSlots ::
  "nat \<Rightarrow> SlotConfig js_object \<Rightarrow> ('p js_value js_object \<Rightarrow> react_elem)
     \<Rightarrow> bool \<Rightarrow> 'p js_object \<Rightarrow> react_node list \<Rightarrow> js_error + 'p render_pass" where
  "createComponentWithSlots fid slotsConfig renderFn production props children =
     (case slotComponents fid slotsConfig of
        Inl e \<Rightarrow> Inl e
      | Inr slotComps \<Rightarrow>
          (case staticProperties slotComps of
             Inl e \<Rightarrow> Inl e
           | Inr statics \<Rightarrow> Component production slotsConfig slotComps renderFn props children))"

section \<open>The legacy three-argument factory\<close>

text \<open>\<^verbatim>\<open>slotConfig[key] || {}\<close>: a slot without configuration gets the empty one.\<close>

definition emptyConfig :: LegacySlotConfig where
  "emptyConfig = \<lparr>isRequired = False, multiple = False, defaultContent = NUndefined\<rparr>"

definition configOrEmpty :: "LegacySlotConfig js_object \<Rightarrow> name \<Rightarrow> LegacySlotConfig" where
  "configOrEmpty slotConfig key =
     (case map_of slotConfig key of None \<Rightarrow> emptyConfig | Some config \<Rightarrow> config)"

definition legacy_initSlot ::
  "LegacySlotConfig js_object \<Rightarrow> slot_value js_object \<Rightarrow> name \<Rightarrow> js_error + slot_value js_object" where
  "legacy_initSlot slotConfig slotElems slotKey =
     (let config = configOrEmpty slotConfig slotKey in
      if multiple config then Inr (writeSlot slotKey (SlotArray []) slotElems)
      else Inr (writeSlot slotKey
                  (if truthy (defaultContent config)
                   then SlotElement (Element FragmentType [defaultContent config])
                   else SlotNull)
                  slotElems))"

text \<open>The callback of \<^verbatim>\<open>Children.forEach\<close>; the warning is guarded by the slot's current value alone.\<close>

definition legacy_classifyChild ::
  "bool \<Rightarrow> slot_fn js_object \<Rightarrow> LegacySlotConfig js_object \<Rightarrow> classification \<Rightarrow> react_node
     \<Rightarrow> js_error + classification" where
  "legacy_classifyChild production slots slotConfig st child =
     (case child of
        NElem e \<Rightarrow>
          (case slotEntry slots e of
             Some (slotName, _) \<Rightarrow>
               (let config = configOrEmpty slotConfig slotName in
                if multiple config then
                  (case slot_get (slotElements st) slotName of
                     SlotArray xs \<Rightarrow>
                       Inr (st\<lparr>slotElements :=
                              AList.update slotName (SlotArray (xs @ [e])) (slotElements st)\<rparr>)
                   | _ \<Rightarrow> Inl TypeError)
                else
                  Inr (st\<lparr>console := console st @
                             (if \<not> production \<and> slot_get (slotElements st) slotName \<noteq> SlotNull
                              then [ConsoleWarn (duplicateWarning slotName)] else []),
                           slotElements :=
                             writeSlot slotName (SlotElement e) (slotElements st)\<rparr>))
           | None \<Rightarrow> Inr (st\<lparr>nonSlotChildren := nonSlotChildren st @ [e]\<rparr>))
      | _ \<Rightarrow> Inr st)"

text \<open>The predicate of the \<^verbatim>\<open>filter\<close> over \<^verbatim>\<open>Object.keys(slotConfig)\<close>; \<^verbatim>\<open>config?.isRequired\<close> tolerates a missing entry.\<close>

definition legacy_isMissing ::
  "LegacySlotConfig js_object \<Rightarrow> slot_value js_object \<Rightarrow> name \<Rightarrow> js_error + bool" where
  "legacy_isMissing slotConfig slotElems key =
     (case map_of slotConfig key of
        None \<Rightarrow> Inr False
      | Some config \<Rightarrow>
          if \<not> isRequired config then Inr False
          else if multiple config then
            (case slot_get slotElems key of
               SlotArray xs \<Rightarrow> Inr (length xs = 0)
             | SlotElement _ \<Rightarrow> Inr False
             | _ \<Rightarrow> Inl TypeError)
          else Inr (slot_get slotElems key = SlotNull))"

definition legacy_missingRequiredSlots ::
  "LegacySlotConfig js_object \<Rightarrow> slot_value js_object \<Rightarrow> js_error + name list" where
  "legacy_missingRequiredSlots slotConfig slotElems =
     filterE (legacy_isMissing slotConfig slotElems) (Object_keys slotConfig)"

definition legacy_classify ::
  "bool \<Rightarrow> slot_fn js_object \<Rightarrow> LegacySlotConfig js_object \<Rightarrow> react_node list
     \<Rightarrow> js_error + classification" where
  "legacy_classify production slots slotConfig children =
     (case forEach (Object_keys slots) (legacy_initSlot slotConfig) [] of
        Inl e \<Rightarrow> Inl e
      | Inr slotElems \<Rightarrow>
          forEach children (legacy_classifyChild production slots slotConfig)
            \<lparr>slotElements = slotElems, nonSlotChildren = [], console = []\<rparr>)"

text \<open>
  The body of the legacy \<^verbatim>\<open>Component\<close>; \<open>props\<close> and \<open>children\<close> are those of the
  builder's component.
\<close>

definition legacy_Component ::
  "bool \<Rightarrow> slot_fn js_object \<Rightarrow> LegacySlotConfig js_object \<Rightarrow> ('p js_value js_object \<Rightarrow> react_elem)
     \<Rightarrow> 'p js_object \<Rightarrow> react_node list \<Rightarrow> js_error + 'p render_pass" where
  "legacy_Component production slots slotConfig render props children =
     (case legacy_classify production slots slotConfig children of
        Inl e \<Rightarrow> Inl e
      | Inr st \<Rightarrow>
          (case legacy_missingRequiredSlots slotConfig (slotElements st) of
             Inl e \<Rightarrow> Inl e
           | Inr missing \<Rightarrow>
               let log = console st @
                     (if length missing > 0 \<and> \<not> production
                      then [ConsoleError (missingMessage missing)] else []);
                   rp = renderProps (AList.delete ''children'' props)
                          (typeSafeSlots (Object_keys slots) (slotElements st))
                          (nonSlotChildren st)
               in Inr \<lparr>console_log = log, render_calls = [rp],
                        returned = Element FragmentType [NElem (render rp)]\<rparr>))"

text \<open>
  The call \<^verbatim>\<open>createComponentWithSlots(slots, slotConfig, render)\<close> of \<^verbatim>\<open>withSlots.tsx\<close>,
  which attaches the entries of \<^verbatim>\<open>slots\<close> to the component as the builder's STEP 3 does,
  followed by one render pass of the component it returns.
\<close>

definition createComponentWithSlots_legacy ::
  "slot_fn js_object \<Rightarrow> LegacySlotConfig js_object \<Rightarrow> ('p js_value js_object \<Rightarrow> react_elem)
     \<Rightarrow> bool \<Rightarrow> 'p js_object \<Rightarrow> react_node list \<Rightarrow> js_error + 'p render_pass" where
  "createComponentWithSlots_legacy slots slotConfig render production props children =
     (case staticProperties slots of
        Inl e \<Rightarrow> Inl e
      | Inr statics \<Rightarrow> legacy_Component production slots slotConfig render props children)"

section \<open>Vocabulary of the properties\<close>

text \<open>
  The slot names that behave as keys of a dictionary: every name but \<^verbatim>\<open>__proto__\<close>, for
  which the assignments create no entry, and but the four properties of a function that
  STEP 3 cannot assign. \<open>ordinaryNames obj\<close> says that every key of \<open>obj\<close> is such a name.
\<close>

definition ordinaryName :: "name \<Rightarrow> bool" where
  "ordinaryName k \<longleftrightarrow> k \<noteq> ''__proto__'' \<and> k \<notin> set readOnlyProperties"

definition ordinaryNames :: "'v js_object \<Rightarrow> bool" where
  "ordinaryNames obj = list_all ordinaryName (Object_keys obj)"

text \<open>The structured children, in order.\<close>

fun elementsOf :: "react_node list \<Rightarrow> react_elem list" where
  "elementsOf [] = []"
| "elementsOf (NElem e # cs) = e # elementsOf cs"
| "elementsOf (c # cs) = elementsOf cs"

text \<open>The children that match slot \<open>k\<close>, and those that match no slot, in order.\<close>

definition matching :: "slot_fn js_object \<Rightarrow> name \<Rightarrow> react_node list \<Rightarrow> react_elem list" where
  "matching slotComps k cs =
     filter (\<lambda>e. map_option fst (slotEntry slotComps e) = Some k) (elementsOf cs)"

definition unmatched :: "slot_fn js_object \<Rightarrow> react_node list \<Rightarrow> react_elem list" where
  "unmatched slotComps cs = filter (\<lambda>e. slotEntry slotComps e = None) (elementsOf cs)"

text \<open>The \<^verbatim>\<open>slots\<close> and \<^verbatim>\<open>nonSlotChildren\<close> properties that the render function received.\<close>

definition slotsSeen :: "'p render_pass \<Rightarrow> slot_value js_object" where
  "slotsSeen r =
     (case render_calls r of
        [] \<Rightarrow> []
      | rp # _ \<Rightarrow> (case map_of rp ''slots'' of Some (JSlots s) \<Rightarrow> s | _ \<Rightarrow> []))"

definition leftoverSeen :: "'p render_pass \<Rightarrow> react_elem list" where
  "leftoverSeen r =
     (case render_calls r of
        [] \<Rightarrow> []
      | rp # _ \<Rightarrow> (case map_of rp ''nonSlotChildren'' of Some (JElements xs) \<Rightarrow> xs | _ \<Rightarrow> []))"

text \<open>The value a slot starts with (STEP 2.1): the empty array, the default content wrapped in a
  fragment, or \<^verbatim>\<open>null\<close>.\<close>

definition initialValue :: "'a LegacySlotConfig_scheme \<Rightarrow> slot_value" where
  "initialValue config =
     (if multiple config then SlotArray []
      else if truthy (defaultContent config)
           then SlotElement (Element FragmentType [defaultContent config])
           else SlotNull)"

text \<open>An empty slot: \<^verbatim>\<open>null\<close> or the empty array.\<close>

fun emptySlot :: "slot_value \<Rightarrow> bool" where
  "emptySlot SlotNull = True"
| "emptySlot (SlotArray xs) = (xs = [])"
| "emptySlot v = False"

text \<open>The slot \<open>k\<close> is configured as required and its value in \<open>slots\<close> is empty.\<close>

definition requiredAndEmpty ::
  "('a LegacySlotConfig_scheme) js_object \<Rightarrow> slot_value js_object \<Rightarrow> name \<Rightarrow> bool" where
  "requiredAndEmpty cfg slots k =
     (case map_of cfg k of None \<Rightarrow> False | Some config \<Rightarrow> isRequired config \<and> emptySlot (slot_get slots k))"

text \<open>The calls of \<^verbatim>\<open>console.error\<close> among the console output.\<close>

fun isErrorCall :: "console_call \<Rightarrow> bool" where
  "isErrorCall (ConsoleError m) = True"
| "isErrorCall (ConsoleWarn m) = False"

text \<open>The children that a slot value holds, and all the children that a render pass handed to the
  render function, leftover list first.\<close>

fun bucket :: "slot_value \<Rightarrow> react_elem list" where
  "bucket (SlotElement e) = [e]"
| "bucket (SlotArray xs) = xs"
| "bucket v = []"

definition placed :: "'p render_pass \<Rightarrow> react_elem list" where
  "placed r = leftoverSeen r @ concat (map (\<lambda>(k, v). bucket v) (slotsSeen r))"

section \<open>Vocabulary of the proofs\<close>

text \<open>Assigning \<open>f k\<close> to every key \<open>k\<close> of a list, in order: what the initialisation loops and
  the copy into \<^verbatim>\<open>typeSafeSlots\<close> do.\<close>

definition assignAll :: "(string \<Rightarrow> 'v) \<Rightarrow> string list \<Rightarrow> 'v js_object \<Rightarrow> 'v js_object" where
  "assignAll f ks acc = foldl (\<lambda>a k. AList.update k (f k) a) acc ks"

text \<open>The initial value of slot \<open>k\<close> in a registry.\<close>

definition initialOf :: "('a LegacySlotConfig_scheme) js_object \<Rightarrow> name \<Rightarrow> slot_value" where
  "initialOf cfg k = (case map_of cfg k of None \<Rightarrow> SlotNull | Some config \<Rightarrow> initialValue config)"

text \<open>The slot component that STEP 1 gives to key \<open>k\<close>.\<close>

definition wrapperOrComponent :: "nat \<Rightarrow> SlotConfig js_object \<Rightarrow> name \<Rightarrow> slot_fn" where
  "wrapperOrComponent fid cfg k =
     (case map_of cfg k of
        None \<Rightarrow> DefaultWrapper fid k
      | Some config \<Rightarrow> (case component config of Some c \<Rightarrow> c | None \<Rightarrow> DefaultWrapper fid k))"

text \<open>The invariant of the classification loop that keeps \<^verbatim>\<open>push\<close> and \<^verbatim>\<open>.length\<close> from
  throwing: a multiple slot holds an array.\<close>

definition arraysReady :: "('a LegacySlotConfig_scheme) js_object \<Rightarrow> slot_value js_object \<Rightarrow> bool" where
  "arraysReady cfg se =
     (\<forall>k config. map_of cfg k = Some config \<longrightarrow> multiple config \<longrightarrow> (\<exists>xs. slot_get se k = SlotArray xs))"

text \<open>The value of a slot after the children \<open>ms\<close> were routed to it, from its value \<open>old\<close> before.\<close>

definition finalValue :: "'a LegacySlotConfig_scheme \<Rightarrow> slot_value \<Rightarrow> react_elem list \<Rightarrow> slot_value" where
  "finalValue config old ms =
     (if multiple config then (case old of SlotArray xs \<Rightarrow> SlotArray (xs @ ms) | v \<Rightarrow> v)
      else if ms = [] then old else SlotElement (last ms))"

text \<open>The value of a slot at the end of a render pass, from the children \<open>ms\<close> that match it.\<close>

definition slotValue :: "'a LegacySlotConfig_scheme \<Rightarrow> react_elem list \<Rightarrow> slot_value" where
  "slotValue config ms =
     (if multiple config then SlotArray ms
      else if ms = [] then initialValue config
      else SlotElement (last ms))"

text \<open>The builder registry that says what a legacy pair of \<^verbatim>\<open>slots\<close> and \<^verbatim>\<open>slotConfig\<close> says.\<close>

definition asBuilderConfig :: "slot_fn js_object \<Rightarrow> LegacySlotConfig js_object \<Rightarrow> SlotConfig js_object" where
  "asBuilderConfig slots slotConfig =
     map (\<lambda>(k, c). (k, \<lparr>isRequired = isRequired (configOrEmpty slotConfig k),
                          multiple = multiple (configOrEmpty slotConfig k),
                          defaultContent = defaultContent (configOrEmpty slotConfig k),
                          component = Some c\<rparr>)) slots"

text \<open>The state of the loop without its console output.\<close>

definition view :: "classification \<Rightarrow> slot_value js_object \<times> react_elem list" where
  "view st = (slotElements st, nonSlotChildren st)"

text \<open>All that is proved of one render pass of the builder's component, and of the legacy one.\<close>

definition builderPass ::
  "nat \<Rightarrow> SlotConfig js_object \<Rightarrow> ('p js_value js_object \<Rightarrow> react_elem) \<Rightarrow> bool \<Rightarrow> 'p js_object
     \<Rightarrow> react_node list \<Rightarrow> slot_fn js_object \<Rightarrow> classification \<Rightarrow> 'p render_pass \<Rightarrow> bool" where
  "builderPass fid cfg renderFn pm props cs sc st r =
    (ordinaryNames cfg
     \<and> slotComponents fid cfg = Inr sc
     \<and> fst ` set sc = fst ` set cfg
     \<and> classify pm cfg sc cs = Inr st
     \<and> createComponentWithSlots fid cfg renderFn pm props cs = Inr r
     \<and> slotsSeen r = typeSafeSlots (Object_keys cfg) (slotElements st)
     \<and> leftoverSeen r = nonSlotChildren st
     \<and> leftoverSeen r = unmatched sc cs
     \<and> (\<forall>k config. map_of cfg k = Some config \<longrightarrow>
           slot_get (slotsSeen r) k = finalValue config (initialValue config) (matching sc k cs))
     \<and> console_log r = console st @
           (if filter (requiredAndEmpty cfg (slotsSeen r)) (Object_keys cfg) \<noteq> [] \<and> \<not> pm
            then [ConsoleError (missingMessage
                    (filter (requiredAndEmpty cfg (slotsSeen r)) (Object_keys cfg)))]
            else [])
     \<and> render_calls r = [renderProps (AList.delete ''children'' props) (slotsSeen r) (leftoverSeen r)]
     \<and> returned r = Element FragmentType
           [NElem (renderFn (renderProps (AList.delete ''children'' props) (slotsSeen r)
                      (leftoverSeen r)))])"

definition legacyPass ::
  "slot_fn js_object \<Rightarrow> LegacySlotConfig js_object \<Rightarrow> ('p js_value js_object \<Rightarrow> react_elem) \<Rightarrow> bool
     \<Rightarrow> 'p js_object \<Rightarrow> react_node list \<Rightarrow> classification \<Rightarrow> 'p render_pass \<Rightarrow> bool" where
  "legacyPass slots slotConfig renderFn pm props cs st r =
    (ordinaryNames slots
     \<and> legacy_classify pm slots slotConfig cs = Inr st
     \<and> createComponentWithSlots_legacy slots slotConfig renderFn pm props cs = Inr r
     \<and> slotsSeen r = typeSafeSlots (Object_keys slots) (slotElements st)
     \<and> leftoverSeen r = nonSlotChildren st
     \<and> leftoverSeen r = unmatched slots cs
     \<and> (\<forall>k. k \<in> set (Object_keys slots) \<longrightarrow>
           slot_get (slotsSeen r) k =
             finalValue (configOrEmpty slotConfig k) (initialValue (configOrEmpty slotConfig k))
               (matching slots k cs))
     \<and> console_log r = console st @
           (if filter (requiredAndEmpty slotConfig (slotsSeen r)) (Object_keys slotConfig) \<noteq> [] \<and> \<not> pm
            then [ConsoleError (missingMessage
                    (filter (requiredAndEmpty slotConfig (slotsSeen r)) (Object_keys slotConfig)))]
            else [])
     \<and> render_calls r = [renderProps (AList.delete ''children'' props) (slotsSeen r) (leftoverSeen r)]
     \<and> returned r = Element FragmentType
           [NElem (renderFn (renderProps (AList.delete ''children'' props) (slotsSeen r)
                      (leftoverSeen r)))])"

text \<open>The legacy configuration that says what a builder registry says, and the registries in
  which no singular slot has truthy default content.\<close>

definition withoutComponent :: "SlotConfig \<Rightarrow> LegacySlotConfig" where
  "withoutComponent config =
     \<lparr>isRequired = isRequired config, multiple = multiple config,
      defaultContent = defaultContent config\<rparr>"

definition legacyConfigOf :: "SlotConfig js_object \<Rightarrow> LegacySlotConfig js_object" where
  "legacyConfigOf cfg = map (\<lambda>(k, config). (k, withoutComponent config)) cfg"

definition noDefaultContent :: "SlotConfig js_object \<Rightarrow> bool" where
  "noDefaultContent cfg = list_all (\<lambda>(k, config). multiple config \<or> \<not> truthy (defaultContent config)) cfg"

section \<open>Example inputs\<close>

text \<open>
  Registries, children and a render function on which the properties are evaluated: the first
  scenario of the specification, three tabs among other children, falsy default content, a
  required footer with default content, required tabs with default content, and two headers
  for a singular slot.
\<close>

definition scenarioConfig :: "SlotConfig js_object" where
  "scenarioConfig =
     [(''Header'', \<lparr>isRequired = True, multiple = False, defaultContent = NUndefined,
                    component = None\<rparr>),
      (''Footer'', \<lparr>isRequired = False, multiple = False, defaultContent = NText ''(c) 2025'',
                    component = None\<rparr>),
      (''Tab'', \<lparr>isRequired = False, multiple = True, defaultContent = NUndefined,
                 component = Some (UserComponent 7)\<rparr>)]"

definition scenarioChildren :: "react_node list" where
  "scenarioChildren =
     [NText ''hi'',
      NElem (Element (ComponentType (DefaultWrapper 0 ''Header'')) [NText ''Title'']),
      NElem (Element (HostTag ''div'') [NText ''extra''])]"

definition renderDiv :: "unit js_value js_object \<Rightarrow> react_elem" where
  "renderDiv rp = Element (HostTag ''div'') []"

definition scenarioSlots :: "slot_fn js_object" where
  "scenarioSlots =
     [(''Header'', DefaultWrapper 0 ''Header''),
      (''Footer'', DefaultWrapper 0 ''Footer''),
      (''Tab'', UserComponent 7)]"

definition scenarioSlotConfig :: "LegacySlotConfig js_object" where
  "scenarioSlotConfig =
     [(''Header'', \<lparr>isRequired = True, multiple = False, defaultContent = NUndefined\<rparr>),
      (''Footer'', \<lparr>isRequired = False, multiple = False, defaultContent = NText ''(c) 2025''\<rparr>),
      (''Tab'', \<lparr>isRequired = False, multiple = True, defaultContent = NUndefined\<rparr>)]"

definition tab :: "string \<Rightarrow> react_elem" where
  "tab label = Element (ComponentType (UserComponent 7)) [NText label]"

definition tabsChildren :: "react_node list" where
  "tabsChildren =
     [NElem (tab ''Tab 1''), NNull, NElem (tab ''Tab 2''),
      NElem (Element (HostTag ''div'') [NText ''extra'']), NText ''hi'', NElem (tab ''Tab 3'')]"

definition falsyConfig :: "SlotConfig js_object" where
  "falsyConfig =
     [(''A'', \<lparr>isRequired = True, multiple = False, defaultContent = NText [], component = None\<rparr>),
      (''B'', \<lparr>isRequired = True, multiple = False, defaultContent = NNum 0, component = None\<rparr>),
      (''C'', \<lparr>isRequired = True, multiple = False, defaultContent = NBool False, component = None\<rparr>)]"

definition falsySlots :: "slot_fn js_object" where
  "falsySlots = [(''A'', UserComponent 1), (''B'', UserComponent 2), (''C'', UserComponent 3)]"

definition falsySlotConfig :: "LegacySlotConfig js_object" where
  "falsySlotConfig =
     [(''A'', \<lparr>isRequired = True, multiple = False, defaultContent = NText []\<rparr>),
      (''B'', \<lparr>isRequired = True, multiple = False, defaultContent = NNum 0\<rparr>),
      (''C'', \<lparr>isRequired = True, multiple = False, defaultContent = NBool False\<rparr>)]"

definition requiredFooter :: "SlotConfig js_object" where
  "requiredFooter =
     [(''Footer'', \<lparr>isRequired = True, multiple = False, defaultContent = NText ''(c) 2025'',
                    component = None\<rparr>)]"

definition requiredFooterSlots :: "slot_fn js_object" where
  "requiredFooterSlots = [(''Footer'', DefaultWrapper 0 ''Footer'')]"

definition requiredFooterSlotConfig :: "LegacySlotConfig js_object" where
  "requiredFooterSlotConfig =
     [(''Footer'', \<lparr>isRequired = True, multiple = False, defaultContent = NText ''(c) 2025''\<rparr>)]"

definition requiredTabs :: "SlotConfig js_object" where
  "requiredTabs =
     [(''Tab'', \<lparr>isRequired = True, multiple = True, defaultContent = NText ''No tabs'',
                 component = None\<rparr>)]"

definition header :: "string \<Rightarrow> react_elem" where
  "header label = Element (ComponentType (DefaultWrapper 0 ''Header'')) [NText label]"

definition onlyHeader :: "SlotConfig js_object" where
  "onlyHeader =
     [(''Header'', \<lparr>isRequired = False, multiple = False, defaultContent = NUndefined,
                    component = None\<rparr>)]"

definition onlyHeaderSlots :: "slot_fn js_object" where
  "onlyHeaderSlots = [(''Header'', DefaultWrapper 0 ''Header'')]"

definition twoHeaders :: "react_node list" where
  "twoHeaders = [NElem (header ''first''), NElem (header ''second'')]"

definition footer :: "string \<Rightarrow> react_elem" where
  "footer label = Element (ComponentType (DefaultWrapper 0 ''Footer'')) [NText label]"

section \<open>Objects and loops\<close>

lemma slot_get_update:
  "slot_get (AList.update k v obj) k' = (if k' = k then v else slot_get obj k')"
  by (simp add: slot_get_def update_conv')

lemma forEach_cong_set:
  "(\<And>x s. x \<in> set xs \<Longrightarrow> f s x = g s x) \<Longrightarrow> forEach xs f s = forEach xs g s"
  by (induction xs arbitrary: s) (auto split: sum.splits)

lemma map_of_in_keys: "k \<in> fst ` set obj \<Longrightarrow> \<exists>v. map_of obj k = Some v"
  by (metis domD dom_map_of_conv_image_fst)

lemma assignAll_simps [simp]:
  "assignAll f [] acc = acc"
  "assignAll f (k # ks) acc = assignAll f ks (AList.update k (f k) acc)"
  by (simp_all add: assignAll_def)

lemma map_of_assignAll:
  "map_of (assignAll f ks acc) k = (if k \<in> set ks then Some (f k) else map_of acc k)"
  by (induction ks arbitrary: acc) (auto simp: update_conv')

lemma keys_set_assignAll: "fst ` set (assignAll f ks acc) = fst ` set acc \<union> set ks"
  by (induction ks arbitrary: acc) (auto simp: dom_update)

lemma distinct_assignAll: "distinct (map fst acc) \<Longrightarrow> distinct (map fst (assignAll f ks acc))"
  by (induction ks arbitrary: acc) (auto simp: distinct_update)

lemma keys_assignAll:
  "distinct ks \<Longrightarrow> set ks \<inter> fst ` set acc = {} \<Longrightarrow> map fst (assignAll f ks acc) = map fst acc @ ks"
  by (induction ks arbitrary: acc) (auto simp: update_keys dom_update)

lemma assignProperty_plain: "k \<noteq> ''__proto__'' \<Longrightarrow> assignProperty k v obj = AList.update k v obj"
  by (simp add: assignProperty_def)

lemma writeSlot_plain: "k \<noteq> ''__proto__'' \<Longrightarrow> writeSlot k v se = AList.update k v se"
  by (simp add: writeSlot_def)

lemma ordinaryNames_proto: "ordinaryNames obj \<Longrightarrow> ''__proto__'' \<notin> fst ` set obj"
  by (auto simp: ordinaryNames_def ordinaryName_def Object_keys_def list_all_iff)

lemma ordinaryNames_keys: "ordinaryNames obj \<Longrightarrow> ''__proto__'' \<notin> set (Object_keys obj)"
  by (auto simp: ordinaryNames_def ordinaryName_def list_all_iff)

lemma ordinaryNames_same_keys: "fst ` set a = fst ` set b \<Longrightarrow> ordinaryNames a = ordinaryNames b"
  by (simp add: ordinaryNames_def list_all_iff Object_keys_def)

lemma ordinaryNames_readOnly:
  "ordinaryNames obj \<Longrightarrow> k \<in> fst ` set obj \<Longrightarrow> k \<notin> set readOnlyProperties"
  by (auto simp: ordinaryNames_def ordinaryName_def Object_keys_def list_all_iff)

lemma initSlot_run:
  "set ks \<subseteq> fst ` set cfg \<Longrightarrow> ''__proto__'' \<notin> set ks \<Longrightarrow>
   forEach ks (initSlot cfg) acc = Inr (assignAll (initialOf cfg) ks acc)"
proof (induction ks arbitrary: acc)
  case Nil
  then show ?case by simp
next
  case (Cons k ks)
  then obtain config where c: "map_of cfg k = Some config"
    using map_of_in_keys[of k cfg] by auto
  from Cons.prems have k: "k \<noteq> ''__proto__''" by auto
  with c Cons show ?case
    by (simp add: initSlot_def initialValue_def initialOf_def writeSlot_plain)
qed

lemma generateSlotComponent_run:
  "set ks \<subseteq> fst ` set cfg \<Longrightarrow> ''__proto__'' \<notin> set ks \<Longrightarrow>
   forEach ks (generateSlotComponent fid cfg) acc = Inr (assignAll (wrapperOrComponent fid cfg) ks acc)"
proof (induction ks arbitrary: acc)
  case Nil
  then show ?case by simp
next
  case (Cons k ks)
  then obtain config where c: "map_of cfg k = Some config"
    using map_of_in_keys[of k cfg] by auto
  from Cons.prems have k: "k \<noteq> ''__proto__''" by auto
  with c Cons show ?case
    by (simp add: generateSlotComponent_def wrapperOrComponent_def assignProperty_plain)
qed

lemma slotComponents_run:
  "''__proto__'' \<notin> fst ` set cfg \<Longrightarrow>
   slotComponents fid cfg = Inr (assignAll (wrapperOrComponent fid cfg) (Object_keys cfg) [])"
  by (simp add: slotComponents_def generateSlotComponent_run Object_keys_def)

lemma assignProperty_fold:
  "''__proto__'' \<notin> set ks \<Longrightarrow>
   foldl (\<lambda>acc key. assignProperty key (f key) acc) acc ks = assignAll f ks acc"
  by (induction ks arbitrary: acc) (auto simp: assignProperty_plain)

lemma typeSafeSlots_assignAll:
  "''__proto__'' \<notin> set ks \<Longrightarrow> typeSafeSlots ks se = assignAll (slot_get se) ks []"
  by (simp add: typeSafeSlots_def assignProperty_fold)

lemma attachSlot_run:
  "set (map fst entries) \<inter> set readOnlyProperties = {} \<Longrightarrow>
   \<exists>statics. forEach entries attachSlot acc = Inr statics"
  by (induction entries arbitrary: acc) (auto simp: attachSlot_def)

lemma staticProperties_run:
  "ordinaryNames obj \<Longrightarrow> \<exists>statics. staticProperties obj = Inr statics"
  unfolding staticProperties_def
  by (rule attachSlot_run) (auto dest: ordinaryNames_readOnly)

lemma attachSlot_throws:
  "\<exists>k\<in>fst ` set entries. k \<in> set readOnlyProperties \<Longrightarrow>
   forEach entries attachSlot acc = Inl TypeError"
proof (induction entries arbitrary: acc)
  case Nil
  then show ?case by simp
next
  case (Cons entry entries)
  obtain k v where e: "entry = (k, v)" by (cases entry)
  show ?case
  proof (cases "k \<in> set readOnlyProperties")
    case True
    then show ?thesis by (simp add: e attachSlot_def)
  next
    case False
    with Cons.prems e have "\<exists>k\<in>fst ` set entries. k \<in> set readOnlyProperties" by auto
    from Cons.IH[OF this] False show ?thesis by (simp add: e attachSlot_def)
  qed
qed

lemma legacy_factory_throws:
  "\<exists>k\<in>set (Object_keys slots). k \<in> set readOnlyProperties \<Longrightarrow>
   createComponentWithSlots_legacy slots slotConfig render pm props cs = Inl TypeError"
  by (simp add: createComponentWithSlots_legacy_def staticProperties_def attachSlot_throws
        Object_keys_def)

section \<open>The classification loop\<close>

lemma finalValue_Nil [simp]: "finalValue config old [] = old"
  by (simp add: finalValue_def split: slot_value.splits)

lemma finalValue_append:
  "finalValue config (finalValue config old ms1) ms2 = finalValue config old (ms1 @ ms2)"
  by (simp add: finalValue_def split: slot_value.splits)

lemma slotEntry_key: "slotEntry sc e = Some (k, c) \<Longrightarrow> k \<in> fst ` set sc"
  unfolding slotEntry_def find_Some_iff by (metis fst_conv image_eqI nth_mem)

lemma elementsOf_append: "elementsOf (xs @ ys) = elementsOf xs @ elementsOf ys"
  by (induction xs rule: elementsOf.induct) simp_all

lemma matching_Cons: "matching sc k (c # cs) = matching sc k [c] @ matching sc k cs"
  using elementsOf_append[of "[c]" cs] by (simp add: matching_def)

lemma unmatched_Cons: "unmatched sc (c # cs) = unmatched sc [c] @ unmatched sc cs"
  using elementsOf_append[of "[c]" cs] by (simp add: unmatched_def)

lemma matching_single:
  "matching sc k [c] =
     (case c of NElem e \<Rightarrow> (if map_option fst (slotEntry sc e) = Some k then [e] else []) | _ \<Rightarrow> [])"
  by (cases c) (simp_all add: matching_def)

lemma unmatched_single:
  "unmatched sc [c] =
     (case c of NElem e \<Rightarrow> (if slotEntry sc e = None then [e] else []) | _ \<Rightarrow> [])"
  by (cases c) (simp_all add: unmatched_def)

lemma classifyChild_step:
  assumes sub: "fst ` set sc \<subseteq> fst ` set cfg" and np: "''__proto__'' \<notin> fst ` set cfg"
    and ready: "arraysReady cfg (slotElements st)"
  shows "\<exists>st1. classifyChild pm cfg sc st c = Inr st1
           \<and> arraysReady cfg (slotElements st1)
           \<and> nonSlotChildren st1 = nonSlotChildren st @ unmatched sc [c]
           \<and> (\<forall>k config. map_of cfg k = Some config \<longrightarrow>
                 slot_get (slotElements st1) k =
                   finalValue config (slot_get (slotElements st) k) (matching sc k [c]))"
proof (cases c)
  case (NElem e)
  show ?thesis
  proof (cases "slotEntry sc e")
    case None
    then show ?thesis using NElem ready
      by (simp add: classifyChild_def matching_single unmatched_single)
  next
    case (Some p)
    obtain k0 c0 where p: "p = (k0, c0)" by (cases p)
    have entry: "slotEntry sc e = Some (k0, c0)" using Some p by simp
    then have k0: "k0 \<in> fst ` set cfg" using slotEntry_key sub by blast
    have k0p: "k0 \<noteq> ''__proto__''" using np k0 by blast
    from map_of_in_keys[OF k0] obtain config0 where cfg0: "map_of cfg k0 = Some config0" ..
    have um: "unmatched sc [c] = []" using NElem entry by (simp add: unmatched_single)
    have mt: "matching sc k [c] = (if k = k0 then [e] else [])" for k
      using NElem entry by (auto simp add: matching_single)
    show ?thesis
    proof (cases "multiple config0")
      case True
      then obtain xs where xs: "slot_get (slotElements st) k0 = SlotArray xs"
        using ready cfg0 by (auto simp: arraysReady_def)
      let ?st1 = "st\<lparr>slotElements := AList.update k0 (SlotArray (xs @ [e])) (slotElements st)\<rparr>"
      have step: "classifyChild pm cfg sc st c = Inr ?st1"
        using NElem entry cfg0 True xs by (simp add: classifyChild_def)
      have r: "arraysReady cfg (slotElements ?st1)"
        using ready by (simp add: arraysReady_def slot_get_update)
      have n: "nonSlotChildren ?st1 = nonSlotChildren st @ unmatched sc [c]"
        by (simp add: um)
      have v: "slot_get (slotElements ?st1) k =
                   finalValue config (slot_get (slotElements st) k) (matching sc k [c])"
        if "map_of cfg k = Some config" for k config
      proof (cases "k = k0")
        case True
        with that cfg0 have "config = config0" by simp
        then show ?thesis using True \<open>multiple config0\<close> xs
          by (simp add: mt slot_get_update finalValue_def)
      next
        case False
        then show ?thesis by (simp add: mt slot_get_update)
      qed
      show ?thesis using step r n v by blast
    next
      case False
      let ?st1 = "st\<lparr>console := console st @
                     (if \<not> pm \<and> slot_get (slotElements st) k0 \<noteq> SlotNull
                         \<and> \<not> truthy (defaultContent config0)
                      then [ConsoleWarn (duplicateWarning k0)] else []),
                   slotElements := AList.update k0 (SlotElement e) (slotElements st)\<rparr>"
      have step: "classifyChild pm cfg sc st c = Inr ?st1"
        using NElem entry cfg0 False by (simp add: classifyChild_def writeSlot_plain[OF k0p])
      have r: "arraysReady cfg (slotElements ?st1)"
        using ready False cfg0 by (auto simp: arraysReady_def slot_get_update)
      have n: "nonSlotChildren ?st1 = nonSlotChildren st @ unmatched sc [c]"
        by (simp add: um)
      have v: "slot_get (slotElements ?st1) k =
                   finalValue config (slot_get (slotElements st) k) (matching sc k [c])"
        if "map_of cfg k = Some config" for k config
      proof (cases "k = k0")
        case True
        with that cfg0 have "config = config0" by simp
        then show ?thesis using True \<open>\<not> multiple config0\<close>
          by (simp add: mt slot_get_update finalValue_def)
      next
        case False
        then show ?thesis by (simp add: mt slot_get_update)
      qed
      show ?thesis using step r n v by blast
    qed
  qed
qed (use ready in \<open>simp_all add: classifyChild_def matching_single unmatched_single\<close>)

lemma classify_loop:
  assumes sub: "fst ` set sc \<subseteq> fst ` set cfg" and np: "''__proto__'' \<notin> fst ` set cfg"
  shows "arraysReady cfg (slotElements st) \<Longrightarrow>
         \<exists>st'. forEach cs (classifyChild pm cfg sc) st = Inr st'
           \<and> arraysReady cfg (slotElements st')
           \<and> nonSlotChildren st' = nonSlotChildren st @ unmatched sc cs
           \<and> (\<forall>k config. map_of cfg k = Some config \<longrightarrow>
                 slot_get (slotElements st') k =
                   finalValue config (slot_get (slotElements st) k) (matching sc k cs))"
proof (induction cs arbitrary: st)
  case Nil
  then show ?case by (simp add: matching_def unmatched_def)
next
  case (Cons c cs)
  from classifyChild_step[OF sub np Cons.prems, of pm c] obtain st1 where
    s1: "classifyChild pm cfg sc st c = Inr st1" and
    r1: "arraysReady cfg (slotElements st1)" and
    n1: "nonSlotChildren st1 = nonSlotChildren st @ unmatched sc [c]" and
    v1: "\<forall>k config. map_of cfg k = Some config \<longrightarrow>
           slot_get (slotElements st1) k =
             finalValue config (slot_get (slotElements st) k) (matching sc k [c])"
    by blast
  from Cons.IH[OF r1] obtain st' where
    s2: "forEach cs (classifyChild pm cfg sc) st1 = Inr st'" and
    r2: "arraysReady cfg (slotElements st')" and
    n2: "nonSlotChildren st' = nonSlotChildren st1 @ unmatched sc cs" and
    v2: "\<forall>k config. map_of cfg k = Some config \<longrightarrow>
           slot_get (slotElements st') k =
             finalValue config (slot_get (slotElements st1) k) (matching sc k cs)"
    by blast
  have "forEach (c # cs) (classifyChild pm cfg sc) st = Inr st'" using s1 s2 by simp
  moreover have "nonSlotChildren st' = nonSlotChildren st @ unmatched sc (c # cs)"
    using n1 n2 unmatched_Cons[of sc c cs] by simp
  moreover have "\<forall>k config. map_of cfg k = Some config \<longrightarrow>
           slot_get (slotElements st') k =
             finalValue config (slot_get (slotElements st) k) (matching sc k (c # cs))"
    using v1 v2 matching_Cons[of sc _ c cs] by (simp add: finalValue_append)
  ultimately show ?case using r2 by blast
qed

section \<open>A render pass of the builder's component\<close>

lemma filterE_pure: "(\<And>x. x \<in> set xs \<Longrightarrow> p x = Inr (q x)) \<Longrightarrow> filterE p xs = Inr (filter q xs)"
  by (induction xs) simp_all

lemma key_of_map_of: "map_of obj k = Some v \<Longrightarrow> k \<in> set (Object_keys obj)"
  by (simp add: Object_keys_def map_of_SomeD image_iff rev_bexI[of "(k, v)"] )

lemma slot_get_assignAll:
  "slot_get (assignAll f ks acc) k = (if k \<in> set ks then f k else slot_get acc k)"
  by (simp add: slot_get_def map_of_assignAll)

lemma slot_get_Nil [simp]: "slot_get [] k = SlotUndefined"
  by (simp add: slot_get_def)

lemma init_builder:
  "''__proto__'' \<notin> fst ` set cfg \<Longrightarrow>
   forEach (Object_keys cfg) (initSlot cfg) [] = Inr (assignAll (initialOf cfg) (Object_keys cfg) [])"
  by (simp add: initSlot_run Object_keys_def)

lemma slot_get_init:
  "map_of cfg k = Some config \<Longrightarrow>
   slot_get (assignAll (initialOf cfg) (Object_keys cfg) []) k = initialValue config"
  by (simp add: slot_get_assignAll key_of_map_of initialOf_def)

lemma arraysReady_init: "arraysReady cfg (assignAll (initialOf cfg) (Object_keys cfg) [])"
  by (simp add: arraysReady_def slot_get_init initialValue_def)

lemma classify_run:
  assumes sub: "fst ` set sc \<subseteq> fst ` set cfg" and np: "''__proto__'' \<notin> fst ` set cfg"
  shows "\<exists>st. classify pm cfg sc cs = Inr st
           \<and> nonSlotChildren st = unmatched sc cs
           \<and> (\<forall>k config. map_of cfg k = Some config \<longrightarrow>
                 slot_get (slotElements st) k =
                   finalValue config (initialValue config) (matching sc k cs))"
proof -
  let ?st0 = "\<lparr>slotElements = assignAll (initialOf cfg) (Object_keys cfg) [],
               nonSlotChildren = [], console = []\<rparr>"
  have "arraysReady cfg (slotElements ?st0)" by (simp add: arraysReady_init)
  from classify_loop[OF sub np this, of cs pm] obtain st' where
    "forEach cs (classifyChild pm cfg sc) ?st0 = Inr st'"
    "nonSlotChildren st' = nonSlotChildren ?st0 @ unmatched sc cs"
    "\<forall>k config. map_of cfg k = Some config \<longrightarrow>
        slot_get (slotElements st') k =
          finalValue config (slot_get (slotElements ?st0) k) (matching sc k cs)"
    by blast
  then show ?thesis
    by (simp add: classify_def init_builder[OF np] slot_get_init)
qed

lemma finalValue_shape:
  "finalValue config (initialValue config) ms =
     (if multiple config then SlotArray ms
      else if ms = [] then
        (if truthy (defaultContent config)
         then SlotElement (Element FragmentType [defaultContent config]) else SlotNull)
      else SlotElement (last ms))"
  by (simp add: finalValue_def initialValue_def)

lemma isMissing_run:
  assumes "map_of cfg k = Some config"
    and "slot_get se k = finalValue config (initialValue config) ms"
  shows "isMissing cfg se k = Inr (requiredAndEmpty cfg se k)"
  using assms by (simp add: isMissing_def requiredAndEmpty_def finalValue_shape)

lemma missing_run:
  assumes "\<And>k config. map_of cfg k = Some config \<Longrightarrow>
             slot_get se k = finalValue config (initialValue config) (ms k)"
  shows "missingRequiredSlots cfg se = Inr (filter (requiredAndEmpty cfg se) (Object_keys cfg))"
  unfolding missingRequiredSlots_def
proof (rule filterE_pure)
  fix k assume "k \<in> set (Object_keys cfg)"
  then have "k \<in> fst ` set cfg" by (simp add: Object_keys_def)
  from map_of_in_keys[OF this] obtain config where c: "map_of cfg k = Some config" ..
  show "isMissing cfg se k = Inr (requiredAndEmpty cfg se k)"
    using isMissing_run[OF c assms[OF c]] .
qed

lemma Component_run:
  assumes sub: "fst ` set sc \<subseteq> fst ` set cfg" and np: "''__proto__'' \<notin> fst ` set cfg"
  shows "\<exists>st. classify pm cfg sc cs = Inr st
           \<and> nonSlotChildren st = unmatched sc cs
           \<and> (\<forall>k config. map_of cfg k = Some config \<longrightarrow>
                 slot_get (slotElements st) k =
                   finalValue config (initialValue config) (matching sc k cs))
           \<and> Component pm cfg sc renderFn props cs =
               Inr \<lparr>console_log = console st @
                      (if filter (requiredAndEmpty cfg (slotElements st)) (Object_keys cfg) \<noteq> [] \<and> \<not> pm
                       then [ConsoleError (missingMessage
                               (filter (requiredAndEmpty cfg (slotElements st)) (Object_keys cfg)))]
                       else []),
                    render_calls =
                      [renderProps (AList.delete ''children'' props) (typeSafeSlots (Object_keys cfg) (slotElements st))
                         (nonSlotChildren st)],
                    returned = Element FragmentType
                      [NElem (renderFn (renderProps (AList.delete ''children'' props)
                         (typeSafeSlots (Object_keys cfg) (slotElements st)) (nonSlotChildren st)))]\<rparr>"
proof -
  from classify_run[OF sub np, of pm cs] obtain st where
    c: "classify pm cfg sc cs = Inr st" and
    n: "nonSlotChildren st = unmatched sc cs" and
    v: "\<forall>k config. map_of cfg k = Some config \<longrightarrow>
                 slot_get (slotElements st) k =
                   finalValue config (initialValue config) (matching sc k cs)"
    by blast
  have m: "missingRequiredSlots cfg (slotElements st) =
             Inr (filter (requiredAndEmpty cfg (slotElements st)) (Object_keys cfg))"
    by (rule missing_run[where ms = "\<lambda>k. matching sc k cs"]) (simp add: v)
  have "Component pm cfg sc renderFn props cs =
               Inr \<lparr>console_log = console st @
                      (if filter (requiredAndEmpty cfg (slotElements st)) (Object_keys cfg) \<noteq> [] \<and> \<not> pm
                       then [ConsoleError (missingMessage
                               (filter (requiredAndEmpty cfg (slotElements st)) (Object_keys cfg)))]
                       else []),
                    render_calls =
                      [renderProps (AList.delete ''children'' props) (typeSafeSlots (Object_keys cfg) (slotElements st))
                         (nonSlotChildren st)],
                    returned = Element FragmentType
                      [NElem (renderFn (renderProps (AList.delete ''children'' props)
                         (typeSafeSlots (Object_keys cfg) (slotElements st)) (nonSlotChildren st)))]\<rparr>"
    by (simp add: Component_def c m Let_def)
  with c n v show ?thesis by blast
qed

lemma slotComponents_keys:
  "''__proto__'' \<notin> fst ` set cfg \<Longrightarrow>
   \<exists>sc. slotComponents fid cfg = Inr sc \<and> fst ` set sc = fst ` set cfg \<and> distinct (map fst sc)"
  by (simp add: slotComponents_run keys_set_assignAll distinct_assignAll Object_keys_def)

lemma slots_of_renderProps [simp]:
  "map_of (renderProps props slots leftover) ''slots'' = Some (JSlots slots)"
  by (simp add: renderProps_def update_conv')

lemma leftover_of_renderProps [simp]:
  "map_of (renderProps props slots leftover) ''nonSlotChildren'' = Some (JElements leftover)"
  by (simp add: renderProps_def update_conv')

lemma slot_get_typeSafeSlots:
  "''__proto__'' \<notin> set ks \<Longrightarrow>
   slot_get (typeSafeSlots ks se) k = (if k \<in> set ks then slot_get se k else SlotUndefined)"
  by (simp add: typeSafeSlots_assignAll slot_get_assignAll)

section \<open>The legacy loop as the builder's loop\<close>

lemma map_of_asBuilderConfig:
  "map_of (asBuilderConfig slots slotConfig) k =
     map_option (\<lambda>c. \<lparr>isRequired = isRequired (configOrEmpty slotConfig k),
                       multiple = multiple (configOrEmpty slotConfig k),
                       defaultContent = defaultContent (configOrEmpty slotConfig k),
                       component = Some c\<rparr>) (map_of slots k)"
  by (induction slots) (auto simp: asBuilderConfig_def)

lemma keys_asBuilderConfig [simp]:
  "Object_keys (asBuilderConfig slots slotConfig) = Object_keys slots"
  by (simp add: asBuilderConfig_def Object_keys_def case_prod_unfold)

lemma keys_set_asBuilderConfig [simp]:
  "fst ` set (asBuilderConfig slots slotConfig) = fst ` set slots"
  by (force simp: asBuilderConfig_def)

lemma legacy_initSlot_eq:
  assumes "k \<in> set (Object_keys slots)"
  shows "legacy_initSlot slotConfig se k = initSlot (asBuilderConfig slots slotConfig) se k"
proof -
  from assms have "k \<in> fst ` set slots" by (simp add: Object_keys_def)
  from map_of_in_keys[OF this] obtain c where "map_of slots k = Some c" ..
  then show ?thesis
    by (simp add: legacy_initSlot_def initSlot_def map_of_asBuilderConfig Let_def)
qed

lemma legacy_init_eq:
  "forEach (Object_keys slots) (legacy_initSlot slotConfig) [] =
   forEach (Object_keys (asBuilderConfig slots slotConfig)) (initSlot (asBuilderConfig slots slotConfig)) []"
  unfolding keys_asBuilderConfig by (rule forEach_cong_set) (rule legacy_initSlot_eq)

lemma legacy_step_view:
  assumes "view st = view st'"
  shows "map_sum (\<lambda>e. e) view (legacy_classifyChild pm slots slotConfig st c) =
         map_sum (\<lambda>e. e) view (classifyChild pm (asBuilderConfig slots slotConfig) slots st' c)"
proof (cases c)
  case (NElem e)
  show ?thesis
  proof (cases "slotEntry slots e")
    case None
    then show ?thesis using NElem assms
      by (simp add: legacy_classifyChild_def classifyChild_def view_def)
  next
    case (Some p)
    obtain k0 c0 where p: "p = (k0, c0)" by (cases p)
    have entry: "slotEntry slots e = Some (k0, c0)" using Some p by simp
    from map_of_in_keys[OF slotEntry_key[OF entry]] obtain c1 where "map_of slots k0 = Some c1" ..
    then show ?thesis using NElem entry assms
      by (simp add: legacy_classifyChild_def classifyChild_def view_def map_of_asBuilderConfig Let_def
               split: slot_value.splits)
  qed
qed (use assms in \<open>simp_all add: legacy_classifyChild_def classifyChild_def\<close>)

lemma legacy_loop_view:
  "view st = view st' \<Longrightarrow>
   map_sum (\<lambda>e. e) view (forEach cs (legacy_classifyChild pm slots slotConfig) st) =
   map_sum (\<lambda>e. e) view (forEach cs (classifyChild pm (asBuilderConfig slots slotConfig) slots) st')"
proof (induction cs arbitrary: st st')
  case Nil
  then show ?case by simp
next
  case (Cons c cs)
  from legacy_step_view[OF Cons.prems, of pm slots slotConfig c]
  show ?case
    by (cases "legacy_classifyChild pm slots slotConfig st c";
        cases "classifyChild pm (asBuilderConfig slots slotConfig) slots st' c")
       (simp_all add: Cons.IH)
qed

lemma legacy_classify_view:
  "map_sum (\<lambda>e. e) view (legacy_classify pm slots slotConfig cs) =
   map_sum (\<lambda>e. e) view (classify pm (asBuilderConfig slots slotConfig) slots cs)"
  unfolding legacy_classify_def classify_def legacy_init_eq
  by (cases "forEach (Object_keys (asBuilderConfig slots slotConfig))
               (initSlot (asBuilderConfig slots slotConfig)) []")
     (simp_all add: legacy_loop_view view_def)

lemma finalValue_asBuilder:
  "finalValue \<lparr>isRequired = r, multiple = multiple lc, defaultContent = defaultContent lc, component = c\<rparr>
     (initialValue \<lparr>isRequired = r, multiple = multiple lc, defaultContent = defaultContent lc, component = c\<rparr>) ms
   = finalValue lc (initialValue lc) ms"
  by (simp add: finalValue_shape)

lemma legacy_classify_run:
  assumes np: "''__proto__'' \<notin> fst ` set slots"
  shows "\<exists>st. legacy_classify pm slots slotConfig cs = Inr st
     \<and> nonSlotChildren st = unmatched slots cs
     \<and> (\<forall>k. k \<in> set (Object_keys slots) \<longrightarrow>
           slot_get (slotElements st) k =
             finalValue (configOrEmpty slotConfig k) (initialValue (configOrEmpty slotConfig k))
               (matching slots k cs))"
proof -
  let ?cfg = "asBuilderConfig slots slotConfig"
  have sub: "fst ` set slots \<subseteq> fst ` set ?cfg" by simp
  have np': "''__proto__'' \<notin> fst ` set ?cfg" using np by simp
  from classify_run[OF sub np', of pm cs] obtain st' where
    c: "classify pm ?cfg slots cs = Inr st'" and
    n: "nonSlotChildren st' = unmatched slots cs" and
    v: "\<forall>k config. map_of ?cfg k = Some config \<longrightarrow>
                 slot_get (slotElements st') k =
                   finalValue config (initialValue config) (matching slots k cs)"
    by blast
  from legacy_classify_view[of pm slots slotConfig cs] c
  obtain st where l: "legacy_classify pm slots slotConfig cs = Inr st" and vw: "view st = view st'"
    by (cases "legacy_classify pm slots slotConfig cs") simp_all
  have "slot_get (slotElements st) k =
             finalValue (configOrEmpty slotConfig k) (initialValue (configOrEmpty slotConfig k))
               (matching slots k cs)" if "k \<in> set (Object_keys slots)" for k
  proof -
    from that have "k \<in> fst ` set slots" by (simp add: Object_keys_def)
    from map_of_in_keys[OF this] obtain c1 where "map_of slots k = Some c1" ..
    then have "map_of ?cfg k = Some \<lparr>isRequired = isRequired (configOrEmpty slotConfig k),
                       multiple = multiple (configOrEmpty slotConfig k),
                       defaultContent = defaultContent (configOrEmpty slotConfig k),
                       component = Some c1\<rparr>"
      by (simp add: map_of_asBuilderConfig)
    from v[rule_format, OF this] have "slot_get (slotElements st') k =
         finalValue (configOrEmpty slotConfig k) (initialValue (configOrEmpty slotConfig k))
               (matching slots k cs)"
      by (simp only: finalValue_asBuilder)
    moreover have "slotElements st = slotElements st'" using vw by (simp add: view_def)
    ultimately show ?thesis by simp
  qed
  moreover have "nonSlotChildren st = unmatched slots cs" using n vw by (simp add: view_def)
  ultimately show ?thesis using l by blast
qed

section \<open>Console output and the legacy validator\<close>

lemma forEach_preserves:
  assumes "\<And>s x s'. f s x = Inr s' \<Longrightarrow> g s' = g s"
  shows "forEach xs f s = Inr s' \<Longrightarrow> g s' = g s"
proof (induction xs arbitrary: s)
  case Nil
  then show ?case by simp
next
  case (Cons x xs)
  show ?case
  proof (cases "f s x")
    case (Inl e)
    with Cons.prems show ?thesis by simp
  next
    case (Inr s1)
    with Cons.prems have "forEach xs f s1 = Inr s'" by simp
    from Cons.IH[OF this] assms[OF Inr] show ?thesis by simp
  qed
qed

lemma classifyChild_errors:
  "classifyChild pm cfg sc st c = Inr st1 \<Longrightarrow>
   filter isErrorCall (console st1) = filter isErrorCall (console st)"
  by (auto simp: classifyChild_def
           split: react_node.splits option.splits prod.splits slot_value.splits if_splits)

lemma legacy_classifyChild_errors:
  "legacy_classifyChild pm slots slotConfig st c = Inr st1 \<Longrightarrow>
   filter isErrorCall (console st1) = filter isErrorCall (console st)"
  by (auto simp: legacy_classifyChild_def Let_def
           split: react_node.splits option.splits prod.splits slot_value.splits if_splits)

lemma classify_errors: "classify pm cfg sc cs = Inr st \<Longrightarrow> filter isErrorCall (console st) = []"
  using forEach_preserves[where f = "classifyChild pm cfg sc"
      and g = "\<lambda>st. filter isErrorCall (console st)", OF classifyChild_errors]
  by (fastforce simp: classify_def split: sum.splits)

lemma legacy_classify_errors:
  "legacy_classify pm slots slotConfig cs = Inr st \<Longrightarrow> filter isErrorCall (console st) = []"
  using forEach_preserves[where f = "legacy_classifyChild pm slots slotConfig"
      and g = "\<lambda>st. filter isErrorCall (console st)", OF legacy_classifyChild_errors]
  by (fastforce simp: legacy_classify_def split: sum.splits)

lemma legacy_isMissing_run:
  assumes "map_of slotConfig k = Some config"
    and "slot_get se k = finalValue config (initialValue config) ms"
  shows "legacy_isMissing slotConfig se k = Inr (requiredAndEmpty slotConfig se k)"
  using assms by (simp add: legacy_isMissing_def requiredAndEmpty_def finalValue_shape)

lemma legacy_missing_run:
  assumes "\<And>k config. map_of slotConfig k = Some config \<Longrightarrow>
             slot_get se k = finalValue config (initialValue config) (ms k)"
  shows "legacy_missingRequiredSlots slotConfig se =
           Inr (filter (requiredAndEmpty slotConfig se) (Object_keys slotConfig))"
  unfolding legacy_missingRequiredSlots_def
proof (rule filterE_pure)
  fix k assume "k \<in> set (Object_keys slotConfig)"
  then have "k \<in> fst ` set slotConfig" by (simp add: Object_keys_def)
  from map_of_in_keys[OF this] obtain config where c: "map_of slotConfig k = Some config" ..
  show "legacy_isMissing slotConfig se k = Inr (requiredAndEmpty slotConfig se k)"
    using legacy_isMissing_run[OF c assms[OF c]] .
qed

lemma legacy_run:
  assumes H: "set (Object_keys slotConfig) \<subseteq> set (Object_keys slots)" and on: "ordinaryNames slots"
  shows "\<exists>st. legacy_classify pm slots slotConfig cs = Inr st
           \<and> nonSlotChildren st = unmatched slots cs
           \<and> (\<forall>k. k \<in> set (Object_keys slots) \<longrightarrow>
                 slot_get (slotElements st) k =
                   finalValue (configOrEmpty slotConfig k) (initialValue (configOrEmpty slotConfig k))
                     (matching slots k cs))
           \<and> createComponentWithSlots_legacy slots slotConfig renderFn pm props cs =
               Inr \<lparr>console_log = console st @
                      (if filter (requiredAndEmpty slotConfig (slotElements st)) (Object_keys slotConfig) \<noteq> []
                          \<and> \<not> pm
                       then [ConsoleError (missingMessage
                               (filter (requiredAndEmpty slotConfig (slotElements st)) (Object_keys slotConfig)))]
                       else []),
                    render_calls =
                      [renderProps (AList.delete ''children'' props) (typeSafeSlots (Object_keys slots) (slotElements st))
                         (nonSlotChildren st)],
                    returned = Element FragmentType
                      [NElem (renderFn (renderProps (AList.delete ''children'' props)
                         (typeSafeSlots (Object_keys slots) (slotElements st)) (nonSlotChildren st)))]\<rparr>"
proof -
  from staticProperties_run[OF on] obtain statics where sp: "staticProperties slots = Inr statics" ..
  from legacy_classify_run[OF ordinaryNames_proto[OF on], of pm slotConfig cs] obtain st where
    c: "legacy_classify pm slots slotConfig cs = Inr st" and
    n: "nonSlotChildren st = unmatched slots cs" and
    v: "\<forall>k. k \<in> set (Object_keys slots) \<longrightarrow>
                 slot_get (slotElements st) k =
                   finalValue (configOrEmpty slotConfig k) (initialValue (configOrEmpty slotConfig k))
                     (matching slots k cs)"
    by blast
  have m: "legacy_missingRequiredSlots slotConfig (slotElements st) =
             Inr (filter (requiredAndEmpty slotConfig (slotElements st)) (Object_keys slotConfig))"
  proof (rule legacy_missing_run[where ms = "\<lambda>k. matching slots k cs"])
    fix k config assume k: "map_of slotConfig k = Some config"
    then have "k \<in> set (Object_keys slots)" using H key_of_map_of by fast
    with v k show "slot_get (slotElements st) k =
        finalValue config (initialValue config) (matching slots k cs)"
      by (simp add: configOrEmpty_def)
  qed
  have "createComponentWithSlots_legacy slots slotConfig renderFn pm props cs =
               Inr \<lparr>console_log = console st @
                      (if filter (requiredAndEmpty slotConfig (slotElements st)) (Object_keys slotConfig) \<noteq> []
                          \<and> \<not> pm
                       then [ConsoleError (missingMessage
                               (filter (requiredAndEmpty slotConfig (slotElements st)) (Object_keys slotConfig)))]
                       else []),
                    render_calls =
                      [renderProps (AList.delete ''children'' props) (typeSafeSlots (Object_keys slots) (slotElements st))
                         (nonSlotChildren st)],
                    returned = Element FragmentType
                      [NElem (renderFn (renderProps (AList.delete ''children'' props)
                         (typeSafeSlots (Object_keys slots) (slotElements st)) (nonSlotChildren st)))]\<rparr>"
    by (simp add: createComponentWithSlots_legacy_def legacy_Component_def sp c m Let_def)
  with c n v show ?thesis by blast
qed

section \<open>Whole render passes\<close>

lemma keys_typeSafeSlots:
  assumes "''__proto__'' \<notin> set ks"
  shows "set (Object_keys (typeSafeSlots ks se)) = set ks"
    and "distinct (Object_keys (typeSafeSlots ks se))"
  using keys_set_assignAll[of "slot_get se" ks "[]"] distinct_assignAll[of "[]" "slot_get se" ks]
  by (simp_all add: typeSafeSlots_assignAll[OF assms] Object_keys_def)

lemma slotsSeen_simp [simp]:
  "slotsSeen \<lparr>console_log = l, render_calls = [renderProps props slots leftover], returned = x\<rparr> = slots"
  by (simp add: slotsSeen_def)

lemma leftoverSeen_simp [simp]:
  "leftoverSeen \<lparr>console_log = l, render_calls = [renderProps props slots leftover], returned = x\<rparr> = leftover"
  by (simp add: leftoverSeen_def)

lemma builder_pass:
  assumes on: "ordinaryNames cfg"
  shows "\<exists>sc st r. builderPass fid cfg renderFn pm props cs sc st r"
proof -
  note np = ordinaryNames_proto[OF on] and nk = ordinaryNames_keys[OF on]
  from slotComponents_keys[OF np, of fid] obtain sc where
    sc: "slotComponents fid cfg = Inr sc" and keys: "fst ` set sc = fst ` set cfg" by blast
  then have sub: "fst ` set sc \<subseteq> fst ` set cfg" by simp
  have "ordinaryNames sc" using on ordinaryNames_same_keys[OF keys] by simp
  from staticProperties_run[OF this] obtain statics where sp: "staticProperties sc = Inr statics" ..
  let ?r = "\<lambda>st. \<lparr>console_log = console st @
                      (if filter (requiredAndEmpty cfg (slotElements st)) (Object_keys cfg) \<noteq> [] \<and> \<not> pm
                       then [ConsoleError (missingMessage
                               (filter (requiredAndEmpty cfg (slotElements st)) (Object_keys cfg)))]
                       else []),
                    render_calls =
                      [renderProps (AList.delete ''children'' props) (typeSafeSlots (Object_keys cfg) (slotElements st))
                         (nonSlotChildren st)],
                    returned = Element FragmentType
                      [NElem (renderFn (renderProps (AList.delete ''children'' props)
                         (typeSafeSlots (Object_keys cfg) (slotElements st)) (nonSlotChildren st)))]\<rparr>"
  from Component_run[OF sub np, of pm cs renderFn props] obtain st where
    c: "classify pm cfg sc cs = Inr st" and
    n: "nonSlotChildren st = unmatched sc cs" and
    v: "\<forall>k config. map_of cfg k = Some config \<longrightarrow>
                 slot_get (slotElements st) k =
                   finalValue config (initialValue config) (matching sc k cs)" and
    r: "Component pm cfg sc renderFn props cs = Inr (?r st)"
    by blast
  have same: "requiredAndEmpty cfg (typeSafeSlots (Object_keys cfg) (slotElements st))
        = requiredAndEmpty cfg (slotElements st)"
    by (rule ext)
       (auto simp: requiredAndEmpty_def slot_get_typeSafeSlots[OF nk] key_of_map_of
             split: option.splits)
  have cr: "createComponentWithSlots fid cfg renderFn pm props cs = Inr (?r st)"
    by (simp add: createComponentWithSlots_def sc sp r)
  have sv: "slot_get (slotsSeen (?r st)) k = finalValue config (initialValue config) (matching sc k cs)"
    if "map_of cfg k = Some config" for k config
    using that v by (simp add: slot_get_typeSafeSlots[OF nk] key_of_map_of)
  show ?thesis
    apply (rule exI[of _ sc], rule exI[of _ st], rule exI[of _ "?r st"])
    unfolding builderPass_def using on sc keys c cr sv by (simp add: n same)
qed

lemma legacy_pass:
  assumes H: "set (Object_keys slotConfig) \<subseteq> set (Object_keys slots)" and on: "ordinaryNames slots"
  shows "\<exists>st r. legacyPass slots slotConfig renderFn pm props cs st r"
proof -
  note nk = ordinaryNames_keys[OF on]
  let ?r = "\<lambda>st. \<lparr>console_log = console st @
                      (if filter (requiredAndEmpty slotConfig (slotElements st)) (Object_keys slotConfig) \<noteq> []
                          \<and> \<not> pm
                       then [ConsoleError (missingMessage
                               (filter (requiredAndEmpty slotConfig (slotElements st)) (Object_keys slotConfig)))]
                       else []),
                    render_calls =
                      [renderProps (AList.delete ''children'' props) (typeSafeSlots (Object_keys slots) (slotElements st))
                         (nonSlotChildren st)],
                    returned = Element FragmentType
                      [NElem (renderFn (renderProps (AList.delete ''children'' props)
                         (typeSafeSlots (Object_keys slots) (slotElements st)) (nonSlotChildren st)))]\<rparr>"
  from legacy_run[OF H on, of pm cs renderFn props] obtain st where
    c: "legacy_classify pm slots slotConfig cs = Inr st" and
    n: "nonSlotChildren st = unmatched slots cs" and
    v: "\<forall>k. k \<in> set (Object_keys slots) \<longrightarrow>
                 slot_get (slotElements st) k =
                   finalValue (configOrEmpty slotConfig k) (initialValue (configOrEmpty slotConfig k))
                     (matching slots k cs)" and
    r: "createComponentWithSlots_legacy slots slotConfig renderFn pm props cs = Inr (?r st)"
    by blast
  have same: "requiredAndEmpty slotConfig (typeSafeSlots (Object_keys slots) (slotElements st))
        = requiredAndEmpty slotConfig (slotElements st)"
  proof (rule ext)
    fix k
    show "requiredAndEmpty slotConfig (typeSafeSlots (Object_keys slots) (slotElements st)) k
        = requiredAndEmpty slotConfig (slotElements st) k"
    proof (cases "map_of slotConfig k")
      case None
      then show ?thesis by (simp add: requiredAndEmpty_def)
    next
      case (Some config)
      then have "k \<in> set (Object_keys slots)" using H key_of_map_of by fast
      then show ?thesis by (simp add: requiredAndEmpty_def slot_get_typeSafeSlots[OF nk] Some)
    qed
  qed
  have sv: "slot_get (slotsSeen (?r st)) k =
             finalValue (configOrEmpty slotConfig k) (initialValue (configOrEmpty slotConfig k))
               (matching slots k cs)"
    if "k \<in> set (Object_keys slots)" for k
    using that v by (simp add: slot_get_typeSafeSlots[OF nk])
  show ?thesis
    apply (rule exI[of _ st], rule exI[of _ "?r st"])
    unfolding legacyPass_def using on c r sv by (simp add: n same)
qed

lemma finalValue_slotValue: "finalValue config (initialValue config) ms = slotValue config ms"
  by (simp add: finalValue_def slotValue_def initialValue_def)

lemma builderPass_run:
  assumes "builderPass fid cfg renderFn pm props cs sc st r"
  shows "slotComponents fid cfg = Inr sc"
    and "createComponentWithSlots fid cfg renderFn pm props cs = Inr r"
    and "fst ` set sc = fst ` set cfg"
    and "classify pm cfg sc cs = Inr st"
  using assms by (simp_all add: builderPass_def)

lemma builderPass_names:
  assumes "builderPass fid cfg renderFn pm props cs sc st r"
  shows "ordinaryNames cfg" and "''__proto__'' \<notin> set (Object_keys cfg)"
  using assms by (simp_all add: builderPass_def ordinaryNames_keys)

lemma builderPass_keys:
  assumes "builderPass fid cfg renderFn pm props cs sc st r"
  shows "distinct (Object_keys (slotsSeen r))"
    and "set (Object_keys (slotsSeen r)) = set (Object_keys cfg)"
  using assms keys_typeSafeSlots[OF builderPass_names(2)[OF assms]]
  by (simp_all add: builderPass_def)

lemma builderPass_value:
  assumes "builderPass fid cfg renderFn pm props cs sc st r" and "map_of cfg k = Some config"
  shows "slot_get (slotsSeen r) k = slotValue config (matching sc k cs)"
  using assms unfolding builderPass_def finalValue_slotValue by blast

lemma builderPass_state:
  assumes "builderPass fid cfg renderFn pm props cs sc st r"
  shows "slotsSeen r = typeSafeSlots (Object_keys cfg) (slotElements st)"
    and "leftoverSeen r = nonSlotChildren st"
  using assms by (simp_all add: builderPass_def)

lemma builderPass_leftover:
  assumes "builderPass fid cfg renderFn pm props cs sc st r"
  shows "leftoverSeen r = unmatched sc cs"
  using assms unfolding builderPass_def by blast

lemma builderPass_render:
  assumes "builderPass fid cfg renderFn pm props cs sc st r"
  shows "render_calls r = [renderProps (AList.delete ''children'' props) (slotsSeen r) (leftoverSeen r)]"
    and "returned r = Element FragmentType
           [NElem (renderFn (renderProps (AList.delete ''children'' props) (slotsSeen r) (leftoverSeen r)))]"
  using assms by (simp_all add: builderPass_def)

lemma builderPass_console:
  assumes "builderPass fid cfg renderFn pm props cs sc st r"
  shows "console_log r = console st @
           (if filter (requiredAndEmpty cfg (slotsSeen r)) (Object_keys cfg) \<noteq> [] \<and> \<not> pm
            then [ConsoleError (missingMessage
                    (filter (requiredAndEmpty cfg (slotsSeen r)) (Object_keys cfg)))]
            else [])"
  using assms by (simp add: builderPass_def)

lemma legacyPass_run:
  assumes "legacyPass slots slotConfig renderFn pm props cs st r"
  shows "createComponentWithSlots_legacy slots slotConfig renderFn pm props cs = Inr r"
    and "legacy_classify pm slots slotConfig cs = Inr st"
  using assms by (simp_all add: legacyPass_def)

lemma legacyPass_names:
  assumes "legacyPass slots slotConfig renderFn pm props cs st r"
  shows "ordinaryNames slots" and "''__proto__'' \<notin> set (Object_keys slots)"
  using assms by (simp_all add: legacyPass_def ordinaryNames_keys)

lemma legacyPass_keys:
  assumes "legacyPass slots slotConfig renderFn pm props cs st r"
  shows "distinct (Object_keys (slotsSeen r))"
    and "set (Object_keys (slotsSeen r)) = set (Object_keys slots)"
  using assms keys_typeSafeSlots[OF legacyPass_names(2)[OF assms]]
  by (simp_all add: legacyPass_def)

lemma legacyPass_value:
  assumes "legacyPass slots slotConfig renderFn pm props cs st r" and "k \<in> set (Object_keys slots)"
  shows "slot_get (slotsSeen r) k = slotValue (configOrEmpty slotConfig k) (matching slots k cs)"
  using assms unfolding legacyPass_def finalValue_slotValue by blast

lemma legacyPass_state:
  assumes "legacyPass slots slotConfig renderFn pm props cs st r"
  shows "slotsSeen r = typeSafeSlots (Object_keys slots) (slotElements st)"
    and "leftoverSeen r = nonSlotChildren st"
  using assms by (simp_all add: legacyPass_def)

lemma legacyPass_leftover:
  assumes "legacyPass slots slotConfig renderFn pm props cs st r"
  shows "leftoverSeen r = unmatched slots cs"
  using assms unfolding legacyPass_def by blast

lemma legacyPass_render:
  assumes "legacyPass slots slotConfig renderFn pm props cs st r"
  shows "render_calls r = [renderProps (AList.delete ''children'' props) (slotsSeen r) (leftoverSeen r)]"
    and "returned r = Element FragmentType
           [NElem (renderFn (renderProps (AList.delete ''children'' props) (slotsSeen r) (leftoverSeen r)))]"
  using assms by (simp_all add: legacyPass_def)


lemma slotValue_defined: "slotValue config ms \<noteq> SlotUndefined"
  by (simp add: slotValue_def initialValue_def)

lemma slotValue_Nil: "slotValue config [] = initialValue config"
  by (simp add: slotValue_def initialValue_def)

section \<open>Children that are not elements\<close>








lemma map_of_renderProps:
  "map_of (renderProps props slots leftover) k =
     (if k = ''nonSlotChildren'' then Some (JElements leftover)
      else if k = ''slots'' then Some (JSlots slots)
      else map_option JProp (map_of props k))"
  by (simp add: renderProps_def update_conv' map_of_map)

lemma builderPass_missing:
  assumes bp: "builderPass fid cfg renderFn pm props cs sc st r"
  shows "missingRequiredSlots cfg (slotElements st) =
           Inr (filter (requiredAndEmpty cfg (slotsSeen r)) (Object_keys cfg))"
proof -
  have seen: "slotsSeen r = typeSafeSlots (Object_keys cfg) (slotElements st)"
    using bp by (simp add: builderPass_def)
  have v: "slot_get (slotElements st) k = finalValue config (initialValue config) (matching sc k cs)"
    if "map_of cfg k = Some config" for k config
    using builderPass_value[OF bp that] that
    by (simp add: seen slot_get_typeSafeSlots[OF builderPass_names(2)[OF bp]] key_of_map_of
          finalValue_slotValue)
  have same: "requiredAndEmpty cfg (slotsSeen r) = requiredAndEmpty cfg (slotElements st)"
    unfolding seen
    by (rule ext)
       (auto simp: requiredAndEmpty_def slot_get_typeSafeSlots[OF builderPass_names(2)[OF bp]]
             key_of_map_of split: option.splits)
  show ?thesis
    unfolding same by (rule missing_run[where ms = "\<lambda>k. matching sc k cs"]) (rule v)
qed

lemma legacyPass_missing:
  assumes lp: "legacyPass slots slotConfig renderFn pm props cs st r"
    and H: "set (Object_keys slotConfig) \<subseteq> set (Object_keys slots)"
  shows "legacy_missingRequiredSlots slotConfig (slotElements st) =
           Inr (filter (requiredAndEmpty slotConfig (slotsSeen r)) (Object_keys slotConfig))"
proof -
  have seen: "slotsSeen r = typeSafeSlots (Object_keys slots) (slotElements st)"
    using lp by (simp add: legacyPass_def)
  have v: "slot_get (slotElements st) k = finalValue config (initialValue config) (matching slots k cs)"
    if c: "map_of slotConfig k = Some config" for k config
  proof -
    from c have k: "k \<in> set (Object_keys slots)" using H key_of_map_of by fast
    from legacyPass_value[OF lp k] c k show ?thesis
      by (simp add: seen slot_get_typeSafeSlots[OF legacyPass_names(2)[OF lp]] finalValue_slotValue
            configOrEmpty_def)
  qed
  have same: "requiredAndEmpty slotConfig (slotsSeen r) = requiredAndEmpty slotConfig (slotElements st)"
    unfolding seen
  proof (rule ext)
    fix k
    show "requiredAndEmpty slotConfig (typeSafeSlots (Object_keys slots) (slotElements st)) k
        = requiredAndEmpty slotConfig (slotElements st) k"
    proof (cases "map_of slotConfig k")
      case None
      then show ?thesis by (simp add: requiredAndEmpty_def)
    next
      case (Some config)
      then have "k \<in> set (Object_keys slots)" using H key_of_map_of by fast
      then show ?thesis
        by (simp add: requiredAndEmpty_def slot_get_typeSafeSlots[OF legacyPass_names(2)[OF lp]] Some)
    qed
  qed
  show ?thesis
    unfolding same by (rule legacy_missing_run[where ms = "\<lambda>k. matching slots k cs"]) (rule v)
qed



lemma not_emptySlot_element [simp]: "\<not> emptySlot (SlotElement e)"
  by simp

lemma matching_Nil [simp]: "matching sc k [] = []"
  by (simp add: matching_def)

section \<open>Destinations\<close>

lemma partition_by_destination:
  assumes K: "finite K" "fst ` set sc \<subseteq> K"
  shows "mset es =
           mset (filter (\<lambda>e. slotEntry sc e = None) es)
           + (\<Sum>k\<in>K. mset (filter (\<lambda>e. map_option fst (slotEntry sc e) = Some k) es))"
proof (rule multiset_eqI)
  fix e
  show "count (mset es) e =
      count (mset (filter (\<lambda>e. slotEntry sc e = None) es)
           + (\<Sum>k\<in>K. mset (filter (\<lambda>e. map_option fst (slotEntry sc e) = Some k) es))) e"
  proof (cases "slotEntry sc e")
    case None
    then show ?thesis by (simp add: count_sum)
  next
    case (Some p)
    obtain k0 c0 where p: "p = (k0, c0)" by (cases p)
    with Some have k0: "k0 \<in> K" using slotEntry_key K(2) by blast
    have "(\<Sum>k\<in>K. count (mset (filter (\<lambda>e. map_option fst (slotEntry sc e) = Some k) es)) e)
        = (\<Sum>k\<in>K. if k = k0 then count (mset es) e else 0)"
      using Some p by (intro sum.cong) auto
    also have "\<dots> = count (mset es) e"
      using K(1) k0 by simp
    finally show ?thesis using Some by (simp add: count_sum)
  qed
qed

lemma children_partition:
  assumes "fst ` set sc \<subseteq> set (Object_keys cfg)"
  shows "mset (elementsOf cs) =
           mset (unmatched sc cs) + (\<Sum>k\<in>set (Object_keys cfg). mset (matching sc k cs))"
  unfolding unmatched_def matching_def
  by (rule partition_by_destination) (simp_all add: assms)

section \<open>Duplicate warnings of the builder\<close>

lemma duplicateWarning_inj [simp]: "duplicateWarning k = duplicateWarning k' \<longleftrightarrow> k = k'"
  by (simp add: duplicateWarning_def)

lemma classifyChild_warnings:
  assumes step: "classifyChild pm cfg sc st c = Inr st1"
    and k: "map_of cfg k = Some config" "\<not> multiple config"
  shows "count_list (console st1) (ConsoleWarn (duplicateWarning k)) =
           count_list (console st) (ConsoleWarn (duplicateWarning k))
           + (if matching sc k [c] \<noteq> [] \<and> \<not> pm \<and> slot_get (slotElements st) k \<noteq> SlotNull
                 \<and> \<not> truthy (defaultContent config) then 1 else 0)"
proof (cases c)
  case (NElem e)
  show ?thesis
  proof (cases "slotEntry sc e")
    case None
    then show ?thesis using NElem step
      by (auto simp: classifyChild_def matching_single)
  next
    case (Some p)
    obtain k0 c0 where p: "p = (k0, c0)" by (cases p)
    have entry: "slotEntry sc e = Some (k0, c0)" using Some p by simp
    have mt: "matching sc k' [c] = (if k' = k0 then [e] else [])" for k'
      using NElem entry by (auto simp add: matching_single)
    show ?thesis
    proof (cases "map_of cfg k0")
      case None
      then show ?thesis using NElem entry step by (simp add: classifyChild_def)
    next
      case (Some config0)
      show ?thesis
      proof (cases "multiple config0")
        case True
        then have "k \<noteq> k0" using k Some by auto
        moreover have "console st1 = console st"
          using NElem entry step Some True
          by (auto simp: classifyChild_def split: slot_value.splits)
        ultimately show ?thesis by (simp add: mt)
      next
        case False
        have c1: "console st1 = console st @
                     (if \<not> pm \<and> slot_get (slotElements st) k0 \<noteq> SlotNull
                         \<and> \<not> truthy (defaultContent config0)
                      then [ConsoleWarn (duplicateWarning k0)] else [])"
          using NElem entry step Some False by (auto simp: classifyChild_def)
        show ?thesis
        proof (cases "k = k0")
          case True
          with k Some have "config0 = config" by simp
          with True c1 show ?thesis by (simp add: mt)
        next
          case False
          with c1 show ?thesis by (simp add: mt)
        qed
      qed
    qed
  qed
qed (use step in \<open>auto simp: classifyChild_def matching_single\<close>)

lemma classify_loop_warnings:
  assumes sub: "fst ` set sc \<subseteq> fst ` set cfg" and np: "''__proto__'' \<notin> fst ` set cfg"
    and k: "map_of cfg k = Some config" "\<not> multiple config"
  shows "arraysReady cfg (slotElements st) \<Longrightarrow>
         forEach cs (classifyChild pm cfg sc) st = Inr st' \<Longrightarrow>
         count_list (console st') (ConsoleWarn (duplicateWarning k)) =
           count_list (console st) (ConsoleWarn (duplicateWarning k))
           + (if \<not> pm \<and> \<not> truthy (defaultContent config)
              then length (matching sc k cs) - (if slot_get (slotElements st) k = SlotNull then 1 else 0)
              else 0)"
proof (induction cs arbitrary: st)
  case Nil
  then show ?case by simp
next
  case (Cons c cs)
  from classifyChild_step[OF sub np Cons.prems(1), of pm c] obtain st1 where
    s1: "classifyChild pm cfg sc st c = Inr st1" and
    r1: "arraysReady cfg (slotElements st1)" and
    v1: "\<forall>k config. map_of cfg k = Some config \<longrightarrow>
           slot_get (slotElements st1) k =
             finalValue config (slot_get (slotElements st) k) (matching sc k [c])"
    by blast
  from Cons.prems(2) s1 have s2: "forEach cs (classifyChild pm cfg sc) st1 = Inr st'" by simp
  note ih = Cons.IH[OF r1 s2]
  note w1 = classifyChild_warnings[OF s1 k]
  have val: "slot_get (slotElements st1) k =
      (if matching sc k [c] = [] then slot_get (slotElements st) k
       else SlotElement (last (matching sc k [c])))"
    using v1 k by (simp add: finalValue_def)
  have len: "length (matching sc k (c # cs)) = length (matching sc k [c]) + length (matching sc k cs)"
    using matching_Cons[of sc k c cs] by simp
  have one: "length (matching sc k [c]) \<le> 1"
    by (simp add: matching_single split: react_node.splits)
  show ?case
  proof (cases "matching sc k [c] = []")
    case True
    with ih w1 val len show ?thesis by simp
  next
    case False
    with one have "length (matching sc k [c]) = 1"
      by (cases "matching sc k [c]") auto
    with ih w1 val len False show ?thesis by auto
  qed
qed

lemma count_list_append: "count_list (xs @ ys) x = count_list xs x + count_list ys x"
  by (induction xs) simp_all

lemma builder_duplicate_warnings:
  assumes on: "ordinaryNames cfg"
  shows "\<exists>sc r. slotComponents fid cfg = Inr sc
     \<and> createComponentWithSlots fid cfg renderFn pm props cs = Inr r
     \<and> (\<forall>k config. map_of cfg k = Some config \<and> \<not> multiple config \<longrightarrow>
           (matching sc k cs \<noteq> [] \<longrightarrow> slot_get (slotsSeen r) k = SlotElement (last (matching sc k cs)))
           \<and> count_list (console_log r) (ConsoleWarn (duplicateWarning k)) =
               (if \<not> pm \<and> \<not> truthy (defaultContent config) then length (matching sc k cs) - 1 else 0))"
proof -
  note np = ordinaryNames_proto[OF on]
  from builder_pass[OF on, of fid renderFn pm props cs] obtain sc st r where
    bp: "builderPass fid cfg renderFn pm props cs sc st r" by blast
  have sub: "fst ` set sc \<subseteq> fst ` set cfg" using builderPass_run(3)[OF bp] by simp
  let ?st0 = "\<lparr>slotElements = assignAll (initialOf cfg) (Object_keys cfg) [],
               nonSlotChildren = [], console = []\<rparr>"
  have loop: "forEach cs (classifyChild pm cfg sc) ?st0 = Inr st"
    using builderPass_run(4)[OF bp] by (simp add: classify_def init_builder[OF np])
  have r0: "arraysReady cfg (slotElements ?st0)" by (simp add: arraysReady_init)
  have "(matching sc k cs \<noteq> [] \<longrightarrow> slot_get (slotsSeen r) k = SlotElement (last (matching sc k cs)))
           \<and> count_list (console_log r) (ConsoleWarn (duplicateWarning k)) =
               (if \<not> pm \<and> \<not> truthy (defaultContent config) then length (matching sc k cs) - 1 else 0)"
    if c: "map_of cfg k = Some config \<and> \<not> multiple config" for k config
  proof -
    from c have k: "map_of cfg k = Some config" "\<not> multiple config" by simp_all
    from classify_loop_warnings[OF sub np k r0 loop]
    have "count_list (console st) (ConsoleWarn (duplicateWarning k)) =
               (if \<not> pm \<and> \<not> truthy (defaultContent config) then length (matching sc k cs) - 1 else 0)"
      using k by (simp add: slot_get_init initialValue_def)
    then have "count_list (console_log r) (ConsoleWarn (duplicateWarning k)) =
               (if \<not> pm \<and> \<not> truthy (defaultContent config) then length (matching sc k cs) - 1 else 0)"
      unfolding builderPass_console[OF bp] count_list_append by simp
    with builderPass_value[OF bp k(1)] k(2) show ?thesis by (simp add: slotValue_def)
  qed
  with builderPass_run(1,2)[OF bp] show ?thesis by blast
qed

section \<open>What the two factories share\<close>

lemma map_of_legacyConfigOf:
  "map_of (legacyConfigOf cfg) k = map_option withoutComponent (map_of cfg k)"
  by (induction cfg) (auto simp: legacyConfigOf_def)

lemma keys_legacyConfigOf [simp]: "Object_keys (legacyConfigOf cfg) = Object_keys cfg"
  by (simp add: legacyConfigOf_def Object_keys_def case_prod_unfold)

lemma configOrEmpty_legacyConfigOf:
  "map_of cfg k = Some config \<Longrightarrow> configOrEmpty (legacyConfigOf cfg) k = withoutComponent config"
  by (simp add: configOrEmpty_def map_of_legacyConfigOf)

lemma legacy_initSlot_same:
  assumes "k \<in> set (Object_keys cfg)"
  shows "legacy_initSlot (legacyConfigOf cfg) se k = initSlot cfg se k"
proof -
  from assms have "k \<in> fst ` set cfg" by (simp add: Object_keys_def)
  from map_of_in_keys[OF this] obtain config where c: "map_of cfg k = Some config" ..
  then show ?thesis
    by (simp add: legacy_initSlot_def initSlot_def configOrEmpty_legacyConfigOf Let_def
          withoutComponent_def)
qed

lemma legacy_step_same_view:
  assumes sub: "fst ` set sc \<subseteq> fst ` set cfg" and "view st = view st'"
  shows "map_sum (\<lambda>e. e) view (legacy_classifyChild pm sc (legacyConfigOf cfg) st c) =
         map_sum (\<lambda>e. e) view (classifyChild pm cfg sc st' c)"
proof (cases c)
  case (NElem e)
  show ?thesis
  proof (cases "slotEntry sc e")
    case None
    then show ?thesis using NElem assms
      by (simp add: legacy_classifyChild_def classifyChild_def view_def)
  next
    case (Some p)
    obtain k0 c0 where p: "p = (k0, c0)" by (cases p)
    have entry: "slotEntry sc e = Some (k0, c0)" using Some p by simp
    then have "k0 \<in> fst ` set cfg" using slotEntry_key sub by blast
    from map_of_in_keys[OF this] obtain config where "map_of cfg k0 = Some config" ..
    then show ?thesis using NElem entry assms(2)
      by (simp add: legacy_classifyChild_def classifyChild_def view_def configOrEmpty_legacyConfigOf
               withoutComponent_def Let_def split: slot_value.splits)
  qed
qed (use assms in \<open>simp_all add: legacy_classifyChild_def classifyChild_def\<close>)

lemma legacy_step_same:
  assumes sub: "fst ` set sc \<subseteq> fst ` set cfg" and nd: "noDefaultContent cfg"
  shows "legacy_classifyChild pm sc (legacyConfigOf cfg) st c = classifyChild pm cfg sc st c"
proof (cases c)
  case (NElem e)
  show ?thesis
  proof (cases "slotEntry sc e")
    case None
    then show ?thesis using NElem
      by (simp add: legacy_classifyChild_def classifyChild_def)
  next
    case (Some p)
    obtain k0 c0 where p: "p = (k0, c0)" by (cases p)
    have entry: "slotEntry sc e = Some (k0, c0)" using Some p by simp
    then have "k0 \<in> fst ` set cfg" using slotEntry_key sub by blast
    from map_of_in_keys[OF this] obtain config where c: "map_of cfg k0 = Some config" ..
    then have "(k0, config) \<in> set cfg" by (rule map_of_SomeD)
    with nd have "multiple config \<or> \<not> truthy (defaultContent config)"
      by (auto simp: noDefaultContent_def list_all_iff)
    then show ?thesis using NElem entry c
      by (auto simp add: legacy_classifyChild_def classifyChild_def configOrEmpty_legacyConfigOf
               withoutComponent_def Let_def split: slot_value.splits)
  qed
qed (simp_all add: legacy_classifyChild_def classifyChild_def)

lemma legacy_isMissing_same:
  assumes "k \<in> set (Object_keys cfg)"
  shows "legacy_isMissing (legacyConfigOf cfg) se k = isMissing cfg se k"
proof -
  from assms have "k \<in> fst ` set cfg" by (simp add: Object_keys_def)
  from map_of_in_keys[OF this] obtain config where c: "map_of cfg k = Some config" ..
  then show ?thesis
    by (simp add: legacy_isMissing_def isMissing_def map_of_legacyConfigOf withoutComponent_def)
qed

lemma filterE_cong_set:
  "(\<And>x. x \<in> set xs \<Longrightarrow> p x = q x) \<Longrightarrow> filterE p xs = filterE q xs"
  by (induction xs) (simp_all split: sum.splits)

lemma legacy_missing_same:
  "legacy_missingRequiredSlots (legacyConfigOf cfg) se = missingRequiredSlots cfg se"
  unfolding legacy_missingRequiredSlots_def missingRequiredSlots_def keys_legacyConfigOf
  by (rule filterE_cong_set) (rule legacy_isMissing_same)

lemma generated_keys:
  assumes "distinct (Object_keys cfg)" and "slotComponents fid cfg = Inr sc"
    and "''__proto__'' \<notin> fst ` set cfg"
  shows "Object_keys sc = Object_keys cfg"
  using assms keys_assignAll[of "Object_keys cfg" "[]" "wrapperOrComponent fid cfg"]
  by (simp add: slotComponents_run Object_keys_def)

lemma legacy_classify_same_view:
  assumes keys: "Object_keys sc = Object_keys cfg"
  shows "map_sum (\<lambda>e. e) view (legacy_classify pm sc (legacyConfigOf cfg) cs) =
         map_sum (\<lambda>e. e) view (classify pm cfg sc cs)"
proof -
  have sub: "fst ` set sc \<subseteq> fst ` set cfg"
    using keys by (metis Object_keys_def list.set_map order_refl)
  have init: "forEach (Object_keys sc) (legacy_initSlot (legacyConfigOf cfg)) [] =
              forEach (Object_keys cfg) (initSlot cfg) []"
    unfolding keys by (rule forEach_cong_set) (rule legacy_initSlot_same)
  have loop: "view st = view st' \<Longrightarrow>
      map_sum (\<lambda>e. e) view (forEach cs (legacy_classifyChild pm sc (legacyConfigOf cfg)) st) =
      map_sum (\<lambda>e. e) view (forEach cs (classifyChild pm cfg sc) st')" for st st'
  proof (induction cs arbitrary: st st')
    case Nil
    then show ?case by simp
  next
    case (Cons c cs)
    from legacy_step_same_view[OF sub Cons.prems, of pm c]
    show ?case
      by (cases "legacy_classifyChild pm sc (legacyConfigOf cfg) st c";
          cases "classifyChild pm cfg sc st' c")
         (simp_all add: Cons.IH)
  qed
  show ?thesis
    unfolding legacy_classify_def classify_def init
    by (cases "forEach (Object_keys cfg) (initSlot cfg) []") (simp_all add: loop view_def)
qed

lemma legacy_classify_same:
  assumes keys: "Object_keys sc = Object_keys cfg" and nd: "noDefaultContent cfg"
  shows "legacy_classify pm sc (legacyConfigOf cfg) cs = classify pm cfg sc cs"
proof -
  have sub: "fst ` set sc \<subseteq> fst ` set cfg"
    using keys by (metis Object_keys_def list.set_map order_refl)
  have init: "forEach (Object_keys sc) (legacy_initSlot (legacyConfigOf cfg)) [] =
              forEach (Object_keys cfg) (initSlot cfg) []"
    unfolding keys by (rule forEach_cong_set) (rule legacy_initSlot_same)
  have loop: "forEach cs (legacy_classifyChild pm sc (legacyConfigOf cfg)) st =
      forEach cs (classifyChild pm cfg sc) st" for st
    by (rule forEach_cong_set) (rule legacy_step_same[OF sub nd])
  show ?thesis
    unfolding legacy_classify_def classify_def init
    by (cases "forEach (Object_keys cfg) (initSlot cfg) []") (simp_all add: loop)
qed

text \<open>
  What the two factories share. On a registry with distinct keys, the legacy factory called
  with the builder's slot components and the same configuration gives the render function the
  same input, returns the same element and reports the same missing required slots; when no
  singular slot has truthy default content the whole console output is the same.
\<close>

lemma legacy_agrees_with_builder:
  assumes d: "distinct (Object_keys cfg)" and on: "ordinaryNames cfg"
  shows "\<exists>sc rb rl. slotComponents fid cfg = Inr sc
     \<and> createComponentWithSlots fid cfg renderFn pm props cs = Inr rb
     \<and> createComponentWithSlots_legacy sc (legacyConfigOf cfg) renderFn pm props cs = Inr rl
     \<and> render_calls rl = render_calls rb
     \<and> returned rl = returned rb
     \<and> filter isErrorCall (console_log rl) = filter isErrorCall (console_log rb)
     \<and> (noDefaultContent cfg \<longrightarrow> rl = rb)"
proof -
  from builder_pass[OF on, of fid renderFn pm props cs] obtain sc st rb where
    bp: "builderPass fid cfg renderFn pm props cs sc st rb" by blast
  note sc = builderPass_run(1)[OF bp] and rb = builderPass_run(2)[OF bp]
    and cl = builderPass_run(4)[OF bp]
  have keys: "Object_keys sc = Object_keys cfg"
    by (rule generated_keys[OF d sc ordinaryNames_proto[OF on]])
  have "ordinaryNames sc" using on keys by (simp add: ordinaryNames_def)
  from staticProperties_run[OF this] obtain statics where sp: "staticProperties sc = Inr statics" ..
  from legacy_classify_same_view[OF keys, of pm cs] cl
  obtain stl where l: "legacy_classify pm sc (legacyConfigOf cfg) cs = Inr stl"
    and vw: "view stl = view st"
    by (cases "legacy_classify pm sc (legacyConfigOf cfg) cs") simp_all
  have se: "slotElements stl = slotElements st" and ns: "nonSlotChildren stl = nonSlotChildren st"
    using vw by (simp_all add: view_def)
  from rb sc sp cl have cb: "Component pm cfg sc renderFn props cs = Inr rb"
    by (simp add: createComponentWithSlots_def)
  obtain missing where m: "missingRequiredSlots cfg (slotElements st) = Inr missing"
    using cb cl by (cases "missingRequiredSlots cfg (slotElements st)") (simp_all add: Component_def)
  let ?rp = "renderProps (AList.delete ''children'' props) (typeSafeSlots (Object_keys cfg) (slotElements st)) (nonSlotChildren st)"
  let ?e = "if length missing > 0 \<and> \<not> pm then [ConsoleError (missingMessage missing)] else []"
  have rb_eq: "rb = \<lparr>console_log = console st @ ?e, render_calls = [?rp],
                     returned = Element FragmentType [NElem (renderFn ?rp)]\<rparr>"
    using cb cl m by (simp add: Component_def Let_def)
  let ?rl = "\<lparr>console_log = console stl @ ?e, render_calls = [?rp],
                     returned = Element FragmentType [NElem (renderFn ?rp)]\<rparr>"
  have rl: "createComponentWithSlots_legacy sc (legacyConfigOf cfg) renderFn pm props cs = Inr ?rl"
    using l m sp
    by (simp add: createComponentWithSlots_legacy_def legacy_Component_def legacy_missing_same se ns
          keys Let_def)
  have errs: "filter isErrorCall (console stl) = filter isErrorCall (console st)"
    using legacy_classify_errors[OF l] classify_errors[OF cl] by simp
  have same: "?rl = rb" if "noDefaultContent cfg"
    using legacy_classify_same[OF keys that, of pm cs] l cl rb_eq by simp
  show ?thesis
    apply (rule exI[of _ sc], rule exI[of _ rb], rule exI[of _ ?rl])
    using sc rb rl errs same by (simp add: rb_eq)
qed

section \<open>Slot components, render input and error message\<close>

lemma slotComponents_tokens:
  assumes "''__proto__'' \<notin> fst ` set cfg" and "slotComponents fid cfg = Inr sc"
    and "map_of cfg k = Some config"
  shows "map_of sc k = Some (case component config of Some c \<Rightarrow> c | None \<Rightarrow> DefaultWrapper fid k)"
  using assms key_of_map_of[OF assms(3)]
  by (auto simp: slotComponents_run map_of_assignAll wrapperOrComponent_def)

lemma map_of_renderProps_rest:
  "map_of (renderProps (AList.delete ''children'' props) slots leftover) k =
     (if k = ''nonSlotChildren'' then Some (JElements leftover)
      else if k = ''slots'' then Some (JSlots slots)
      else if k = ''children'' then None
      else map_option JProp (map_of props k))"
  by (simp add: map_of_renderProps delete_conv)



section \<open>The examples, evaluated\<close>

lemmas builder_eval =
  createComponentWithSlots_def slotComponents_def generateSlotComponent_def staticProperties_def
  attachSlot_def readOnlyProperties_def assignProperty_def writeSlot_def Component_def
  classify_def initSlot_def classifyChild_def slotEntry_def slot_get_def
  missingRequiredSlots_def isMissing_def typeSafeSlots_def renderProps_def missingMessage_def
  Object_keys_def Let_def

lemmas legacy_eval =
  createComponentWithSlots_legacy_def staticProperties_def attachSlot_def readOnlyProperties_def
  assignProperty_def writeSlot_def legacy_Component_def legacy_classify_def legacy_initSlot_def
  legacy_classifyChild_def configOrEmpty_def emptyConfig_def slotEntry_def slot_get_def
  legacy_missingRequiredSlots_def legacy_isMissing_def typeSafeSlots_def renderProps_def
  missingMessage_def Object_keys_def Let_def

lemmas names_eval = ordinaryNames_def ordinaryName_def readOnlyProperties_def Object_keys_def

lemma scenario_names: "ordinaryNames scenarioConfig" "ordinaryNames scenarioSlots"
  by (simp_all add: names_eval scenarioConfig_def scenarioSlots_def)

lemma falsy_names: "ordinaryNames falsyConfig" "ordinaryNames falsySlots"
  by (simp_all add: names_eval falsyConfig_def falsySlots_def)

lemma requiredFooter_names: "ordinaryNames requiredFooter" "ordinaryNames requiredFooterSlots"
  by (simp_all add: names_eval requiredFooter_def requiredFooterSlots_def)

lemma onlyHeader_names: "ordinaryNames onlyHeader" "ordinaryNames onlyHeaderSlots"
  by (simp_all add: names_eval onlyHeader_def onlyHeaderSlots_def)

lemma scenario_components: "slotComponents 0 scenarioConfig = Inr scenarioSlots"
  by (simp add: slotComponents_def scenarioConfig_def scenarioSlots_def Object_keys_def
        generateSlotComponent_def assignProperty_def)

lemma scenario_matching_Tab: "matching scenarioSlots ''Tab'' scenarioChildren = []"
  by (simp add: matching_def scenarioSlots_def scenarioChildren_def slotEntry_def)

lemma scenario_keys: "set (Object_keys scenarioSlotConfig) \<subseteq> set (Object_keys scenarioSlots)"
  by (simp add: scenarioSlotConfig_def scenarioSlots_def Object_keys_def)

lemma tabs_matching:
  "matching scenarioSlots ''Tab'' tabsChildren = [tab ''Tab 1'', tab ''Tab 2'', tab ''Tab 3'']"
  by (simp add: matching_def scenarioSlots_def tabsChildren_def slotEntry_def tab_def)

lemma tabs_unmatched:
  "unmatched scenarioSlots tabsChildren = [Element (HostTag ''div'') [NText ''extra'']]"
  by (simp add: unmatched_def scenarioSlots_def tabsChildren_def slotEntry_def tab_def)

lemma scenario_empty_run:
  "createComponentWithSlots 0 scenarioConfig renderDiv False [] [] =
     Inr \<lparr>console_log = [ConsoleError ''Required slots missing: Header''],
          render_calls =
            [[(''slots'', JSlots [(''Header'', SlotNull),
                 (''Footer'', SlotElement (Element FragmentType [NText ''(c) 2025''])),
                 (''Tab'', SlotArray [])]),
              (''nonSlotChildren'', JElements [])]],
          returned = Element FragmentType [NElem (Element (HostTag ''div'') [])]\<rparr>"
  by (simp add: builder_eval scenarioConfig_def renderDiv_def)

lemma scenario_empty_run_legacy:
  "createComponentWithSlots_legacy scenarioSlots scenarioSlotConfig renderDiv False [] [] =
     Inr \<lparr>console_log = [ConsoleError ''Required slots missing: Header''],
          render_calls =
            [[(''slots'', JSlots [(''Header'', SlotNull),
                 (''Footer'', SlotElement (Element FragmentType [NText ''(c) 2025''])),
                 (''Tab'', SlotArray [])]),
              (''nonSlotChildren'', JElements [])]],
          returned = Element FragmentType [NElem (Element (HostTag ''div'') [])]\<rparr>"
  by (simp add: legacy_eval scenarioSlots_def scenarioSlotConfig_def renderDiv_def)

lemma scenario_run:
  "createComponentWithSlots 0 scenarioConfig renderDiv False [(''className'', ())] scenarioChildren =
     Inr \<lparr>console_log = [],
          render_calls =
            [[(''className'', JProp ()),
              (''slots'', JSlots [(''Header'', SlotElement
                   (Element (ComponentType (DefaultWrapper 0 ''Header'')) [NText ''Title''])),
                 (''Footer'', SlotElement (Element FragmentType [NText ''(c) 2025''])),
                 (''Tab'', SlotArray [])]),
              (''nonSlotChildren'', JElements [Element (HostTag ''div'') [NText ''extra'']])]],
          returned = Element FragmentType [NElem (Element (HostTag ''div'') [])]\<rparr>"
  by (simp add: builder_eval scenarioConfig_def scenarioChildren_def renderDiv_def)

lemma scenario_run_legacy:
  "createComponentWithSlots_legacy scenarioSlots scenarioSlotConfig renderDiv False
       [(''className'', ())] scenarioChildren =
     Inr \<lparr>console_log = [],
          render_calls =
            [[(''className'', JProp ()),
              (''slots'', JSlots [(''Header'', SlotElement
                   (Element (ComponentType (DefaultWrapper 0 ''Header'')) [NText ''Title''])),
                 (''Footer'', SlotElement (Element FragmentType [NText ''(c) 2025''])),
                 (''Tab'', SlotArray [])]),
              (''nonSlotChildren'', JElements [Element (HostTag ''div'') [NText ''extra'']])]],
          returned = Element FragmentType [NElem (Element (HostTag ''div'') [])]\<rparr>"
  by (simp add: legacy_eval scenarioSlots_def scenarioSlotConfig_def scenarioChildren_def renderDiv_def)

lemma onlyHeader_components: "slotComponents 0 onlyHeader = Inr onlyHeaderSlots"
  by (simp add: slotComponents_def onlyHeader_def onlyHeaderSlots_def Object_keys_def
        generateSlotComponent_def assignProperty_def)

lemma twoHeaders_matching:
  "matching onlyHeaderSlots ''Header'' twoHeaders = [header ''first'', header ''second'']"
  by (simp add: matching_def onlyHeaderSlots_def twoHeaders_def slotEntry_def header_def)

text \<open>
  A slot named \<^verbatim>\<open>name\<close>, \<^verbatim>\<open>length\<close>, \<^verbatim>\<open>caller\<close> or \<^verbatim>\<open>arguments\<close> makes STEP 3 throw:
  the factory returns no component and there is no render pass. A slot named
  \<^verbatim>\<open>__proto__\<close> has no entry among the slot components, so that a child of its component
  is a leftover child, and no entry in the slots object; when it is singular and starts
  empty, \<^verbatim>\<open>slotElements['__proto__']\<close> reads \<^verbatim>\<open>undefined\<close>, not \<^verbatim>\<open>null\<close>, and the slot is
  not reported missing. The properties below are therefore stated for registries whose
  slot names are ordinary (\<open>ordinaryNames\<close>).
\<close>

lemma factory_throws_on_function_property:
  "createComponentWithSlots 0
     [(''name'', \<lparr>isRequired = False, multiple = False, defaultContent = NUndefined,
                  component = None\<rparr>)] renderDiv False [] [] = Inl TypeError"
  "createComponentWithSlots_legacy [(''length'', UserComponent 1)] [] renderDiv False [] []
     = Inl TypeError"
  by (simp_all add: builder_eval legacy_eval)

lemma proto_slot_is_no_slot:
  "slotComponents 0
     [(''__proto__'', \<lparr>isRequired = True, multiple = True, defaultContent = NUndefined,
                       component = Some (UserComponent 7)\<rparr>)] = Inr []"
  "createComponentWithSlots 0
     [(''__proto__'', \<lparr>isRequired = True, multiple = True, defaultContent = NUndefined,
                       component = Some (UserComponent 7)\<rparr>)] renderDiv True [] [NElem (tab ''Tab 1'')] =
     Inr \<lparr>console_log = [],
          render_calls = [[(''slots'', JSlots []), (''nonSlotChildren'', JElements [tab ''Tab 1''])]],
          returned = Element FragmentType [NElem (Element (HostTag ''div'') [])]\<rparr>"
  by (simp_all add: builder_eval renderDiv_def tab_def)




section \<open>The properties of the specification\<close>

text \<open>
  Each property is stated for the builder's factory and for the legacy one: for a factory
  call followed by a render pass of the component, on a registry whose slot names are
  ordinary, and for the legacy factory with a \<^verbatim>\<open>slotConfig\<close> whose keys are keys of
  \<^verbatim>\<open>slots\<close>. \<open>matching sc k children\<close> are the children that match slot \<open>k\<close>,
  \<open>unmatched sc children\<close> those that match no slot; \<open>slotsSeen r\<close> and \<open>leftoverSeen r\<close>
  are the \<^verbatim>\<open>slots\<close> and \<^verbatim>\<open>nonSlotChildren\<close> that the render function received.
\<close>

subsection \<open>C1\<close>

text \<open>
  C1, as amended. For every registry whose slot names are ordinary and every list of
  children, the slots object that the render function receives has exactly one entry for
  every declared slot name and no other; the entry of a slot that no child matched is the
  empty array for a multiple slot and, for a singular slot, \<^verbatim>\<open>null\<close> or the wrapped
  default content when one is configured. The legacy factory does the same for the keys of
  \<^verbatim>\<open>slots\<close>, its \<^verbatim>\<open>slotConfig\<close> having keys among them as its type says. The claim as
  it is written, for every registry, fails for a slot named \<^verbatim>\<open>__proto__\<close>: the slots object
  has no entry for it.
\<close>

theorem C1_every_slot_has_an_entry_amended:
  "(ordinaryNames slotsConfig \<longrightarrow>
      (\<exists>sc r. slotComponents fid slotsConfig = Inr sc
        \<and> createComponentWithSlots fid slotsConfig renderFn production props children = Inr r
        \<and> distinct (Object_keys (slotsSeen r))
        \<and> set (Object_keys (slotsSeen r)) = set (Object_keys slotsConfig)
        \<and> (\<forall>k config. map_of slotsConfig k = Some config \<longrightarrow>
              slot_get (slotsSeen r) k \<noteq> SlotUndefined
              \<and> (matching sc k children = [] \<longrightarrow> slot_get (slotsSeen r) k = initialValue config))))
   \<and> (ordinaryNames slots \<and> set (Object_keys slotConfig) \<subseteq> set (Object_keys slots) \<longrightarrow>
       (\<exists>r. createComponentWithSlots_legacy slots slotConfig renderFn production props children = Inr r
          \<and> distinct (Object_keys (slotsSeen r))
          \<and> set (Object_keys (slotsSeen r)) = set (Object_keys slots)
          \<and> (\<forall>k. k \<in> set (Object_keys slots) \<longrightarrow>
                slot_get (slotsSeen r) k \<noteq> SlotUndefined
                \<and> (matching slots k children = [] \<longrightarrow>
                     slot_get (slotsSeen r) k = initialValue (configOrEmpty slotConfig k)))))"
proof (intro conjI impI)
  assume on: "ordinaryNames slotsConfig"
  from builder_pass[OF on, of fid renderFn production props children] obtain sc st r where
    bp: "builderPass fid slotsConfig renderFn production props children sc st r" by blast
  have "slot_get (slotsSeen r) k \<noteq> SlotUndefined
          \<and> (matching sc k children = [] \<longrightarrow> slot_get (slotsSeen r) k = initialValue config)"
    if "map_of slotsConfig k = Some config" for k config
    using builderPass_value[OF bp that] by (simp add: slotValue_defined slotValue_Nil)
  with builderPass_run(1,2)[OF bp] builderPass_keys[OF bp]
  show "\<exists>sc r. slotComponents fid slotsConfig = Inr sc
      \<and> createComponentWithSlots fid slotsConfig renderFn production props children = Inr r
      \<and> distinct (Object_keys (slotsSeen r))
      \<and> set (Object_keys (slotsSeen r)) = set (Object_keys slotsConfig)
      \<and> (\<forall>k config. map_of slotsConfig k = Some config \<longrightarrow>
            slot_get (slotsSeen r) k \<noteq> SlotUndefined
            \<and> (matching sc k children = [] \<longrightarrow> slot_get (slotsSeen r) k = initialValue config))"
    by blast
next
  assume "ordinaryNames slots \<and> set (Object_keys slotConfig) \<subseteq> set (Object_keys slots)"
  then have on: "ordinaryNames slots"
    and H: "set (Object_keys slotConfig) \<subseteq> set (Object_keys slots)" by simp_all
  from legacy_pass[OF H on, of renderFn production props children] obtain st r where
    lp: "legacyPass slots slotConfig renderFn production props children st r" by blast
  have "slot_get (slotsSeen r) k \<noteq> SlotUndefined
          \<and> (matching slots k children = [] \<longrightarrow>
                slot_get (slotsSeen r) k = initialValue (configOrEmpty slotConfig k))"
    if "k \<in> set (Object_keys slots)" for k
    using legacyPass_value[OF lp that] by (simp add: slotValue_defined slotValue_Nil)
  with legacyPass_run(1)[OF lp] legacyPass_keys[OF lp]
  show "\<exists>r. createComponentWithSlots_legacy slots slotConfig renderFn production props children = Inr r
          \<and> distinct (Object_keys (slotsSeen r))
          \<and> set (Object_keys (slotsSeen r)) = set (Object_keys slots)
          \<and> (\<forall>k. k \<in> set (Object_keys slots) \<longrightarrow>
                slot_get (slotsSeen r) k \<noteq> SlotUndefined
                \<and> (matching slots k children = [] \<longrightarrow>
                     slot_get (slotsSeen r) k = initialValue (configOrEmpty slotConfig k)))"
    by blast
qed

theorem C1_every_slot_has_an_entry_counterexample:
  "createComponentWithSlots 0
     [(''__proto__'', \<lparr>isRequired = False, multiple = False, defaultContent = NUndefined,
                       component = None\<rparr>)] renderDiv False [] [] =
     Inr \<lparr>console_log = [],
          render_calls = [[(''slots'', JSlots []), (''nonSlotChildren'', JElements [])]],
          returned = Element FragmentType [NElem (Element (HostTag ''div'') [])]\<rparr>
   \<and> createComponentWithSlots_legacy [(''__proto__'', UserComponent 1)] [] renderDiv False [] [] =
     Inr \<lparr>console_log = [],
          render_calls = [[(''slots'', JSlots []), (''nonSlotChildren'', JElements [])]],
          returned = Element FragmentType [NElem (Element (HostTag ''div'') [])]\<rparr>"
  by (simp add: builder_eval legacy_eval renderDiv_def)

theorem C1_every_slot_has_an_entry_amended_witness:
  "ordinaryNames scenarioConfig
   \<and> map_of scenarioConfig ''Tab'' =
      Some \<lparr>isRequired = False, multiple = True, defaultContent = NUndefined,
            component = Some (UserComponent 7)\<rparr>
   \<and> ordinaryNames scenarioSlots
   \<and> set (Object_keys scenarioSlotConfig) \<subseteq> set (Object_keys scenarioSlots)
   \<and> ''Tab'' \<in> set (Object_keys scenarioSlots)
   \<and> matching scenarioSlots ''Tab'' scenarioChildren = []
   \<and> (\<exists>r. createComponentWithSlots 0 scenarioConfig renderDiv False [] scenarioChildren = Inr r
         \<and> set (Object_keys (slotsSeen r)) = {''Header'', ''Footer'', ''Tab''}
         \<and> slot_get (slotsSeen r) ''Tab'' = SlotArray [])
   \<and> (\<exists>r. createComponentWithSlots_legacy scenarioSlots scenarioSlotConfig renderDiv False []
              scenarioChildren = Inr r
         \<and> set (Object_keys (slotsSeen r)) = {''Header'', ''Footer'', ''Tab''}
         \<and> slot_get (slotsSeen r) ''Tab'' = SlotArray [])"
proof -
  let ?tab = "\<lparr>isRequired = False, multiple = True, defaultContent = NUndefined,
            component = Some (UserComponent 7)\<rparr>"
  have m: "map_of scenarioConfig ''Tab'' = Some ?tab" by (simp add: scenarioConfig_def)
  have k: "''Tab'' \<in> set (Object_keys scenarioSlots)"
    by (simp add: scenarioSlots_def Object_keys_def)
  note c1 = C1_every_slot_has_an_entry_amended[of scenarioConfig 0 renderDiv False "[]"
      scenarioChildren scenarioSlots scenarioSlotConfig]
  from c1 scenario_names(1) obtain sc r where
    sc: "slotComponents 0 scenarioConfig = Inr sc" and
    r: "createComponentWithSlots 0 scenarioConfig renderDiv False [] scenarioChildren = Inr r" and
    ks: "set (Object_keys (slotsSeen r)) = set (Object_keys scenarioConfig)" and
    v: "\<forall>k config. map_of scenarioConfig k = Some config \<longrightarrow>
            slot_get (slotsSeen r) k \<noteq> SlotUndefined
            \<and> (matching sc k scenarioChildren = [] \<longrightarrow> slot_get (slotsSeen r) k = initialValue config)"
    by blast
  from sc have "sc = scenarioSlots" by (simp add: scenario_components)
  with v m scenario_matching_Tab have "slot_get (slotsSeen r) ''Tab'' = SlotArray []"
    by (simp add: initialValue_def)
  with r ks have b: "\<exists>r. createComponentWithSlots 0 scenarioConfig renderDiv False [] scenarioChildren = Inr r
         \<and> set (Object_keys (slotsSeen r)) = {''Header'', ''Footer'', ''Tab''}
         \<and> slot_get (slotsSeen r) ''Tab'' = SlotArray []"
    by (auto simp: scenarioConfig_def Object_keys_def)
  from c1 scenario_names(2) scenario_keys obtain r' where
    r': "createComponentWithSlots_legacy scenarioSlots scenarioSlotConfig renderDiv False []
              scenarioChildren = Inr r'" and
    ks': "set (Object_keys (slotsSeen r')) = set (Object_keys scenarioSlots)" and
    v': "\<forall>k. k \<in> set (Object_keys scenarioSlots) \<longrightarrow>
                slot_get (slotsSeen r') k \<noteq> SlotUndefined
                \<and> (matching scenarioSlots k scenarioChildren = [] \<longrightarrow>
                     slot_get (slotsSeen r') k = initialValue (configOrEmpty scenarioSlotConfig k))"
    by blast
  from v' k scenario_matching_Tab have "slot_get (slotsSeen r') ''Tab'' = SlotArray []"
    by (simp add: initialValue_def configOrEmpty_def scenarioSlotConfig_def)
  with r' ks' have l: "\<exists>r. createComponentWithSlots_legacy scenarioSlots scenarioSlotConfig renderDiv False []
              scenarioChildren = Inr r
         \<and> set (Object_keys (slotsSeen r)) = {''Header'', ''Footer'', ''Tab''}
         \<and> slot_get (slotsSeen r) ''Tab'' = SlotArray []"
    by (auto simp: scenarioSlots_def Object_keys_def)
  from scenario_names m scenario_keys k scenario_matching_Tab b l show ?thesis by blast
qed

subsection \<open>C2\<close>

text \<open>
  C2, as amended. On a registry whose slot names are ordinary, every declared slot has its
  component among the slot components, a child matches the first slot, in key order, whose
  component is the child's type, the leftover list is the subsequence of the children made
  of the structured children that match no slot, in their order, and the value of a
  multiple slot is the list of the children that match it, in their order. The claim as it
  is written fails for a slot named \<^verbatim>\<open>__proto__\<close>: it has no entry among the slot
  components, and the children of its component go to the leftover list.
\<close>

theorem C2_classification_is_stable_amended:
  "(ordinaryNames slotsConfig \<longrightarrow>
      (\<exists>sc r. slotComponents fid slotsConfig = Inr sc
        \<and> createComponentWithSlots fid slotsConfig renderFn production props children = Inr r
        \<and> (\<forall>k config. map_of slotsConfig k = Some config \<longrightarrow>
              map_of sc k = Some (case component config of Some c \<Rightarrow> c | None \<Rightarrow> DefaultWrapper fid k))
        \<and> leftoverSeen r = unmatched sc children
        \<and> (\<forall>k config. map_of slotsConfig k = Some config \<and> multiple config \<longrightarrow>
              slot_get (slotsSeen r) k = SlotArray (matching sc k children))))
   \<and> (ordinaryNames slots \<and> set (Object_keys slotConfig) \<subseteq> set (Object_keys slots) \<longrightarrow>
       (\<exists>r. createComponentWithSlots_legacy slots slotConfig renderFn production props children = Inr r
          \<and> leftoverSeen r = unmatched slots children
          \<and> (\<forall>k. k \<in> set (Object_keys slots) \<and> multiple (configOrEmpty slotConfig k) \<longrightarrow>
                slot_get (slotsSeen r) k = SlotArray (matching slots k children))))"
proof (intro conjI impI)
  assume on: "ordinaryNames slotsConfig"
  from builder_pass[OF on, of fid renderFn production props children] obtain sc st r where
    bp: "builderPass fid slotsConfig renderFn production props children sc st r" by blast
  have "slot_get (slotsSeen r) k = SlotArray (matching sc k children)"
    if "map_of slotsConfig k = Some config \<and> multiple config" for k config
    using builderPass_value[OF bp, of k config] that by (simp add: slotValue_def)
  moreover have "map_of sc k =
      Some (case component config of Some c \<Rightarrow> c | None \<Rightarrow> DefaultWrapper fid k)"
    if "map_of slotsConfig k = Some config" for k config
    by (rule slotComponents_tokens[OF ordinaryNames_proto[OF on] builderPass_run(1)[OF bp] that])
  ultimately show "\<exists>sc r. slotComponents fid slotsConfig = Inr sc
      \<and> createComponentWithSlots fid slotsConfig renderFn production props children = Inr r
      \<and> (\<forall>k config. map_of slotsConfig k = Some config \<longrightarrow>
            map_of sc k = Some (case component config of Some c \<Rightarrow> c | None \<Rightarrow> DefaultWrapper fid k))
      \<and> leftoverSeen r = unmatched sc children
      \<and> (\<forall>k config. map_of slotsConfig k = Some config \<and> multiple config \<longrightarrow>
            slot_get (slotsSeen r) k = SlotArray (matching sc k children))"
    using builderPass_run(1,2)[OF bp] builderPass_leftover[OF bp] by blast
next
  assume "ordinaryNames slots \<and> set (Object_keys slotConfig) \<subseteq> set (Object_keys slots)"
  then have on: "ordinaryNames slots"
    and H: "set (Object_keys slotConfig) \<subseteq> set (Object_keys slots)" by simp_all
  from legacy_pass[OF H on, of renderFn production props children] obtain st r where
    lp: "legacyPass slots slotConfig renderFn production props children st r" by blast
  have "slot_get (slotsSeen r) k = SlotArray (matching slots k children)"
    if "k \<in> set (Object_keys slots) \<and> multiple (configOrEmpty slotConfig k)" for k
    using legacyPass_value[OF lp, of k] that by (simp add: slotValue_def)
  with legacyPass_run(1)[OF lp] legacyPass_leftover[OF lp]
  show "\<exists>r. createComponentWithSlots_legacy slots slotConfig renderFn production props children = Inr r
          \<and> leftoverSeen r = unmatched slots children
          \<and> (\<forall>k. k \<in> set (Object_keys slots) \<and> multiple (configOrEmpty slotConfig k) \<longrightarrow>
                slot_get (slotsSeen r) k = SlotArray (matching slots k children))"
    by blast
qed

theorem C2_classification_is_stable_counterexample:
  "el_type (tab ''Tab 1'') = ComponentType (UserComponent 7)
   \<and> el_type (tab ''Tab 2'') = ComponentType (UserComponent 7)
   \<and> slotComponents 0
       [(''__proto__'', \<lparr>isRequired = False, multiple = True, defaultContent = NUndefined,
                         component = Some (UserComponent 7)\<rparr>)] = Inr []
   \<and> createComponentWithSlots 0
       [(''__proto__'', \<lparr>isRequired = False, multiple = True, defaultContent = NUndefined,
                         component = Some (UserComponent 7)\<rparr>)]
       renderDiv False [] [NElem (tab ''Tab 1''), NElem (tab ''Tab 2'')] =
     Inr \<lparr>console_log = [],
          render_calls =
            [[(''slots'', JSlots []),
              (''nonSlotChildren'', JElements [tab ''Tab 1'', tab ''Tab 2''])]],
          returned = Element FragmentType [NElem (Element (HostTag ''div'') [])]\<rparr>"
  by (simp add: builder_eval renderDiv_def tab_def)

theorem C2_classification_is_stable_amended_witness:
  "ordinaryNames scenarioConfig
   \<and> map_of scenarioConfig ''Tab'' =
      Some \<lparr>isRequired = False, multiple = True, defaultContent = NUndefined,
            component = Some (UserComponent 7)\<rparr>
   \<and> ordinaryNames scenarioSlots
   \<and> set (Object_keys scenarioSlotConfig) \<subseteq> set (Object_keys scenarioSlots)
   \<and> ''Tab'' \<in> set (Object_keys scenarioSlots)
   \<and> multiple (configOrEmpty scenarioSlotConfig ''Tab'')
   \<and> (\<exists>sc r. slotComponents 0 scenarioConfig = Inr sc
         \<and> map_of sc ''Tab'' = Some (UserComponent 7)
         \<and> createComponentWithSlots 0 scenarioConfig renderDiv False [] tabsChildren = Inr r
         \<and> leftoverSeen r = [Element (HostTag ''div'') [NText ''extra'']]
         \<and> slot_get (slotsSeen r) ''Tab'' = SlotArray [tab ''Tab 1'', tab ''Tab 2'', tab ''Tab 3''])
   \<and> (\<exists>r. createComponentWithSlots_legacy scenarioSlots scenarioSlotConfig renderDiv False []
              tabsChildren = Inr r
         \<and> leftoverSeen r = [Element (HostTag ''div'') [NText ''extra'']]
         \<and> slot_get (slotsSeen r) ''Tab'' = SlotArray [tab ''Tab 1'', tab ''Tab 2'', tab ''Tab 3''])"
proof -
  let ?tab = "\<lparr>isRequired = False, multiple = True, defaultContent = NUndefined,
            component = Some (UserComponent 7)\<rparr>"
  have m: "map_of scenarioConfig ''Tab'' = Some ?tab" by (simp add: scenarioConfig_def)
  have k: "''Tab'' \<in> set (Object_keys scenarioSlots)"
    by (simp add: scenarioSlots_def Object_keys_def)
  have mu: "multiple (configOrEmpty scenarioSlotConfig ''Tab'')"
    by (simp add: configOrEmpty_def scenarioSlotConfig_def)
  note c2 = C2_classification_is_stable_amended[of scenarioConfig 0 renderDiv False "[]"
      tabsChildren scenarioSlots scenarioSlotConfig]
  from c2 scenario_names(1) obtain sc r where
    sc: "slotComponents 0 scenarioConfig = Inr sc" and
    r: "createComponentWithSlots 0 scenarioConfig renderDiv False [] tabsChildren = Inr r" and
    t: "\<forall>k config. map_of scenarioConfig k = Some config \<longrightarrow>
          map_of sc k = Some (case component config of Some c \<Rightarrow> c | None \<Rightarrow> DefaultWrapper 0 k)" and
    l: "leftoverSeen r = unmatched sc tabsChildren" and
    v: "\<forall>k config. map_of scenarioConfig k = Some config \<and> multiple config \<longrightarrow>
            slot_get (slotsSeen r) k = SlotArray (matching sc k tabsChildren)"
    by blast
  from sc have s: "sc = scenarioSlots" by (simp add: scenario_components)
  from t[rule_format, OF m] have "map_of sc ''Tab'' = Some (UserComponent 7)" by simp
  with v m l r sc s
  have b: "\<exists>sc r. slotComponents 0 scenarioConfig = Inr sc
         \<and> map_of sc ''Tab'' = Some (UserComponent 7)
         \<and> createComponentWithSlots 0 scenarioConfig renderDiv False [] tabsChildren = Inr r
         \<and> leftoverSeen r = [Element (HostTag ''div'') [NText ''extra'']]
         \<and> slot_get (slotsSeen r) ''Tab'' = SlotArray [tab ''Tab 1'', tab ''Tab 2'', tab ''Tab 3'']"
    by (intro exI[of _ sc] exI[of _ r]) (simp add: tabs_matching tabs_unmatched)
  from c2 scenario_names(2) scenario_keys obtain r' where
    r': "createComponentWithSlots_legacy scenarioSlots scenarioSlotConfig renderDiv False []
              tabsChildren = Inr r'" and
    l': "leftoverSeen r' = unmatched scenarioSlots tabsChildren" and
    v': "\<forall>k. k \<in> set (Object_keys scenarioSlots) \<and> multiple (configOrEmpty scenarioSlotConfig k) \<longrightarrow>
                slot_get (slotsSeen r') k = SlotArray (matching scenarioSlots k tabsChildren)"
    by blast
  from v' k mu l' r' have l: "\<exists>r. createComponentWithSlots_legacy scenarioSlots scenarioSlotConfig renderDiv False []
              tabsChildren = Inr r
         \<and> leftoverSeen r = [Element (HostTag ''div'') [NText ''extra'']]
         \<and> slot_get (slotsSeen r) ''Tab'' = SlotArray [tab ''Tab 1'', tab ''Tab 2'', tab ''Tab 3'']"
    by (simp add: tabs_matching tabs_unmatched)
  from scenario_names m scenario_keys k mu b l show ?thesis by blast
qed

subsection \<open>C3\<close>

text \<open>
  C3. For a singular slot with two or more matching children the final value is the last
  of them, and the duplicate warning is due, outside production, exactly when no default
  content pre-existed. The builder does so on every registry whose slot names are ordinary
  (\<open>builder_duplicate_warnings\<close>).
  The legacy factory does not: on a singular slot with default content and two matching
  children, outside production, the slot ends with the last child but the warning is written
  twice, the first time when the first child replaces the default content; the builder, on
  the same input, writes none.
\<close>

theorem C3_legacy_warns_over_default_content:
  "matching requiredFooterSlots ''Footer'' [NElem (footer ''one''), NElem (footer ''two'')]
     = [footer ''one'', footer ''two'']
   \<and> createComponentWithSlots_legacy requiredFooterSlots requiredFooterSlotConfig renderDiv False []
       [NElem (footer ''one''), NElem (footer ''two'')] =
     Inr \<lparr>console_log = [ConsoleWarn (duplicateWarning ''Footer''),
                          ConsoleWarn (duplicateWarning ''Footer'')],
          render_calls =
            [[(''slots'', JSlots [(''Footer'', SlotElement (footer ''two''))]),
              (''nonSlotChildren'', JElements [])]],
          returned = Element FragmentType [NElem (Element (HostTag ''div'') [])]\<rparr>
   \<and> createComponentWithSlots 0 requiredFooter renderDiv False []
       [NElem (footer ''one''), NElem (footer ''two'')] =
     Inr \<lparr>console_log = [],
          render_calls =
            [[(''slots'', JSlots [(''Footer'', SlotElement (footer ''two''))]),
              (''nonSlotChildren'', JElements [])]],
          returned = Element FragmentType [NElem (Element (HostTag ''div'') [])]\<rparr>"
  by (simp add: builder_eval legacy_eval requiredFooter_def requiredFooterSlots_def
        requiredFooterSlotConfig_def renderDiv_def footer_def matching_def)

subsection \<open>C4\<close>

text \<open>
  C4, as amended. On a registry whose slot names are ordinary, a singular slot whose
  configured default content is truthy is never reported as a missing required slot, and
  when no child matches it its classified value is the default content wrapped in a
  fragment. A multiple slot ignores its default content: with no child it is the empty
  array and, when required, it is reported missing.
\<close>

theorem C4_default_content_amended:
  "(ordinaryNames slotsConfig \<longrightarrow>
     (\<exists>sc st missing r. slotComponents fid slotsConfig = Inr sc
      \<and> classify production slotsConfig sc children = Inr st
      \<and> missingRequiredSlots slotsConfig (slotElements st) = Inr missing
      \<and> createComponentWithSlots fid slotsConfig renderFn production props children = Inr r
      \<and> (\<forall>k config. map_of slotsConfig k = Some config \<and> \<not> multiple config
              \<and> truthy (defaultContent config) \<longrightarrow>
            k \<notin> set missing
            \<and> (matching sc k children = [] \<longrightarrow>
                 slot_get (slotsSeen r) k =
                   SlotElement (Element FragmentType [defaultContent config])))))
   \<and> (ordinaryNames slots \<and> set (Object_keys slotConfig) \<subseteq> set (Object_keys slots) \<longrightarrow>
       (\<exists>st missing r. legacy_classify production slots slotConfig children = Inr st
          \<and> legacy_missingRequiredSlots slotConfig (slotElements st) = Inr missing
          \<and> createComponentWithSlots_legacy slots slotConfig renderFn production props children = Inr r
          \<and> (\<forall>k config. map_of slotConfig k = Some config \<and> \<not> multiple config
                  \<and> truthy (defaultContent config) \<longrightarrow>
                k \<notin> set missing
                \<and> (matching slots k children = [] \<longrightarrow>
                     slot_get (slotsSeen r) k =
                       SlotElement (Element FragmentType [defaultContent config])))))"
proof (intro conjI impI)
  assume on: "ordinaryNames slotsConfig"
  from builder_pass[OF on, of fid renderFn production props children] obtain sc st r where
    bp: "builderPass fid slotsConfig renderFn production props children sc st r" by blast
  let ?missing = "filter (requiredAndEmpty slotsConfig (slotsSeen r)) (Object_keys slotsConfig)"
  have "k \<notin> set ?missing
            \<and> (matching sc k children = [] \<longrightarrow>
                 slot_get (slotsSeen r) k =
                   SlotElement (Element FragmentType [defaultContent config]))"
    if "map_of slotsConfig k = Some config \<and> \<not> multiple config \<and> truthy (defaultContent config)"
    for k config
    using builderPass_value[OF bp, of k config] that
    by (simp add: slotValue_def initialValue_def requiredAndEmpty_def)
  with builderPass_run(1,4,2)[OF bp] builderPass_missing[OF bp]
  show "\<exists>sc st missing r. slotComponents fid slotsConfig = Inr sc
      \<and> classify production slotsConfig sc children = Inr st
      \<and> missingRequiredSlots slotsConfig (slotElements st) = Inr missing
      \<and> createComponentWithSlots fid slotsConfig renderFn production props children = Inr r
      \<and> (\<forall>k config. map_of slotsConfig k = Some config \<and> \<not> multiple config
              \<and> truthy (defaultContent config) \<longrightarrow>
            k \<notin> set missing
            \<and> (matching sc k children = [] \<longrightarrow>
                 slot_get (slotsSeen r) k =
                   SlotElement (Element FragmentType [defaultContent config])))"
    by blast
next
  assume "ordinaryNames slots \<and> set (Object_keys slotConfig) \<subseteq> set (Object_keys slots)"
  then have on: "ordinaryNames slots"
    and H: "set (Object_keys slotConfig) \<subseteq> set (Object_keys slots)" by simp_all
  from legacy_pass[OF H on, of renderFn production props children] obtain st r where
    lp: "legacyPass slots slotConfig renderFn production props children st r" by blast
  let ?missing = "filter (requiredAndEmpty slotConfig (slotsSeen r)) (Object_keys slotConfig)"
  have "k \<notin> set ?missing
            \<and> (matching slots k children = [] \<longrightarrow>
                 slot_get (slotsSeen r) k =
                   SlotElement (Element FragmentType [defaultContent config]))"
    if c: "map_of slotConfig k = Some config \<and> \<not> multiple config \<and> truthy (defaultContent config)"
    for k config
  proof -
    from c have k: "k \<in> set (Object_keys slots)" using H key_of_map_of by fast
    from legacyPass_value[OF lp k] c show ?thesis
      by (simp add: slotValue_def initialValue_def requiredAndEmpty_def configOrEmpty_def)
  qed
  with legacyPass_run(2,1)[OF lp] legacyPass_missing[OF lp H]
  show "\<exists>st missing r. legacy_classify production slots slotConfig children = Inr st
          \<and> legacy_missingRequiredSlots slotConfig (slotElements st) = Inr missing
          \<and> createComponentWithSlots_legacy slots slotConfig renderFn production props children = Inr r
          \<and> (\<forall>k config. map_of slotConfig k = Some config \<and> \<not> multiple config
                  \<and> truthy (defaultContent config) \<longrightarrow>
                k \<notin> set missing
                \<and> (matching slots k children = [] \<longrightarrow>
                     slot_get (slotsSeen r) k =
                       SlotElement (Element FragmentType [defaultContent config])))"
    by blast
qed

theorem C4_default_content_counterexample:
  "createComponentWithSlots 0 requiredTabs renderDiv False [] [] =
     Inr \<lparr>console_log = [ConsoleError ''Required slots missing: Tab''],
          render_calls =
            [[(''slots'', JSlots [(''Tab'', SlotArray [])]), (''nonSlotChildren'', JElements [])]],
          returned = Element FragmentType [NElem (Element (HostTag ''div'') [])]\<rparr>
   \<and> createComponentWithSlots_legacy [(''Tab'', UserComponent 7)]
        [(''Tab'', \<lparr>isRequired = True, multiple = True, defaultContent = NText ''No tabs''\<rparr>)]
        renderDiv False [] [] =
     Inr \<lparr>console_log = [ConsoleError ''Required slots missing: Tab''],
          render_calls =
            [[(''slots'', JSlots [(''Tab'', SlotArray [])]), (''nonSlotChildren'', JElements [])]],
          returned = Element FragmentType [NElem (Element (HostTag ''div'') [])]\<rparr>"
  by (simp add: builder_eval legacy_eval requiredTabs_def renderDiv_def)

theorem C4_default_content_amended_witness:
  "ordinaryNames requiredFooter \<and> ordinaryNames requiredFooterSlots
   \<and> map_of requiredFooter ''Footer'' =
      Some \<lparr>isRequired = True, multiple = False, defaultContent = NText ''(c) 2025'',
            component = None\<rparr>
   \<and> truthy (NText ''(c) 2025'')
   \<and> set (Object_keys requiredFooterSlotConfig) \<subseteq> set (Object_keys requiredFooterSlots)
   \<and> map_of requiredFooterSlotConfig ''Footer'' =
      Some \<lparr>isRequired = True, multiple = False, defaultContent = NText ''(c) 2025''\<rparr>
   \<and> (\<exists>sc st missing r. slotComponents 0 requiredFooter = Inr sc
         \<and> matching sc ''Footer'' [NText ''hi''] = []
         \<and> classify False requiredFooter sc [NText ''hi''] = Inr st
         \<and> missingRequiredSlots requiredFooter (slotElements st) = Inr missing
         \<and> createComponentWithSlots 0 requiredFooter renderDiv False [] [NText ''hi''] = Inr r
         \<and> ''Footer'' \<notin> set missing
         \<and> slot_get (slotsSeen r) ''Footer'' = SlotElement (Element FragmentType [NText ''(c) 2025'']))
   \<and> (\<exists>st missing r.
           legacy_classify False requiredFooterSlots requiredFooterSlotConfig [NText ''hi''] = Inr st
         \<and> legacy_missingRequiredSlots requiredFooterSlotConfig (slotElements st) = Inr missing
         \<and> createComponentWithSlots_legacy requiredFooterSlots requiredFooterSlotConfig renderDiv
              False [] [NText ''hi''] = Inr r
         \<and> ''Footer'' \<notin> set missing
         \<and> slot_get (slotsSeen r) ''Footer'' = SlotElement (Element FragmentType [NText ''(c) 2025'']))"
proof -
  let ?c = "\<lparr>isRequired = True, multiple = False, defaultContent = NText ''(c) 2025'',
            component = None\<rparr>"
  let ?lc = "\<lparr>isRequired = True, multiple = False, defaultContent = NText ''(c) 2025''\<rparr>"
  have m: "map_of requiredFooter ''Footer'' = Some ?c" by (simp add: requiredFooter_def)
  have lm: "map_of requiredFooterSlotConfig ''Footer'' = Some ?lc"
    by (simp add: requiredFooterSlotConfig_def)
  have t: "truthy (NText ''(c) 2025'')" by simp
  have H: "set (Object_keys requiredFooterSlotConfig) \<subseteq> set (Object_keys requiredFooterSlots)"
    by (simp add: requiredFooterSlotConfig_def requiredFooterSlots_def Object_keys_def)
  note c4 = C4_default_content_amended[where slotsConfig = requiredFooter and fid = 0
      and production = False and children = "[NText ''hi'']" and renderFn = renderDiv
      and props = "[]" and slotConfig = requiredFooterSlotConfig and slots = requiredFooterSlots]
  from c4 requiredFooter_names(1) obtain sc st missing r where
    a: "slotComponents 0 requiredFooter = Inr sc"
       "classify False requiredFooter sc [NText ''hi''] = Inr st"
       "missingRequiredSlots requiredFooter (slotElements st) = Inr missing"
       "createComponentWithSlots 0 requiredFooter renderDiv False [] [NText ''hi''] = Inr r" and
    v: "\<forall>k config. map_of requiredFooter k = Some config \<and> \<not> multiple config
              \<and> truthy (defaultContent config) \<longrightarrow>
            k \<notin> set missing
            \<and> (matching sc k [NText ''hi''] = [] \<longrightarrow>
                 slot_get (slotsSeen r) k =
                   SlotElement (Element FragmentType [defaultContent config]))"
    by blast
  have e: "matching sc ''Footer'' [NText ''hi''] = []" by (simp add: matching_def)
  from v[rule_format, of "''Footer''" ?c] m e
  have "''Footer'' \<notin> set missing
      \<and> slot_get (slotsSeen r) ''Footer'' = SlotElement (Element FragmentType [NText ''(c) 2025''])"
    by simp
  with a e have b: "\<exists>sc st missing r. slotComponents 0 requiredFooter = Inr sc
         \<and> matching sc ''Footer'' [NText ''hi''] = []
         \<and> classify False requiredFooter sc [NText ''hi''] = Inr st
         \<and> missingRequiredSlots requiredFooter (slotElements st) = Inr missing
         \<and> createComponentWithSlots 0 requiredFooter renderDiv False [] [NText ''hi''] = Inr r
         \<and> ''Footer'' \<notin> set missing
         \<and> slot_get (slotsSeen r) ''Footer'' = SlotElement (Element FragmentType [NText ''(c) 2025''])"
    by blast
  from c4 requiredFooter_names(2) H obtain st' missing' r' where
    a': "legacy_classify False requiredFooterSlots requiredFooterSlotConfig [NText ''hi''] = Inr st'"
        "legacy_missingRequiredSlots requiredFooterSlotConfig (slotElements st') = Inr missing'"
        "createComponentWithSlots_legacy requiredFooterSlots requiredFooterSlotConfig renderDiv
              False [] [NText ''hi''] = Inr r'" and
    v': "\<forall>k config. map_of requiredFooterSlotConfig k = Some config \<and> \<not> multiple config
                  \<and> truthy (defaultContent config) \<longrightarrow>
                k \<notin> set missing'
                \<and> (matching requiredFooterSlots k [NText ''hi''] = [] \<longrightarrow>
                     slot_get (slotsSeen r') k =
                       SlotElement (Element FragmentType [defaultContent config]))"
    by blast
  have e': "matching requiredFooterSlots ''Footer'' [NText ''hi''] = []" by (simp add: matching_def)
  from v'[rule_format, of "''Footer''" ?lc] lm e'
  have "''Footer'' \<notin> set missing'
      \<and> slot_get (slotsSeen r') ''Footer'' = SlotElement (Element FragmentType [NText ''(c) 2025''])"
    by simp
  with a' have l: "\<exists>st missing r.
           legacy_classify False requiredFooterSlots requiredFooterSlotConfig [NText ''hi''] = Inr st
         \<and> legacy_missingRequiredSlots requiredFooterSlotConfig (slotElements st) = Inr missing
         \<and> createComponentWithSlots_legacy requiredFooterSlots requiredFooterSlotConfig renderDiv
              False [] [NText ''hi''] = Inr r
         \<and> ''Footer'' \<notin> set missing
         \<and> slot_get (slotsSeen r) ''Footer'' = SlotElement (Element FragmentType [NText ''(c) 2025''])"
    by blast
  from requiredFooter_names m t H lm b l show ?thesis by blast
qed

subsection \<open>C5\<close>




subsection \<open>C6\<close>

text \<open>
  C6, as amended. On a registry whose slot names are ordinary, every render pass calls the
  render function exactly once, on one object: the properties the component was called with,
  \<^verbatim>\<open>children\<close> left out, with \<^verbatim>\<open>slots\<close> and \<^verbatim>\<open>nonSlotChildren\<close> written over them, where
  \<^verbatim>\<open>slots\<close> has one entry per declared slot, holding the children that match it, and
  \<^verbatim>\<open>nonSlotChildren\<close> is the list of the children that match no slot. The component
  returns a fragment whose only child is the element the render function returned, not
  that element itself. For the legacy factory this needs a \<^verbatim>\<open>slotConfig\<close> whose keys are
  keys of \<^verbatim>\<open>slots\<close>: otherwise its validator can throw before the render function is called.
\<close>

theorem C6_render_adapter_amended:
  "(ordinaryNames slotsConfig \<longrightarrow>
     (\<exists>sc r rp slotsObject. slotComponents fid slotsConfig = Inr sc
        \<and> createComponentWithSlots fid slotsConfig renderFn production props children = Inr r
        \<and> render_calls r = [rp]
        \<and> returned r = Element FragmentType [NElem (renderFn rp)]
        \<and> (\<forall>k. map_of rp k =
               (if k = ''nonSlotChildren'' then Some (JElements (unmatched sc children))
                else if k = ''slots'' then Some (JSlots slotsObject)
                else if k = ''children'' then None
                else map_option JProp (map_of props k)))
        \<and> distinct (Object_keys slotsObject)
        \<and> set (Object_keys slotsObject) = set (Object_keys slotsConfig)
        \<and> (\<forall>k config. map_of slotsConfig k = Some config \<longrightarrow>
              slot_get slotsObject k =
                (if multiple config then SlotArray (matching sc k children)
                 else if matching sc k children = [] then initialValue config
                 else SlotElement (last (matching sc k children))))))
   \<and> (ordinaryNames slots \<and> set (Object_keys slotConfig) \<subseteq> set (Object_keys slots) \<longrightarrow>
       (\<exists>r rp slotsObject.
          createComponentWithSlots_legacy slots slotConfig renderFn production props children = Inr r
          \<and> render_calls r = [rp]
          \<and> returned r = Element FragmentType [NElem (renderFn rp)]
          \<and> (\<forall>k. map_of rp k =
                 (if k = ''nonSlotChildren'' then Some (JElements (unmatched slots children))
                  else if k = ''slots'' then Some (JSlots slotsObject)
                  else if k = ''children'' then None
                  else map_option JProp (map_of props k)))
          \<and> distinct (Object_keys slotsObject)
          \<and> set (Object_keys slotsObject) = set (Object_keys slots)
          \<and> (\<forall>k. k \<in> set (Object_keys slots) \<longrightarrow>
                slot_get slotsObject k =
                  (if multiple (configOrEmpty slotConfig k) then SlotArray (matching slots k children)
                   else if matching slots k children = [] then initialValue (configOrEmpty slotConfig k)
                   else SlotElement (last (matching slots k children))))))"
proof (intro conjI impI)
  assume on: "ordinaryNames slotsConfig"
  from builder_pass[OF on, of fid renderFn production props children] obtain sc st r where
    bp: "builderPass fid slotsConfig renderFn production props children sc st r" by blast
  let ?rp = "renderProps (AList.delete ''children'' props) (slotsSeen r) (leftoverSeen r)"
  have m: "\<forall>k. map_of ?rp k =
               (if k = ''nonSlotChildren'' then Some (JElements (unmatched sc children))
                else if k = ''slots'' then Some (JSlots (slotsSeen r))
                else if k = ''children'' then None
                else map_option JProp (map_of props k))"
    by (simp add: map_of_renderProps_rest builderPass_leftover[OF bp])
  have v: "\<forall>k config. map_of slotsConfig k = Some config \<longrightarrow>
              slot_get (slotsSeen r) k =
                (if multiple config then SlotArray (matching sc k children)
                 else if matching sc k children = [] then initialValue config
                 else SlotElement (last (matching sc k children)))"
    using builderPass_value[OF bp] by (simp add: slotValue_def)
  from builderPass_run(1,2)[OF bp] builderPass_render[OF bp] m builderPass_keys[OF bp] v
  show "\<exists>sc r rp slotsObject. slotComponents fid slotsConfig = Inr sc
        \<and> createComponentWithSlots fid slotsConfig renderFn production props children = Inr r
        \<and> render_calls r = [rp]
        \<and> returned r = Element FragmentType [NElem (renderFn rp)]
        \<and> (\<forall>k. map_of rp k =
               (if k = ''nonSlotChildren'' then Some (JElements (unmatched sc children))
                else if k = ''slots'' then Some (JSlots slotsObject)
                else if k = ''children'' then None
                else map_option JProp (map_of props k)))
        \<and> distinct (Object_keys slotsObject)
        \<and> set (Object_keys slotsObject) = set (Object_keys slotsConfig)
        \<and> (\<forall>k config. map_of slotsConfig k = Some config \<longrightarrow>
              slot_get slotsObject k =
                (if multiple config then SlotArray (matching sc k children)
                 else if matching sc k children = [] then initialValue config
                 else SlotElement (last (matching sc k children))))"
    by (intro exI[of _ sc] exI[of _ r] exI[of _ ?rp] exI[of _ "slotsSeen r"] conjI)
next
  assume "ordinaryNames slots \<and> set (Object_keys slotConfig) \<subseteq> set (Object_keys slots)"
  then have on: "ordinaryNames slots"
    and H: "set (Object_keys slotConfig) \<subseteq> set (Object_keys slots)" by simp_all
  from legacy_pass[OF H on, of renderFn production props children] obtain st r where
    lp: "legacyPass slots slotConfig renderFn production props children st r" by blast
  let ?rp = "renderProps (AList.delete ''children'' props) (slotsSeen r) (leftoverSeen r)"
  have m: "\<forall>k. map_of ?rp k =
               (if k = ''nonSlotChildren'' then Some (JElements (unmatched slots children))
                else if k = ''slots'' then Some (JSlots (slotsSeen r))
                else if k = ''children'' then None
                else map_option JProp (map_of props k))"
    by (simp add: map_of_renderProps_rest legacyPass_leftover[OF lp])
  have v: "\<forall>k. k \<in> set (Object_keys slots) \<longrightarrow>
                slot_get (slotsSeen r) k =
                  (if multiple (configOrEmpty slotConfig k) then SlotArray (matching slots k children)
                   else if matching slots k children = [] then initialValue (configOrEmpty slotConfig k)
                   else SlotElement (last (matching slots k children)))"
    using legacyPass_value[OF lp] by (simp add: slotValue_def)
  from legacyPass_run(1)[OF lp] legacyPass_render[OF lp] m legacyPass_keys[OF lp] v
  show "\<exists>r rp slotsObject.
          createComponentWithSlots_legacy slots slotConfig renderFn production props children = Inr r
          \<and> render_calls r = [rp]
          \<and> returned r = Element FragmentType [NElem (renderFn rp)]
          \<and> (\<forall>k. map_of rp k =
                 (if k = ''nonSlotChildren'' then Some (JElements (unmatched slots children))
                  else if k = ''slots'' then Some (JSlots slotsObject)
                  else if k = ''children'' then None
                  else map_option JProp (map_of props k)))
          \<and> distinct (Object_keys slotsObject)
          \<and> set (Object_keys slotsObject) = set (Object_keys slots)
          \<and> (\<forall>k. k \<in> set (Object_keys slots) \<longrightarrow>
                slot_get slotsObject k =
                  (if multiple (configOrEmpty slotConfig k) then SlotArray (matching slots k children)
                   else if matching slots k children = [] then initialValue (configOrEmpty slotConfig k)
                   else SlotElement (last (matching slots k children))))"
    by (intro exI[of _ r] exI[of _ ?rp] exI[of _ "slotsSeen r"] conjI)
qed

theorem C6_render_adapter_counterexample:
  "createComponentWithSlots 0 onlyHeader renderDiv False [] [] =
     Inr \<lparr>console_log = [],
          render_calls = [[(''slots'', JSlots [(''Header'', SlotNull)]),
                           (''nonSlotChildren'', JElements [])]],
          returned = Element FragmentType [NElem (Element (HostTag ''div'') [])]\<rparr>
   \<and> renderDiv [(''slots'', JSlots [(''Header'', SlotNull)]), (''nonSlotChildren'', JElements [])]
       = Element (HostTag ''div'') []
   \<and> Element FragmentType [NElem (Element (HostTag ''div'') [])] \<noteq> Element (HostTag ''div'') []
   \<and> createComponentWithSlots_legacy [(''Header'', UserComponent 1)]
        [(''Footer'', \<lparr>isRequired = True, multiple = True, defaultContent = NUndefined\<rparr>)]
        renderDiv False [(''className'', ())] [] = Inl TypeError"
  by (simp add: builder_eval legacy_eval onlyHeader_def renderDiv_def)

theorem C6_render_adapter_amended_witness:
  "ordinaryNames scenarioConfig \<and> ordinaryNames scenarioSlots
   \<and> set (Object_keys scenarioSlotConfig) \<subseteq> set (Object_keys scenarioSlots)
   \<and> map_of scenarioConfig ''Header'' =
        Some \<lparr>isRequired = True, multiple = False, defaultContent = NUndefined, component = None\<rparr>
   \<and> ''Header'' \<in> set (Object_keys scenarioSlots)
   \<and> (\<exists>r rp slotsObject.
         createComponentWithSlots 0 scenarioConfig renderDiv False
           [(''className'', ()), (''children'', ())] scenarioChildren = Inr r
         \<and> render_calls r = [rp]
         \<and> map_of rp ''className'' = Some (JProp ())
         \<and> map_of rp ''children'' = None
         \<and> map_of rp ''slots'' = Some (JSlots slotsObject)
         \<and> slot_get slotsObject ''Header'' = SlotElement (header ''Title'')
         \<and> map_of rp ''nonSlotChildren'' = Some (JElements [Element (HostTag ''div'') [NText ''extra'']])
         \<and> returned r = Element FragmentType [NElem (Element (HostTag ''div'') [])])
   \<and> (\<exists>r rp slotsObject.
         createComponentWithSlots_legacy scenarioSlots scenarioSlotConfig renderDiv False
           [(''className'', ()), (''children'', ())] scenarioChildren = Inr r
         \<and> render_calls r = [rp]
         \<and> map_of rp ''className'' = Some (JProp ())
         \<and> map_of rp ''children'' = None
         \<and> map_of rp ''slots'' = Some (JSlots slotsObject)
         \<and> slot_get slotsObject ''Header'' = SlotElement (header ''Title'')
         \<and> map_of rp ''nonSlotChildren'' = Some (JElements [Element (HostTag ''div'') [NText ''extra'']])
         \<and> returned r = Element FragmentType [NElem (Element (HostTag ''div'') [])])"
proof -
  let ?h = "\<lparr>isRequired = True, multiple = False, defaultContent = NUndefined, component = None\<rparr>"
  have mh: "map_of scenarioConfig ''Header'' = Some ?h" by (simp add: scenarioConfig_def)
  have k: "''Header'' \<in> set (Object_keys scenarioSlots)"
    by (simp add: scenarioSlots_def Object_keys_def)
  have mt: "matching scenarioSlots ''Header'' scenarioChildren = [header ''Title'']"
    by (simp add: matching_def scenarioSlots_def scenarioChildren_def slotEntry_def header_def)
  have um: "unmatched scenarioSlots scenarioChildren = [Element (HostTag ''div'') [NText ''extra'']]"
    by (simp add: unmatched_def scenarioSlots_def scenarioChildren_def slotEntry_def)
  have nm: "\<not> multiple (configOrEmpty scenarioSlotConfig ''Header'')"
    by (simp add: configOrEmpty_def scenarioSlotConfig_def)
  note c6 = C6_render_adapter_amended[where fid = 0 and slotsConfig = scenarioConfig
      and renderFn = renderDiv and production = False
      and props = "[(''className'', ()), (''children'', ())]"
      and children = scenarioChildren and slotConfig = scenarioSlotConfig
      and slots = scenarioSlots]
  from conjunct1[OF c6, rule_format, OF scenario_names(1)] obtain sc r rp slotsObject where
    sc: "slotComponents 0 scenarioConfig = Inr sc" and
    r: "createComponentWithSlots 0 scenarioConfig renderDiv False
          [(''className'', ()), (''children'', ())] scenarioChildren = Inr r" and
    calls: "render_calls r = [rp]" and
    ret: "returned r = Element FragmentType [NElem (renderDiv rp)]" and
    a: "\<forall>k. map_of rp k =
               (if k = ''nonSlotChildren'' then Some (JElements (unmatched sc scenarioChildren))
                else if k = ''slots'' then Some (JSlots slotsObject)
                else if k = ''children'' then None
                else map_option JProp (map_of [(''className'', ()), (''children'', ())] k))" and
    "distinct (Object_keys slotsObject)" and
    "set (Object_keys slotsObject) = set (Object_keys scenarioConfig)" and
    v: "\<forall>k config. map_of scenarioConfig k = Some config \<longrightarrow>
              slot_get slotsObject k =
                (if multiple config then SlotArray (matching sc k scenarioChildren)
                 else if matching sc k scenarioChildren = [] then initialValue config
                 else SlotElement (last (matching sc k scenarioChildren)))"
    by (elim exE conjE) (rule that, assumption+)
  from sc have s: "sc = scenarioSlots" by (simp add: scenario_components)
  from a[rule_format, of "''className''"] a[rule_format, of "''children''"]
    a[rule_format, of "''slots''"] a[rule_format, of "''nonSlotChildren''"]
  have m: "map_of rp ''className'' = Some (JProp ())" "map_of rp ''children'' = None"
    "map_of rp ''slots'' = Some (JSlots slotsObject)"
    "map_of rp ''nonSlotChildren'' = Some (JElements [Element (HostTag ''div'') [NText ''extra'']])"
    by (simp_all add: s um)
  from v[rule_format, OF mh] have hv: "slot_get slotsObject ''Header'' = SlotElement (header ''Title'')"
    by (simp add: s mt)
  have b: "\<exists>r rp slotsObject.
         createComponentWithSlots 0 scenarioConfig renderDiv False
           [(''className'', ()), (''children'', ())] scenarioChildren = Inr r
         \<and> render_calls r = [rp]
         \<and> map_of rp ''className'' = Some (JProp ())
         \<and> map_of rp ''children'' = None
         \<and> map_of rp ''slots'' = Some (JSlots slotsObject)
         \<and> slot_get slotsObject ''Header'' = SlotElement (header ''Title'')
         \<and> map_of rp ''nonSlotChildren'' = Some (JElements [Element (HostTag ''div'') [NText ''extra'']])
         \<and> returned r = Element FragmentType [NElem (Element (HostTag ''div'') [])]"
    using r calls ret m hv
    by (intro exI[of _ r] exI[of _ rp] exI[of _ slotsObject]) (simp add: renderDiv_def)
  from conjunct2[OF c6, rule_format, OF conjI[OF scenario_names(2) scenario_keys]]
  obtain r' rp' slotsObject' where
    r': "createComponentWithSlots_legacy scenarioSlots scenarioSlotConfig renderDiv False
           [(''className'', ()), (''children'', ())] scenarioChildren = Inr r'" and
    calls': "render_calls r' = [rp']" and
    ret': "returned r' = Element FragmentType [NElem (renderDiv rp')]" and
    a': "\<forall>k. map_of rp' k =
               (if k = ''nonSlotChildren'' then Some (JElements (unmatched scenarioSlots scenarioChildren))
                else if k = ''slots'' then Some (JSlots slotsObject')
                else if k = ''children'' then None
                else map_option JProp (map_of [(''className'', ()), (''children'', ())] k))" and
    "distinct (Object_keys slotsObject')" and
    "set (Object_keys slotsObject') = set (Object_keys scenarioSlots)" and
    v': "\<forall>k. k \<in> set (Object_keys scenarioSlots) \<longrightarrow>
                slot_get slotsObject' k =
                  (if multiple (configOrEmpty scenarioSlotConfig k)
                   then SlotArray (matching scenarioSlots k scenarioChildren)
                   else if matching scenarioSlots k scenarioChildren = []
                   then initialValue (configOrEmpty scenarioSlotConfig k)
                   else SlotElement (last (matching scenarioSlots k scenarioChildren)))"
    by (elim exE conjE) (rule that, assumption+)
  from a'[rule_format, of "''className''"] a'[rule_format, of "''children''"]
    a'[rule_format, of "''slots''"] a'[rule_format, of "''nonSlotChildren''"]
  have m': "map_of rp' ''className'' = Some (JProp ())" "map_of rp' ''children'' = None"
    "map_of rp' ''slots'' = Some (JSlots slotsObject')"
    "map_of rp' ''nonSlotChildren'' = Some (JElements [Element (HostTag ''div'') [NText ''extra'']])"
    by (simp_all add: um)
  from v'[rule_format, OF k] have hv': "slot_get slotsObject' ''Header'' = SlotElement (header ''Title'')"
    by (simp add: mt nm)
  have l: "\<exists>r rp slotsObject.
         createComponentWithSlots_legacy scenarioSlots scenarioSlotConfig renderDiv False
           [(''className'', ()), (''children'', ())] scenarioChildren = Inr r
         \<and> render_calls r = [rp]
         \<and> map_of rp ''className'' = Some (JProp ())
         \<and> map_of rp ''children'' = None
         \<and> map_of rp ''slots'' = Some (JSlots slotsObject)
         \<and> slot_get slotsObject ''Header'' = SlotElement (header ''Title'')
         \<and> map_of rp ''nonSlotChildren'' = Some (JElements [Element (HostTag ''div'') [NText ''extra'']])
         \<and> returned r = Element FragmentType [NElem (Element (HostTag ''div'') [])]"
    using r' calls' ret' m' hv'
    by (intro exI[of _ r'] exI[of _ rp'] exI[of _ slotsObject']) (simp add: renderDiv_def)
  from scenario_names scenario_keys mh k b l show ?thesis by blast
qed

subsection \<open>C7\<close>




subsection \<open>C8\<close>

text \<open>
  C8. The two factories are to behave alike on the same slots, components, configuration,
  render function and children. On a registry with distinct, ordinary keys they give the render
  function the same input, return the same element and report the same missing slots
  (\<open>legacy_agrees_with_builder\<close>), but not the same warnings: on a singular slot with default
  content and a single matching child, outside production, only the legacy factory writes
  the duplicate warning.
\<close>

theorem C8_factories_differ_on_default_content:
  "slotComponents 0 requiredFooter = Inr requiredFooterSlots
   \<and> createComponentWithSlots 0 requiredFooter renderDiv False [] [NElem (footer ''mine'')] =
     Inr \<lparr>console_log = [],
          render_calls =
            [[(''slots'', JSlots [(''Footer'', SlotElement (footer ''mine''))]),
              (''nonSlotChildren'', JElements [])]],
          returned = Element FragmentType [NElem (Element (HostTag ''div'') [])]\<rparr>
   \<and> createComponentWithSlots_legacy requiredFooterSlots requiredFooterSlotConfig renderDiv False []
       [NElem (footer ''mine'')] =
     Inr \<lparr>console_log = [ConsoleWarn (duplicateWarning ''Footer'')],
          render_calls =
            [[(''slots'', JSlots [(''Footer'', SlotElement (footer ''mine''))]),
              (''nonSlotChildren'', JElements [])]],
          returned = Element FragmentType [NElem (Element (HostTag ''div'') [])]\<rparr>"
  by (simp add: builder_eval legacy_eval requiredFooter_def requiredFooterSlots_def
        requiredFooterSlotConfig_def renderDiv_def footer_def)

subsection \<open>C9\<close>

text \<open>
  C9, as amended. On a registry whose slot names are ordinary, a singular slot whose
  \<^verbatim>\<open>defaultContent\<close> is falsy starts as \<^verbatim>\<open>null\<close>, as a slot without default content
  does; when no child matches it, it is still \<^verbatim>\<open>null\<close> for the render function and, if
  it is required, it is in the list of missing slots. The claim as it is written fails for
  a slot named \<^verbatim>\<open>__proto__\<close>: the assignment of \<^verbatim>\<open>null\<close> leaves \<^verbatim>\<open>slotElements['__proto__']\<close>
  reading \<^verbatim>\<open>undefined\<close>, the slots object has no entry for the slot and the slot, though
  required and without a child, is not reported missing.
\<close>

theorem C9_falsy_default_is_no_default_amended:
  "(ordinaryNames slotsConfig \<longrightarrow>
    (\<exists>sc slotElems st missing r. slotComponents fid slotsConfig = Inr sc
      \<and> forEach (Object_keys slotsConfig) (initSlot slotsConfig) [] = Inr slotElems
      \<and> classify production slotsConfig sc children = Inr st
      \<and> missingRequiredSlots slotsConfig (slotElements st) = Inr missing
      \<and> createComponentWithSlots fid slotsConfig renderFn production props children = Inr r
      \<and> (\<forall>k config. map_of slotsConfig k = Some config \<and> \<not> multiple config
              \<and> \<not> truthy (defaultContent config) \<longrightarrow>
            slot_get slotElems k = SlotNull
            \<and> (matching sc k children = [] \<longrightarrow>
                 slot_get (slotsSeen r) k = SlotNull \<and> (isRequired config \<longrightarrow> k \<in> set missing)))))
   \<and> (ordinaryNames slots \<and> set (Object_keys slotConfig) \<subseteq> set (Object_keys slots) \<longrightarrow>
       (\<exists>slotElems st missing r.
          forEach (Object_keys slots) (legacy_initSlot slotConfig) [] = Inr slotElems
          \<and> legacy_classify production slots slotConfig children = Inr st
          \<and> legacy_missingRequiredSlots slotConfig (slotElements st) = Inr missing
          \<and> createComponentWithSlots_legacy slots slotConfig renderFn production props children = Inr r
          \<and> (\<forall>k config. map_of slotConfig k = Some config \<and> \<not> multiple config
                  \<and> \<not> truthy (defaultContent config) \<longrightarrow>
                slot_get slotElems k = SlotNull
                \<and> (matching slots k children = [] \<longrightarrow>
                     slot_get (slotsSeen r) k = SlotNull
                     \<and> (isRequired config \<longrightarrow> k \<in> set missing)))))"
proof (intro conjI impI)
  assume on: "ordinaryNames slotsConfig"
  from builder_pass[OF on, of fid renderFn production props children] obtain sc st r where
    bp: "builderPass fid slotsConfig renderFn production props children sc st r" by blast
  let ?missing = "filter (requiredAndEmpty slotsConfig (slotsSeen r)) (Object_keys slotsConfig)"
  let ?se = "assignAll (initialOf slotsConfig) (Object_keys slotsConfig) []"
  have "slot_get ?se k = SlotNull
            \<and> (matching sc k children = [] \<longrightarrow>
                 slot_get (slotsSeen r) k = SlotNull \<and> (isRequired config \<longrightarrow> k \<in> set ?missing))"
    if c: "map_of slotsConfig k = Some config \<and> \<not> multiple config \<and> \<not> truthy (defaultContent config)"
    for k config
    using builderPass_value[OF bp, of k config] c key_of_map_of[of slotsConfig k config]
    by (simp add: slotValue_def initialValue_def requiredAndEmpty_def slot_get_init)
  with builderPass_run(1,4,2)[OF bp] builderPass_missing[OF bp]
    init_builder[OF ordinaryNames_proto[OF on]]
  show "\<exists>sc slotElems st missing r. slotComponents fid slotsConfig = Inr sc
      \<and> forEach (Object_keys slotsConfig) (initSlot slotsConfig) [] = Inr slotElems
      \<and> classify production slotsConfig sc children = Inr st
      \<and> missingRequiredSlots slotsConfig (slotElements st) = Inr missing
      \<and> createComponentWithSlots fid slotsConfig renderFn production props children = Inr r
      \<and> (\<forall>k config. map_of slotsConfig k = Some config \<and> \<not> multiple config
              \<and> \<not> truthy (defaultContent config) \<longrightarrow>
            slot_get slotElems k = SlotNull
            \<and> (matching sc k children = [] \<longrightarrow>
                 slot_get (slotsSeen r) k = SlotNull \<and> (isRequired config \<longrightarrow> k \<in> set missing)))"
    by blast
next
  assume "ordinaryNames slots \<and> set (Object_keys slotConfig) \<subseteq> set (Object_keys slots)"
  then have on: "ordinaryNames slots"
    and H: "set (Object_keys slotConfig) \<subseteq> set (Object_keys slots)" by simp_all
  from legacy_pass[OF H on, of renderFn production props children] obtain st r where
    lp: "legacyPass slots slotConfig renderFn production props children st r" by blast
  let ?missing = "filter (requiredAndEmpty slotConfig (slotsSeen r)) (Object_keys slotConfig)"
  let ?cfg = "asBuilderConfig slots slotConfig"
  let ?se = "assignAll (initialOf ?cfg) (Object_keys ?cfg) []"
  have "''__proto__'' \<notin> fst ` set ?cfg" using ordinaryNames_proto[OF on] by simp
  then have init: "forEach (Object_keys slots) (legacy_initSlot slotConfig) [] = Inr ?se"
    using legacy_init_eq[of slots slotConfig] init_builder[of ?cfg] by simp
  have "slot_get ?se k = SlotNull
            \<and> (matching slots k children = [] \<longrightarrow>
                 slot_get (slotsSeen r) k = SlotNull \<and> (isRequired config \<longrightarrow> k \<in> set ?missing))"
    if c: "map_of slotConfig k = Some config \<and> \<not> multiple config \<and> \<not> truthy (defaultContent config)"
    for k config
  proof -
    from c have k: "k \<in> set (Object_keys slots)" using H key_of_map_of by fast
    then have "k \<in> fst ` set slots" by (simp add: Object_keys_def)
    from map_of_in_keys[OF this] obtain c1 where c1: "map_of slots k = Some c1" ..
    have i: "slot_get ?se k = SlotNull"
      using c c1 k
      by (simp add: slot_get_assignAll initialOf_def map_of_asBuilderConfig initialValue_def
            configOrEmpty_def)
    from legacyPass_value[OF lp k] c key_of_map_of[of slotConfig k config] i show ?thesis
      by (simp add: slotValue_def initialValue_def requiredAndEmpty_def configOrEmpty_def)
  qed
  with legacyPass_run(2,1)[OF lp] legacyPass_missing[OF lp H] init
  show "\<exists>slotElems st missing r.
          forEach (Object_keys slots) (legacy_initSlot slotConfig) [] = Inr slotElems
          \<and> legacy_classify production slots slotConfig children = Inr st
          \<and> legacy_missingRequiredSlots slotConfig (slotElements st) = Inr missing
          \<and> createComponentWithSlots_legacy slots slotConfig renderFn production props children = Inr r
          \<and> (\<forall>k config. map_of slotConfig k = Some config \<and> \<not> multiple config
                  \<and> \<not> truthy (defaultContent config) \<longrightarrow>
                slot_get slotElems k = SlotNull
                \<and> (matching slots k children = [] \<longrightarrow>
                     slot_get (slotsSeen r) k = SlotNull
                     \<and> (isRequired config \<longrightarrow> k \<in> set missing)))"
    by blast
qed

theorem C9_falsy_default_is_no_default_counterexample:
  "forEach [''__proto__'']
     (initSlot [(''__proto__'', \<lparr>isRequired = True, multiple = False, defaultContent = NNum 0,
                                   component = None\<rparr>)]) []
     = Inr [(''__proto__'', SlotUndefined)]
   \<and> missingRequiredSlots
       [(''__proto__'', \<lparr>isRequired = True, multiple = False, defaultContent = NNum 0,
                         component = None\<rparr>)] [(''__proto__'', SlotUndefined)] = Inr []
   \<and> createComponentWithSlots 0
       [(''__proto__'', \<lparr>isRequired = True, multiple = False, defaultContent = NNum 0,
                         component = None\<rparr>)] renderDiv False [] [] =
     Inr \<lparr>console_log = [],
          render_calls = [[(''slots'', JSlots []), (''nonSlotChildren'', JElements [])]],
          returned = Element FragmentType [NElem (Element (HostTag ''div'') [])]\<rparr>"
  by (simp add: builder_eval renderDiv_def)

theorem C9_falsy_default_is_no_default_amended_witness:
  "ordinaryNames falsyConfig \<and> ordinaryNames falsySlots
   \<and> map_of falsyConfig ''A'' =
      Some \<lparr>isRequired = True, multiple = False, defaultContent = NText [], component = None\<rparr>
   \<and> map_of falsyConfig ''B'' =
      Some \<lparr>isRequired = True, multiple = False, defaultContent = NNum 0, component = None\<rparr>
   \<and> map_of falsyConfig ''C'' =
      Some \<lparr>isRequired = True, multiple = False, defaultContent = NBool False, component = None\<rparr>
   \<and> \<not> truthy (NText []) \<and> \<not> truthy (NNum 0) \<and> \<not> truthy (NBool False)
   \<and> set (Object_keys falsySlotConfig) \<subseteq> set (Object_keys falsySlots)
   \<and> (\<exists>sc st missing r. slotComponents 0 falsyConfig = Inr sc
         \<and> classify False falsyConfig sc [] = Inr st
         \<and> missingRequiredSlots falsyConfig (slotElements st) = Inr missing
         \<and> createComponentWithSlots 0 falsyConfig renderDiv False [] [] = Inr r
         \<and> slot_get (slotsSeen r) ''A'' = SlotNull
         \<and> slot_get (slotsSeen r) ''B'' = SlotNull
         \<and> slot_get (slotsSeen r) ''C'' = SlotNull
         \<and> ''A'' \<in> set missing \<and> ''B'' \<in> set missing \<and> ''C'' \<in> set missing)
   \<and> (\<exists>st missing r. legacy_classify False falsySlots falsySlotConfig [] = Inr st
         \<and> legacy_missingRequiredSlots falsySlotConfig (slotElements st) = Inr missing
         \<and> createComponentWithSlots_legacy falsySlots falsySlotConfig renderDiv False [] [] = Inr r
         \<and> slot_get (slotsSeen r) ''A'' = SlotNull
         \<and> slot_get (slotsSeen r) ''B'' = SlotNull
         \<and> slot_get (slotsSeen r) ''C'' = SlotNull
         \<and> ''A'' \<in> set missing \<and> ''B'' \<in> set missing \<and> ''C'' \<in> set missing)"
proof -
  let ?a = "\<lparr>isRequired = True, multiple = False, defaultContent = NText [], component = None\<rparr>"
  let ?b = "\<lparr>isRequired = True, multiple = False, defaultContent = NNum 0, component = None\<rparr>"
  let ?c = "\<lparr>isRequired = True, multiple = False, defaultContent = NBool False, component = None\<rparr>"
  let ?la = "\<lparr>isRequired = True, multiple = False, defaultContent = NText []\<rparr>"
  let ?lb = "\<lparr>isRequired = True, multiple = False, defaultContent = NNum 0\<rparr>"
  let ?lc = "\<lparr>isRequired = True, multiple = False, defaultContent = NBool False\<rparr>"
  have m: "map_of falsyConfig ''A'' = Some ?a" "map_of falsyConfig ''B'' = Some ?b"
    "map_of falsyConfig ''C'' = Some ?c"
    by (simp_all add: falsyConfig_def)
  have lm: "map_of falsySlotConfig ''A'' = Some ?la" "map_of falsySlotConfig ''B'' = Some ?lb"
    "map_of falsySlotConfig ''C'' = Some ?lc"
    by (simp_all add: falsySlotConfig_def)
  have H: "set (Object_keys falsySlotConfig) \<subseteq> set (Object_keys falsySlots)"
    by (simp add: falsySlotConfig_def falsySlots_def Object_keys_def)
  note c9 = C9_falsy_default_is_no_default_amended[where fid = 0 and slotsConfig = falsyConfig
      and production = False and children = "[]" and renderFn = renderDiv and props = "[]"
      and slotConfig = falsySlotConfig and slots = falsySlots]
  from c9 falsy_names(1) obtain sc st missing r where
    r: "slotComponents 0 falsyConfig = Inr sc"
       "classify False falsyConfig sc [] = Inr st"
       "missingRequiredSlots falsyConfig (slotElements st) = Inr missing"
       "createComponentWithSlots 0 falsyConfig renderDiv False [] [] = Inr r" and
    v: "\<forall>k config. map_of falsyConfig k = Some config \<and> \<not> multiple config
              \<and> \<not> truthy (defaultContent config) \<longrightarrow>
            (matching sc k [] = [] \<longrightarrow>
                 slot_get (slotsSeen r) k = SlotNull \<and> (isRequired config \<longrightarrow> k \<in> set missing))"
    by blast
  from v[rule_format, of "''A''" ?a] v[rule_format, of "''B''" ?b] v[rule_format, of "''C''" ?c] m r
  have b: "\<exists>sc st missing r. slotComponents 0 falsyConfig = Inr sc
         \<and> classify False falsyConfig sc [] = Inr st
         \<and> missingRequiredSlots falsyConfig (slotElements st) = Inr missing
         \<and> createComponentWithSlots 0 falsyConfig renderDiv False [] [] = Inr r
         \<and> slot_get (slotsSeen r) ''A'' = SlotNull
         \<and> slot_get (slotsSeen r) ''B'' = SlotNull
         \<and> slot_get (slotsSeen r) ''C'' = SlotNull
         \<and> ''A'' \<in> set missing \<and> ''B'' \<in> set missing \<and> ''C'' \<in> set missing"
    by (intro exI[of _ sc] exI[of _ st] exI[of _ missing] exI[of _ r]) simp
  from c9 falsy_names(2) H obtain st' missing' r' where
    r': "legacy_classify False falsySlots falsySlotConfig [] = Inr st'"
        "legacy_missingRequiredSlots falsySlotConfig (slotElements st') = Inr missing'"
        "createComponentWithSlots_legacy falsySlots falsySlotConfig renderDiv False [] [] = Inr r'" and
    v': "\<forall>k config. map_of falsySlotConfig k = Some config \<and> \<not> multiple config
                  \<and> \<not> truthy (defaultContent config) \<longrightarrow>
                (matching falsySlots k [] = [] \<longrightarrow>
                     slot_get (slotsSeen r') k = SlotNull
                     \<and> (isRequired config \<longrightarrow> k \<in> set missing'))"
    by blast
  from v'[rule_format, of "''A''" ?la] v'[rule_format, of "''B''" ?lb] v'[rule_format, of "''C''" ?lc]
    lm r'
  have l: "\<exists>st missing r. legacy_classify False falsySlots falsySlotConfig [] = Inr st
         \<and> legacy_missingRequiredSlots falsySlotConfig (slotElements st) = Inr missing
         \<and> createComponentWithSlots_legacy falsySlots falsySlotConfig renderDiv False [] [] = Inr r
         \<and> slot_get (slotsSeen r) ''A'' = SlotNull
         \<and> slot_get (slotsSeen r) ''B'' = SlotNull
         \<and> slot_get (slotsSeen r) ''C'' = SlotNull
         \<and> ''A'' \<in> set missing \<and> ''B'' \<in> set missing \<and> ''C'' \<in> set missing"
    by (intro exI[of _ st'] exI[of _ missing'] exI[of _ r']) simp
  from falsy_names m H b l show ?thesis by simp
qed

subsection \<open>C10\<close>

text \<open>
  C10, as amended. On a registry whose slot names are ordinary, every structured child goes
  to exactly one destination, the leftover list or the one slot it matches: the leftover list and the lists of the children that
  match each slot partition the structured children. A multiple slot holds the whole list
  of its matching children; a singular slot holds only the last of them, or its initial
  value when there is none.
\<close>

theorem C10_one_destination_amended:
  "(ordinaryNames slotsConfig \<longrightarrow>
    (\<exists>sc r. slotComponents fid slotsConfig = Inr sc
      \<and> createComponentWithSlots fid slotsConfig renderFn production props children = Inr r
      \<and> mset (elementsOf children) =
          mset (leftoverSeen r)
          + (\<Sum>k\<in>set (Object_keys slotsConfig). mset (matching sc k children))
      \<and> (\<forall>k config. map_of slotsConfig k = Some config \<longrightarrow>
            slot_get (slotsSeen r) k =
              (if multiple config then SlotArray (matching sc k children)
               else if matching sc k children = [] then initialValue config
               else SlotElement (last (matching sc k children))))))
   \<and> (ordinaryNames slots \<and> set (Object_keys slotConfig) \<subseteq> set (Object_keys slots) \<longrightarrow>
       (\<exists>r. createComponentWithSlots_legacy slots slotConfig renderFn production props children = Inr r
          \<and> mset (elementsOf children) =
              mset (leftoverSeen r) + (\<Sum>k\<in>set (Object_keys slots). mset (matching slots k children))
          \<and> (\<forall>k. k \<in> set (Object_keys slots) \<longrightarrow>
                slot_get (slotsSeen r) k =
                  (if multiple (configOrEmpty slotConfig k) then SlotArray (matching slots k children)
                   else if matching slots k children = [] then initialValue (configOrEmpty slotConfig k)
                   else SlotElement (last (matching slots k children))))))"
proof (intro conjI impI)
  assume on: "ordinaryNames slotsConfig"
  from builder_pass[OF on, of fid renderFn production props children] obtain sc st r where
    bp: "builderPass fid slotsConfig renderFn production props children sc st r" by blast
  have "fst ` set sc \<subseteq> set (Object_keys slotsConfig)"
    using builderPass_run(3)[OF bp] by (simp add: Object_keys_def)
  from children_partition[OF this, of children] builderPass_leftover[OF bp]
  have p: "mset (elementsOf children) =
          mset (leftoverSeen r)
          + (\<Sum>k\<in>set (Object_keys slotsConfig). mset (matching sc k children))"
    by simp
  have "slot_get (slotsSeen r) k =
              (if multiple config then SlotArray (matching sc k children)
               else if matching sc k children = [] then initialValue config
               else SlotElement (last (matching sc k children)))"
    if "map_of slotsConfig k = Some config" for k config
    using builderPass_value[OF bp that] by (simp add: slotValue_def)
  with builderPass_run(1,2)[OF bp] p
  show "\<exists>sc r. slotComponents fid slotsConfig = Inr sc
      \<and> createComponentWithSlots fid slotsConfig renderFn production props children = Inr r
      \<and> mset (elementsOf children) =
          mset (leftoverSeen r)
          + (\<Sum>k\<in>set (Object_keys slotsConfig). mset (matching sc k children))
      \<and> (\<forall>k config. map_of slotsConfig k = Some config \<longrightarrow>
            slot_get (slotsSeen r) k =
              (if multiple config then SlotArray (matching sc k children)
               else if matching sc k children = [] then initialValue config
               else SlotElement (last (matching sc k children))))"
    by blast
next
  assume "ordinaryNames slots \<and> set (Object_keys slotConfig) \<subseteq> set (Object_keys slots)"
  then have on: "ordinaryNames slots"
    and H: "set (Object_keys slotConfig) \<subseteq> set (Object_keys slots)" by simp_all
  from legacy_pass[OF H on, of renderFn production props children] obtain st r where
    lp: "legacyPass slots slotConfig renderFn production props children st r" by blast
  have "fst ` set slots \<subseteq> set (Object_keys slots)" by (simp add: Object_keys_def)
  from children_partition[OF this, of children] legacyPass_leftover[OF lp]
  have p: "mset (elementsOf children) =
              mset (leftoverSeen r) + (\<Sum>k\<in>set (Object_keys slots). mset (matching slots k children))"
    by simp
  have "slot_get (slotsSeen r) k =
                  (if multiple (configOrEmpty slotConfig k) then SlotArray (matching slots k children)
                   else if matching slots k children = [] then initialValue (configOrEmpty slotConfig k)
                   else SlotElement (last (matching slots k children)))"
    if "k \<in> set (Object_keys slots)" for k
    using legacyPass_value[OF lp that] by (simp add: slotValue_def)
  with legacyPass_run(1)[OF lp] p
  show "\<exists>r. createComponentWithSlots_legacy slots slotConfig renderFn production props children = Inr r
          \<and> mset (elementsOf children) =
              mset (leftoverSeen r) + (\<Sum>k\<in>set (Object_keys slots). mset (matching slots k children))
          \<and> (\<forall>k. k \<in> set (Object_keys slots) \<longrightarrow>
                slot_get (slotsSeen r) k =
                  (if multiple (configOrEmpty slotConfig k) then SlotArray (matching slots k children)
                   else if matching slots k children = [] then initialValue (configOrEmpty slotConfig k)
                   else SlotElement (last (matching slots k children))))"
    by blast
qed

theorem C10_one_destination_counterexample:
  "createComponentWithSlots 0 onlyHeader renderDiv False []
       [NElem (header ''first''), NElem (header ''second'')] =
     Inr \<lparr>console_log = [ConsoleWarn (duplicateWarning ''Header'')],
          render_calls =
            [[(''slots'', JSlots [(''Header'', SlotElement (header ''second''))]),
              (''nonSlotChildren'', JElements [])]],
          returned = Element FragmentType [NElem (Element (HostTag ''div'') [])]\<rparr>
   \<and> placed \<lparr>console_log = [ConsoleWarn (duplicateWarning ''Header'')],
          render_calls =
            [[(''slots'', JSlots [(''Header'', SlotElement (header ''second''))]),
              (''nonSlotChildren'', JElements [])]],
          returned = Element FragmentType [NElem (Element (HostTag ''div'') [])]\<rparr>
       = [header ''second'']
   \<and> elementsOf [NElem (header ''first''), NElem (header ''second'')]
       = [header ''first'', header ''second'']
   \<and> header ''first'' \<noteq> header ''second''"
  by (simp add: builder_eval onlyHeader_def renderDiv_def header_def placed_def slotsSeen_def
        leftoverSeen_def)

theorem C10_one_destination_amended_witness:
  "ordinaryNames onlyHeader \<and> ordinaryNames onlyHeaderSlots
   \<and> map_of onlyHeader ''Header'' =
      Some \<lparr>isRequired = False, multiple = False, defaultContent = NUndefined, component = None\<rparr>
   \<and> set (Object_keys ([] :: LegacySlotConfig js_object)) \<subseteq> set (Object_keys onlyHeaderSlots)
   \<and> ''Header'' \<in> set (Object_keys onlyHeaderSlots)
   \<and> (\<exists>r. createComponentWithSlots 0 onlyHeader renderDiv False [] twoHeaders = Inr r
         \<and> mset (leftoverSeen r) + mset [header ''first'', header ''second'']
             = mset (elementsOf twoHeaders)
         \<and> slot_get (slotsSeen r) ''Header'' = SlotElement (header ''second''))
   \<and> (\<exists>r. createComponentWithSlots_legacy onlyHeaderSlots [] renderDiv False [] twoHeaders = Inr r
         \<and> mset (leftoverSeen r) + mset [header ''first'', header ''second'']
             = mset (elementsOf twoHeaders)
         \<and> slot_get (slotsSeen r) ''Header'' = SlotElement (header ''second''))"
proof -
  let ?h = "\<lparr>isRequired = False, multiple = False, defaultContent = NUndefined, component = None\<rparr>"
  have m: "map_of onlyHeader ''Header'' = Some ?h" by (simp add: onlyHeader_def)
  have H: "set (Object_keys ([] :: LegacySlotConfig js_object)) \<subseteq> set (Object_keys onlyHeaderSlots)"
    by (simp add: Object_keys_def)
  have k: "''Header'' \<in> set (Object_keys onlyHeaderSlots)"
    by (simp add: onlyHeaderSlots_def Object_keys_def)
  have ks: "set (Object_keys onlyHeader) = {''Header''}" "set (Object_keys onlyHeaderSlots) = {''Header''}"
    by (simp_all add: onlyHeader_def onlyHeaderSlots_def Object_keys_def)
  note c10 = C10_one_destination_amended[where fid = 0 and slotsConfig = onlyHeader
      and renderFn = renderDiv and production = False and props = "[]" and children = twoHeaders
      and slotConfig = "[]" and slots = onlyHeaderSlots]
  from c10 onlyHeader_names(1) obtain sc r where
    sc: "slotComponents 0 onlyHeader = Inr sc" and
    r: "createComponentWithSlots 0 onlyHeader renderDiv False [] twoHeaders = Inr r" and
    p: "mset (elementsOf twoHeaders) =
          mset (leftoverSeen r) + (\<Sum>k\<in>set (Object_keys onlyHeader). mset (matching sc k twoHeaders))" and
    v: "\<forall>k config. map_of onlyHeader k = Some config \<longrightarrow>
            slot_get (slotsSeen r) k =
              (if multiple config then SlotArray (matching sc k twoHeaders)
               else if matching sc k twoHeaders = [] then initialValue config
               else SlotElement (last (matching sc k twoHeaders)))"
    by blast
  from sc have s: "sc = onlyHeaderSlots" by (simp add: onlyHeader_components)
  from v[rule_format, OF m] have "slot_get (slotsSeen r) ''Header'' = SlotElement (header ''second'')"
    by (simp add: s twoHeaders_matching)
  moreover from p have "mset (leftoverSeen r) + mset [header ''first'', header ''second'']
             = mset (elementsOf twoHeaders)"
    by (simp add: s ks twoHeaders_matching)
  ultimately have b: "\<exists>r. createComponentWithSlots 0 onlyHeader renderDiv False [] twoHeaders = Inr r
         \<and> mset (leftoverSeen r) + mset [header ''first'', header ''second'']
             = mset (elementsOf twoHeaders)
         \<and> slot_get (slotsSeen r) ''Header'' = SlotElement (header ''second'')"
    using r by blast
  from c10 onlyHeader_names(2) H obtain r' where
    r': "createComponentWithSlots_legacy onlyHeaderSlots [] renderDiv False [] twoHeaders = Inr r'" and
    p': "mset (elementsOf twoHeaders) =
          mset (leftoverSeen r')
          + (\<Sum>k\<in>set (Object_keys onlyHeaderSlots). mset (matching onlyHeaderSlots k twoHeaders))" and
    v': "\<forall>k. k \<in> set (Object_keys onlyHeaderSlots) \<longrightarrow>
                slot_get (slotsSeen r') k =
                  (if multiple (configOrEmpty [] k) then SlotArray (matching onlyHeaderSlots k twoHeaders)
                   else if matching onlyHeaderSlots k twoHeaders = [] then initialValue (configOrEmpty [] k)
                   else SlotElement (last (matching onlyHeaderSlots k twoHeaders)))"
    by blast
  from v'[rule_format, OF k] have "slot_get (slotsSeen r') ''Header'' = SlotElement (header ''second'')"
    by (simp add: twoHeaders_matching configOrEmpty_def emptyConfig_def)
  moreover from p' have "mset (leftoverSeen r') + mset [header ''first'', header ''second'']
             = mset (elementsOf twoHeaders)"
    by (simp add: ks twoHeaders_matching)
  ultimately have l: "\<exists>r. createComponentWithSlots_legacy onlyHeaderSlots [] renderDiv False [] twoHeaders = Inr r
         \<and> mset (leftoverSeen r) + mset [header ''first'', header ''second'']
             = mset (elementsOf twoHeaders)
         \<and> slot_get (slotsSeen r) ''Header'' = SlotElement (header ''second'')"
    using r' by blast
  from onlyHeader_names m H k b l show ?thesis by blast
qed

end
